theory Spec2Isabelle
  imports Main "HOL-Library.AList" "HOL-Library.Sublist"
begin

section \<open>Data model (app/models.py)\<close>

text \<open>
  The persistent tables of the chat platform are SQLModel classes.  Each class is a
  record; the field names carry a one-letter prefix of the class (\<open>c_\<close> Conversation,
  \<open>m_\<close> Message, \<open>h_\<close> HandoffRequest, \<open>t_\<close> TopicStat, \<open>b_\<close> Chatbot) because several classes share column names.
  A \<open>datetime\<close> is a natural number read off the server clock, an \<open>Optional[str]\<close> is a
  \<open>string option\<close>.  The status columns are plain \<open>str\<close> columns in the source and stay
  strings here.
\<close>

type_synonym timestamp = nat

record conversation =
  c_uuid :: string
  c_chatbot_uuid :: string
  c_customer_name :: "string option"
  c_customer_email :: "string option"
  c_customer_phone :: "string option"
  c_session_id :: string
  c_client_uuid :: "string option"
  c_status :: string
  c_handoff_status :: string
  c_assigned_to_user_uuid :: "string option"
  c_created_at :: timestamp
  c_updated_at :: timestamp

record message =
  m_id :: nat
  m_conversation_uuid :: string
  m_role :: string
  m_content :: string
  m_feedback :: "string option"
  m_created_at :: timestamp
  m_topic :: "string option"

record handoff_request =
  h_id :: nat
  h_conversation_uuid :: string
  h_chatbot_uuid :: string
  h_status :: string
  h_requested_at :: timestamp
  h_accepted_at :: "timestamp option"
  h_accepted_by_user_uuid :: "string option"
  h_resolved_at :: "timestamp option"
  h_reason :: "string option"

text \<open>The per-chatbot count of classified messages (\<open>TopicStat\<close>).\<close>

record topic_stat =
  t_id :: nat
  t_chatbot_uuid :: string
  t_topic :: string
  t_message_count :: int
  t_updated_at :: timestamp

text \<open>
  Of a Chatbot only the key, the owning workspace and the activity flag are read by the
  functions below; its prompt configuration reaches nothing but the language model.
\<close>

record chatbot =
  b_uuid :: string
  b_workspace_uuid :: string
  b_is_active :: bool

text \<open>
  The store of record: the tables in insertion order, and the autoincrement
  counters of the integer primary keys.  A query ending in \<open>.first()\<close> is \<^const>\<open>find\<close>
  on the table, a query ending in \<open>.all()\<close> is \<^const>\<open>filter\<close>.
\<close>

record db =
  chatbots :: "chatbot list"
  conversations :: "conversation list"
  messages :: "message list"
  handoff_requests :: "handoff_request list"
  topic_stats :: "topic_stat list"
  next_message_id :: nat
  next_handoff_id :: nat
  next_topic_stat_id :: nat

text \<open>
  Exceptions are values.  The services raise \<open>ValueError\<close>; whatever an external
  collaborator raises (the language model, the vector index) is an \<open>Exception\<close> with
  its message.
\<close>

datatype error =
  ValueError string
  | Exception string

text \<open>\<open>str(e)\<close>: the message the exception was built with.\<close>

fun str_error :: "error \<Rightarrow> string" where
  "str_error (ValueError msg) = msg"
| "str_error (Exception msg) = msg"

text \<open>
  What a REST route gives its caller when it fails: an \<open>HTTPException\<close> with status
  code and detail, or an exception of a service that the route does not catch.
\<close>

datatype http_error =
  HTTPException nat string
  | Unhandled error

text \<open>\<open>select(Chatbot).where(Chatbot.uuid == u)).first()\<close>\<close>

definition get_chatbot :: "string \<Rightarrow> db \<Rightarrow> chatbot option" where
  "get_chatbot u s = find (\<lambda>b. b_uuid b = u) (chatbots s)"

text \<open>\<open>select(Conversation).where(Conversation.uuid == u)).first()\<close>\<close>

definition get_conversation :: "string \<Rightarrow> db \<Rightarrow> conversation option" where
  "get_conversation u s = find (\<lambda>c. c_uuid c = u) (conversations s)"

text \<open>\<open>select(HandoffRequest).where(HandoffRequest.id == i)).first()\<close>\<close>

definition get_handoff_request :: "nat \<Rightarrow> db \<Rightarrow> handoff_request option" where
  "get_handoff_request i s = find (\<lambda>r. h_id r = i) (handoff_requests s)"

text \<open>
  \<open>session.add(conversation); session.commit()\<close> for a conversation that was loaded from
  the store: the row with that primary key is replaced.  The column \<open>updated_at\<close> is
  declared with \<open>onupdate = now\<close>, so a row that is written with a net change gets the
  commit time; a row written back unchanged emits no UPDATE.
\<close>

definition save_conversation :: "conversation \<Rightarrow> timestamp \<Rightarrow> db \<Rightarrow> db" where
  "save_conversation c now s =
     s\<lparr>conversations :=
         map (\<lambda>x. if c_uuid x = c_uuid c
                   then (if c = x then x else c\<lparr>c_updated_at := now\<rparr>)
                   else x) (conversations s)\<rparr>"

text \<open>\<open>session.add(handoff_request); session.commit()\<close> for a loaded request.\<close>

definition save_handoff_request :: "handoff_request \<Rightarrow> db \<Rightarrow> db" where
  "save_handoff_request r s =
     s\<lparr>handoff_requests :=
         map (\<lambda>x. if h_id x = h_id r then r else x) (handoff_requests s)\<rparr>"

section \<open>Handoff service (app/services/handoff_service.py)\<close>

text \<open>
  \<open>HandoffService.create_handoff_request\<close>.  The pending request of the conversation
  is returned as it is when there is one.  Otherwise a request is built, the
  conversation (when the query finds it) is set to \<open>requested\<close>, and both are
  committed.  The function looks at no other column of the conversation: there is no
  check of the current \<open>handoff_status\<close>.
\<close>

definition create_handoff_request ::
  "string \<Rightarrow> string \<Rightarrow> string option \<Rightarrow> timestamp \<Rightarrow> db \<Rightarrow> handoff_request \<times> db" where
  "create_handoff_request conversation_uuid chatbot_uuid reason now s =
     (case find (\<lambda>r. h_conversation_uuid r = conversation_uuid \<and> h_status r = ''pending'')
             (handoff_requests s) of
        Some existing \<Rightarrow> (existing, s)
      | None \<Rightarrow>
          let handoff_request =
                \<lparr>h_id = next_handoff_id s,
                 h_conversation_uuid = conversation_uuid,
                 h_chatbot_uuid = chatbot_uuid,
                 h_status = ''pending'',
                 h_requested_at = now,
                 h_accepted_at = None,
                 h_accepted_by_user_uuid = None,
                 h_resolved_at = None,
                 h_reason = reason\<rparr>;
              s1 = (case get_conversation conversation_uuid s of
                      Some conversation \<Rightarrow>
                        save_conversation (conversation\<lparr>c_handoff_status := ''requested''\<rparr>) now s
                    | None \<Rightarrow> s)
          in (handoff_request,
              s1\<lparr>handoff_requests := handoff_requests s1 @ [handoff_request],
                 next_handoff_id := Suc (next_handoff_id s1)\<rparr>))"

text \<open>
  \<open>HandoffService.accept_handoff_request\<close>.  Both failures are a \<open>ValueError\<close>, told
  apart by the message; a raise leaves the store as it was.
\<close>

definition accept_handoff_request ::
  "nat \<Rightarrow> string \<Rightarrow> timestamp \<Rightarrow> db \<Rightarrow> (error + handoff_request) \<times> db" where
  "accept_handoff_request handoff_request_id user_uuid now s =
     (case get_handoff_request handoff_request_id s of
        None \<Rightarrow> (Inl (ValueError ''Handoff request not found''), s)
      | Some handoff_request \<Rightarrow>
          if h_status handoff_request \<noteq> ''pending''
          then (Inl (ValueError (''Handoff request is already '' @ h_status handoff_request)), s)
          else
            let accepted = handoff_request
                  \<lparr>h_status := ''accepted'',
                   h_accepted_at := Some now,
                   h_accepted_by_user_uuid := Some user_uuid\<rparr>;
                s1 = (case get_conversation (h_conversation_uuid handoff_request) s of
                        Some conversation \<Rightarrow>
                          save_conversation
                            (conversation\<lparr>c_handoff_status := ''human'',
                                          c_assigned_to_user_uuid := Some user_uuid\<rparr>) now s
                      | None \<Rightarrow> s)
            in (Inr accepted, save_handoff_request accepted s1))"

text \<open>
  \<open>.order_by(HandoffRequest.requested_at.desc())\<close>: the newest request first; rows
  with equal keys keep the order of the table.
\<close>

definition order_by_desc :: "('a \<Rightarrow> nat) \<Rightarrow> 'a list \<Rightarrow> 'a list" where
  "order_by_desc key xs = rev (sort_key key (rev xs))"

text \<open>\<open>HandoffService.get_pending_handoff_requests\<close>\<close>

definition get_pending_handoff_requests :: "string \<Rightarrow> db \<Rightarrow> handoff_request list" where
  "get_pending_handoff_requests chatbot_uuid s =
     order_by_desc h_requested_at
       (filter (\<lambda>r. h_chatbot_uuid r = chatbot_uuid \<and> h_status r = ''pending'')
          (handoff_requests s))"

text \<open>\<open>HandoffService.get_handoff_request_by_conversation\<close>: the newest request.\<close>

definition get_handoff_request_by_conversation :: "string \<Rightarrow> db \<Rightarrow> handoff_request option" where
  "get_handoff_request_by_conversation conversation_uuid s =
     (case order_by_desc h_requested_at
             (filter (\<lambda>r. h_conversation_uuid r = conversation_uuid) (handoff_requests s)) of
        [] \<Rightarrow> None
      | r # _ \<Rightarrow> Some r)"

section \<open>Handoff routes (app/api/routes/handoff.py)\<close>

text \<open>
  The routes return the request they worked on; the enrichment of the response with the
  customer's name and the last message reads the store and writes nothing, and is left
  out.  \<open>workspace_service.check_workspace_access\<close> belongs to the workspace subsystem:
  it is the parameter \<open>access\<close>, true when the user may enter the workspace.
\<close>

text \<open>\<open>POST /handoff/request\<close>\<close>

definition route_create_handoff_request ::
  "string \<Rightarrow> string option \<Rightarrow> timestamp \<Rightarrow> db \<Rightarrow> (http_error + handoff_request) \<times> db" where
  "route_create_handoff_request conversation_uuid reason now s =
     (case get_conversation conversation_uuid s of
        None \<Rightarrow> (Inl (HTTPException 404 ''Conversation not found''), s)
      | Some conversation \<Rightarrow>
          (case create_handoff_request conversation_uuid (c_chatbot_uuid conversation) reason now s of
             (handoff_request, s') \<Rightarrow> (Inr handoff_request, s')))"

text \<open>
  \<open>GET /handoff/pending/{chatbot_uuid}\<close>, the loop over the conversations that are
  \<open>requested\<close>: one whose uuid is not among the pending requests read at the start gets
  a request from \<open>create_handoff_request\<close>.
\<close>

fun reconcile ::
  "string \<Rightarrow> string list \<Rightarrow> timestamp \<Rightarrow> conversation list \<Rightarrow>
   handoff_request list \<times> db \<Rightarrow> handoff_request list \<times> db" where
  "reconcile chatbot_uuid existing_conversation_uuids now [] (requests, s) = (requests, s)"
| "reconcile chatbot_uuid existing_conversation_uuids now (conv # convs) (requests, s) =
     (if c_uuid conv \<notin> set existing_conversation_uuids
      then (case create_handoff_request (c_uuid conv) chatbot_uuid
                   (Some ''Auto-created from conversation status'') now s of
              (req, s') \<Rightarrow>
                reconcile chatbot_uuid existing_conversation_uuids now convs (requests @ [req], s'))
      else reconcile chatbot_uuid existing_conversation_uuids now convs (requests, s))"

definition route_get_pending_handoff_requests ::
  "(string \<Rightarrow> string \<Rightarrow> bool) \<Rightarrow> string \<Rightarrow> string \<Rightarrow> timestamp \<Rightarrow> db \<Rightarrow>
   (http_error + handoff_request list) \<times> db" where
  "route_get_pending_handoff_requests access chatbot_uuid current_user now s =
     (case get_chatbot chatbot_uuid s of
        None \<Rightarrow> (Inl (HTTPException 404 ''Chatbot not found''), s)
      | Some chatbot \<Rightarrow>
          if \<not> access (b_workspace_uuid chatbot) current_user
          then (Inl (HTTPException 403 ''Not authorized to view this chatbot's handoff requests''), s)
          else
            let requests = get_pending_handoff_requests chatbot_uuid s;
                conversations_requested =
                  filter (\<lambda>c. c_chatbot_uuid c = chatbot_uuid \<and> c_handoff_status c = ''requested'')
                    (conversations s);
                existing_conversation_uuids = map h_conversation_uuid requests
            in (case reconcile chatbot_uuid existing_conversation_uuids now
                       conversations_requested (requests, s) of
                  (requests', s') \<Rightarrow> (Inr (order_by_desc h_requested_at requests'), s')))"

text \<open>\<open>POST /handoff/accept\<close>: the service's \<open>ValueError\<close> is not caught.\<close>

definition route_accept_handoff_request ::
  "nat \<Rightarrow> string \<Rightarrow> timestamp \<Rightarrow> db \<Rightarrow> (http_error + handoff_request) \<times> db" where
  "route_accept_handoff_request handoff_request_id current_user now s =
     (case accept_handoff_request handoff_request_id current_user now s of
        (Inl e, s') \<Rightarrow> (Inl (Unhandled e), s')
      | (Inr handoff_request, s') \<Rightarrow> (Inr handoff_request, s'))"

text \<open>
  \<open>POST /handoff/takeover\<close>: the newest request of the conversation is taken, or one
  is created when the conversation has none; it is accepted when it is pending.
\<close>

definition take_over_conversation ::
  "(string \<Rightarrow> string \<Rightarrow> bool) \<Rightarrow> string \<Rightarrow> string \<Rightarrow> timestamp \<Rightarrow> db \<Rightarrow>
   (http_error + handoff_request) \<times> db" where
  "take_over_conversation access conversation_uuid current_user now s =
     (case get_conversation conversation_uuid s of
        None \<Rightarrow> (Inl (HTTPException 404 ''Conversation not found''), s)
      | Some conversation \<Rightarrow>
          (case get_chatbot (c_chatbot_uuid conversation) s of
             None \<Rightarrow> (Inl (HTTPException 404 ''Chatbot not found''), s)
           | Some chatbot \<Rightarrow>
               if \<not> access (b_workspace_uuid chatbot) current_user
               then (Inl (HTTPException 403 ''Not authorized to take over this conversation''), s)
               else
                 (case (case get_handoff_request_by_conversation conversation_uuid s of
                          None \<Rightarrow>
                            create_handoff_request conversation_uuid (c_chatbot_uuid conversation)
                              (Some ''Manual takeover'') now s
                        | Some handoff_request \<Rightarrow> (handoff_request, s)) of
                    (handoff_request, s1) \<Rightarrow>
                      if h_status handoff_request = ''pending''
                      then route_accept_handoff_request (h_id handoff_request) current_user now s1
                      else (Inr handoff_request, s1))))"

text \<open>
  The operations through which the Handoff Coordinator is reached, and the store after
  one of them.
\<close>

datatype coordinator_op =
  CreateRequest string "string option"
  | AcceptRequest nat string
  | GetPendingRequests string string
  | TakeOver string string

fun coordinator_step ::
  "(string \<Rightarrow> string \<Rightarrow> bool) \<Rightarrow> timestamp \<Rightarrow> coordinator_op \<Rightarrow> db \<Rightarrow> db" where
  "coordinator_step access now (CreateRequest conversation_uuid reason) s =
     snd (route_create_handoff_request conversation_uuid reason now s)"
| "coordinator_step access now (AcceptRequest handoff_request_id user_uuid) s =
     snd (route_accept_handoff_request handoff_request_id user_uuid now s)"
| "coordinator_step access now (GetPendingRequests chatbot_uuid user_uuid) s =
     snd (route_get_pending_handoff_requests access chatbot_uuid user_uuid now s)"
| "coordinator_step access now (TakeOver conversation_uuid user_uuid) s =
     snd (take_over_conversation access conversation_uuid user_uuid now s)"

text \<open>
  One move of a conversation row: the row keeps its key, and its \<open>handoff_status\<close> is
  what it was, or \<open>requested\<close>, or \<open>human\<close>.
\<close>

definition authority_step :: "conversation \<Rightarrow> conversation \<Rightarrow> bool" where
  "authority_step c c' \<longleftrightarrow>
     c_uuid c' = c_uuid c \<and>
     (c_handoff_status c' = c_handoff_status c \<or>
      c_handoff_status c' = ''requested'' \<or>
      c_handoff_status c' = ''human'')"

text \<open>
  The two writes of the service, seen on one conversation row.  Creating a request leaves
  the \<open>handoff_status\<close> as it was or sets it to \<open>requested\<close>; accepting one leaves it as
  it was or moves it from \<open>requested\<close> to \<open>human\<close>.
\<close>

definition request_step :: "conversation \<Rightarrow> conversation \<Rightarrow> bool" where
  "request_step c c' \<longleftrightarrow>
     c_uuid c' = c_uuid c \<and>
     (c_handoff_status c' = c_handoff_status c \<or> c_handoff_status c' = ''requested'')"

definition accept_step :: "conversation \<Rightarrow> conversation \<Rightarrow> bool" where
  "accept_step c c' \<longleftrightarrow>
     c_uuid c' = c_uuid c \<and>
     (c_handoff_status c' = c_handoff_status c
      \<or> (c_handoff_status c = ''requested'' \<and> c_handoff_status c' = ''human''))"

text \<open>
  A store in which the pending requests and the conversations agree: no conversation has
  two pending requests, and a conversation with a pending request is \<open>requested\<close>.
\<close>

definition pending_consistent :: "db \<Rightarrow> bool" where
  "pending_consistent s \<longleftrightarrow>
     distinct (map h_conversation_uuid
        (filter (\<lambda>r. h_status r = ''pending'') (handoff_requests s)))
     \<and> (\<forall>r \<in> set (handoff_requests s). \<forall>c \<in> set (conversations s).
          h_status r = ''pending'' \<and> c_uuid c = h_conversation_uuid r
          \<longrightarrow> c_handoff_status c = ''requested'')"

text \<open>What \<open>save_conversation\<close> leaves in the place of one row of the table.\<close>

definition written_row :: "conversation \<Rightarrow> timestamp \<Rightarrow> conversation \<Rightarrow> conversation" where
  "written_row c now x =
     (if c_uuid x = c_uuid c then (if c = x then x else c\<lparr>c_updated_at := now\<rparr>) else x)"
section \<open>Connection manager (app/services/websocket_manager.py)\<close>

text \<open>
  A WebSocket is known by a number.  A Python \<open>dict\<close> is an association list in
  insertion order (\<^const>\<open>map_of\<close> looks a key up, \<^const>\<open>AList.update\<close> stores,
  \<^const>\<open>AList.delete\<close> is \<open>del\<close>); a \<open>set\<close> of connections is a list without
  repetition (\<^const>\<open>List.insert\<close> is \<open>add\<close>, \<^const>\<open>removeAll\<close> is \<open>discard\<close>).
\<close>

type_synonym websocket = nat

record connection_manager =
  active_connections :: "(string \<times> websocket list) list"
  dashboard_connections :: "(string \<times> websocket list) list"
  dashboard_session_map :: "(string \<times> string) list"

definition new_manager :: connection_manager where
  "new_manager =
     \<lparr>active_connections = [], dashboard_connections = [], dashboard_session_map = []\<rparr>"

text \<open>
  The frames that travel over a connection: JSON objects with a \<open>type\<close> field, one
  constructor per shape the routes build.
\<close>

datatype frame =
  Connection_ack
  | Pong
  | Error_frame string
  | Conversation_created string string string
  | Dashboard_conversation_created string string
  | Typing bool
  | Message_chunk string timestamp
  | Message_complete string timestamp "nat option"
  | Message_frame string string timestamp
  | Agent_message string string timestamp
  | New_message string string string

text \<open>
  What a route does besides writing the store: each \<open>send_json\<close> on a connection, with
  the method of the manager that issued it (\<open>Direct\<close>: the route itself, on its own
  connection) and whether the connection took the frame
  (\<open>False\<close>: the send raised), and each call of the response generator.
\<close>

datatype channel = Direct | To_session string | To_dashboard string

datatype event =
  Send_json channel websocket frame bool
  | Generate string string

text \<open>Python's truth value of an \<open>Optional[str]\<close>: \<open>None\<close> and the empty string are false.\<close>

definition truthy :: "string option \<Rightarrow> bool" where
  "truthy x = (case x of None \<Rightarrow> False | Some v \<Rightarrow> v \<noteq> [])"

text \<open>\<open>ConnectionManager.connect\<close>\<close>

definition connect ::
  "websocket \<Rightarrow> string \<Rightarrow> string option \<Rightarrow> connection_manager \<Rightarrow> connection_manager" where
  "connect websocket session_id chatbot_uuid m =
     (if truthy chatbot_uuid \<and> prefix ''dashboard_'' session_id
      then
        m\<lparr>dashboard_connections :=
             AList.update (the chatbot_uuid)
               (List.insert websocket
                  (case map_of (dashboard_connections m) (the chatbot_uuid) of
                     None \<Rightarrow> [] | Some conns \<Rightarrow> conns))
               (dashboard_connections m),
           dashboard_session_map :=
             AList.update session_id (the chatbot_uuid) (dashboard_session_map m)\<rparr>
      else
        m\<lparr>active_connections :=
             AList.update session_id
               (List.insert websocket
                  (case map_of (active_connections m) session_id of
                     None \<Rightarrow> [] | Some conns \<Rightarrow> conns))
               (active_connections m)\<rparr>)"

text \<open>
  \<open>discard\<close> of a connection from the group under a key, and \<open>del\<close> of the group when
  it is left empty; nothing happens when the key is absent.
\<close>

definition discard_from ::
  "string \<Rightarrow> websocket \<Rightarrow> (string \<times> websocket list) list \<Rightarrow> (string \<times> websocket list) list" where
  "discard_from k websocket groups =
     (case map_of groups k of
        None \<Rightarrow> groups
      | Some conns \<Rightarrow>
          if removeAll websocket conns = [] then AList.delete k groups
          else AList.update k (removeAll websocket conns) groups)"

text \<open>\<open>ConnectionManager.disconnect\<close>\<close>

definition disconnect :: "websocket \<Rightarrow> string \<Rightarrow> connection_manager \<Rightarrow> connection_manager" where
  "disconnect websocket session_id m =
     (case map_of (dashboard_session_map m) session_id of
        Some chatbot_uuid \<Rightarrow>
          m\<lparr>dashboard_connections := discard_from chatbot_uuid websocket (dashboard_connections m),
             dashboard_session_map := AList.delete session_id (dashboard_session_map m)\<rparr>
      | None \<Rightarrow>
          m\<lparr>active_connections := discard_from session_id websocket (active_connections m)\<rparr>)"

text \<open>
  \<open>ConnectionManager.send_message\<close>: the loop over a copy of the session's group.  A
  connection whose \<open>send_json\<close> raises is disconnected and the loop goes on.  \<open>alive\<close>
  tells which connections take a frame.
\<close>

fun send_each ::
  "(websocket \<Rightarrow> bool) \<Rightarrow> frame \<Rightarrow> string \<Rightarrow> websocket list \<Rightarrow> connection_manager \<Rightarrow>
   connection_manager \<times> event list" where
  "send_each alive message session_id [] m = (m, [])"
| "send_each alive message session_id (connection # connections) m =
     (if alive connection
      then (case send_each alive message session_id connections m of
              (m', events) \<Rightarrow> (m', Send_json (To_session session_id) connection message True # events))
      else (case send_each alive message session_id connections
                   (disconnect connection session_id m) of
              (m', events) \<Rightarrow> (m', Send_json (To_session session_id) connection message False # events)))"

definition send_message ::
  "(websocket \<Rightarrow> bool) \<Rightarrow> frame \<Rightarrow> string \<Rightarrow> connection_manager \<Rightarrow>
   connection_manager \<times> event list" where
  "send_message alive message session_id m =
     (case map_of (active_connections m) session_id of
        None \<Rightarrow> (m, [])
      | Some connections \<Rightarrow> send_each alive message session_id connections m)"

text \<open>
  \<open>ConnectionManager.broadcast_to_dashboard\<close>.  After a failed send the inner loop walks
  the reverse index for the first session that belongs to this chatbot; only when it
  finds one is the connection discarded from the chatbot's group (the group is kept even
  when it becomes empty).
\<close>

definition drop_dead_dashboard ::
  "string \<Rightarrow> websocket \<Rightarrow> connection_manager \<Rightarrow> connection_manager" where
  "drop_dead_dashboard chatbot_uuid connection m =
     (case find (\<lambda>(sid, chatbot_uuid_map). chatbot_uuid_map = chatbot_uuid)
             (dashboard_session_map m) of
        None \<Rightarrow> m
      | Some _ \<Rightarrow>
          (case map_of (dashboard_connections m) chatbot_uuid of
             None \<Rightarrow> m
           | Some conns \<Rightarrow>
               m\<lparr>dashboard_connections :=
                    AList.update chatbot_uuid (removeAll connection conns)
                      (dashboard_connections m)\<rparr>))"

fun broadcast_each ::
  "(websocket \<Rightarrow> bool) \<Rightarrow> frame \<Rightarrow> string \<Rightarrow> websocket list \<Rightarrow> connection_manager \<Rightarrow>
   connection_manager \<times> event list" where
  "broadcast_each alive message chatbot_uuid [] m = (m, [])"
| "broadcast_each alive message chatbot_uuid (connection # connections) m =
     (if alive connection
      then (case broadcast_each alive message chatbot_uuid connections m of
              (m', events) \<Rightarrow>
                (m', Send_json (To_dashboard chatbot_uuid) connection message True # events))
      else (case broadcast_each alive message chatbot_uuid connections
                   (drop_dead_dashboard chatbot_uuid connection m) of
              (m', events) \<Rightarrow>
                (m', Send_json (To_dashboard chatbot_uuid) connection message False # events)))"

definition broadcast_to_dashboard ::
  "(websocket \<Rightarrow> bool) \<Rightarrow> frame \<Rightarrow> string \<Rightarrow> connection_manager \<Rightarrow>
   connection_manager \<times> event list" where
  "broadcast_to_dashboard alive message chatbot_uuid m =
     (case map_of (dashboard_connections m) chatbot_uuid of
        None \<Rightarrow> (m, [])
      | Some [] \<Rightarrow> (m, [])
      | Some connections \<Rightarrow> broadcast_each alive message chatbot_uuid connections m)"

section \<open>External collaborators\<close>

text \<open>
  The language model, the vector index, the credit ledger and the regular-expression
  searches lie outside the store.  Each is a function the services call; a call that can
  raise returns \<open>error + result\<close>.
  \<^item> \<open>extract_email\<close>, \<open>extract_phone\<close>, \<open>extract_name\<close>: the searches of
    \<open>ConversationDetailsService\<close> in a message text (\<open>None\<close>: nothing found);
  \<^item> \<open>has_credits_for_chatbot\<close>: the credit check of \<open>CreditsService\<close>;
  \<^item> \<open>user_explicitly_requests_handoff\<close>: the classifier
    \<open>ChatService._user_explicitly_requests_handoff\<close>;
  \<^item> \<open>retrieve_context\<close>: the similarity search for a chatbot and a query;
  \<^item> \<open>astream\<close>: the streamed completion for a chatbot, a context and a history, as the
    deltas it yields and the exception, if any, that ends the stream;
  \<^item> \<open>graph_ainvoke\<close>: the non-streaming workflow, giving the answer and the flag
    \<open>should_offer_handoff\<close>;
  \<^item> \<open>openai_api_key\<close> and \<open>classify_topic\<close>: the environment variable and the model
    call of the topic classifier.
\<close>

datatype lc_message = HumanMessage string | AIMessage string

record collaborators =
  extract_email :: "string \<Rightarrow> string option"
  extract_phone :: "string \<Rightarrow> string option"
  extract_name :: "string \<Rightarrow> string option"
  has_credits_for_chatbot :: "string \<Rightarrow> bool"
  user_explicitly_requests_handoff :: "string \<Rightarrow> bool"
  retrieve_context :: "string \<Rightarrow> string \<Rightarrow> error + string"
  astream :: "string \<Rightarrow> string \<Rightarrow> lc_message list \<Rightarrow> string list \<times> error option"
  graph_ainvoke :: "string \<Rightarrow> lc_message list \<Rightarrow> error + string \<times> bool"
  openai_api_key :: "string option"
  classify_topic :: "string \<Rightarrow> string \<Rightarrow> error + string"

section \<open>Conversation details (app/services/conversation_details_service.py)\<close>

text \<open>
  \<open>ConversationDetailsService.update_conversation_details\<close>: a field is written only
  when it is empty (for the name: empty or the placeholder \<open>Anonymous\<close>) and the search
  finds something; the row is committed when a field was written.
\<close>

definition update_conversation_details ::
  "collaborators \<Rightarrow> conversation \<Rightarrow> string \<Rightarrow> timestamp \<Rightarrow> db \<Rightarrow> bool \<times> db" where
  "update_conversation_details env conversation message_text now s =
     (let set_email = \<not> truthy (c_customer_email conversation)
                        \<and> truthy (extract_email env message_text);
          c1 = (if set_email
                then conversation\<lparr>c_customer_email := extract_email env message_text\<rparr>
                else conversation);
          set_phone = \<not> truthy (c_customer_phone c1) \<and> truthy (extract_phone env message_text);
          c2 = (if set_phone
                then c1\<lparr>c_customer_phone := extract_phone env message_text\<rparr>
                else c1);
          set_name = (\<not> truthy (c_customer_name c2) \<or> c_customer_name c2 = Some ''Anonymous'')
                        \<and> truthy (extract_name env message_text);
          c3 = (if set_name
                then c2\<lparr>c_customer_name := extract_name env message_text\<rparr>
                else c2);
          updated = (set_email \<or> set_phone \<or> set_name)
      in (updated, if updated then save_conversation c3 now s else s))"

section \<open>Chat service (app/services/chat_service.py)\<close>

text \<open>
  \<open>session.add(Message(...)); session.commit()\<close>: the next id of the sequence, no
  feedback, no topic, the commit time.
\<close>

definition add_message :: "string \<Rightarrow> string \<Rightarrow> string \<Rightarrow> timestamp \<Rightarrow> db \<Rightarrow> db" where
  "add_message conversation_uuid role content now s =
     s\<lparr>messages := messages s @
          [\<lparr>m_id = next_message_id s, m_conversation_uuid = conversation_uuid, m_role = role,
            m_content = content, m_feedback = None, m_created_at = now, m_topic = None\<rparr>],
       next_message_id := Suc (next_message_id s)\<rparr>"

text \<open>\<open>conversation.updated_at = datetime.utcnow(); session.add(conversation)\<close>\<close>

definition touch_conversation :: "string \<Rightarrow> timestamp \<Rightarrow> db \<Rightarrow> db" where
  "touch_conversation conversation_uuid now s =
     (case get_conversation conversation_uuid s of
        None \<Rightarrow> s
      | Some conversation \<Rightarrow> save_conversation (conversation\<lparr>c_updated_at := now\<rparr>) now s)"

text \<open>
  \<open>ChatService.create_conversation\<close>.  The key is drawn by \<open>uuid4\<close>; it is the
  parameter \<open>new_uuid\<close>, and a key the table already holds is refused by the primary
  key when the row is committed.
\<close>

definition create_conversation ::
  "string \<Rightarrow> string \<Rightarrow> string option \<Rightarrow> string option \<Rightarrow> string option \<Rightarrow> string \<Rightarrow>
   timestamp \<Rightarrow> db \<Rightarrow> (error + conversation) \<times> db" where
  "create_conversation chatbot_uuid session_id client_uuid customer_name customer_email
     new_uuid now s =
     (let conversation =
            \<lparr>c_uuid = new_uuid, c_chatbot_uuid = chatbot_uuid,
             c_customer_name = (if truthy customer_name then customer_name else Some ''Anonymous''),
             c_customer_email = customer_email, c_customer_phone = None,
             c_session_id = session_id, c_client_uuid = client_uuid,
             c_status = ''active'', c_handoff_status = ''ai'',
             c_assigned_to_user_uuid = None, c_created_at = now, c_updated_at = now\<rparr>
      in if new_uuid \<in> set (map c_uuid (conversations s))
         then (Inl (Exception ''IntegrityError''), s)
         else (Inr conversation, s\<lparr>conversations := conversations s @ [conversation]\<rparr>))"

text \<open>
  \<open>ChatService.get_or_create_conversation\<close>: the lookup is by chatbot, session id and
  status \<open>active\<close>; \<open>client_uuid\<close> is only stored in a new row.
\<close>

definition get_or_create_conversation ::
  "string \<Rightarrow> string \<Rightarrow> string option \<Rightarrow> string \<Rightarrow> timestamp \<Rightarrow> db \<Rightarrow>
   (error + conversation) \<times> db" where
  "get_or_create_conversation chatbot_uuid session_id client_uuid new_uuid now s =
     (case find (\<lambda>c. c_chatbot_uuid c = chatbot_uuid \<and> c_session_id c = session_id
                      \<and> c_status c = ''active'') (conversations s) of
        Some conversation \<Rightarrow> (Inr conversation, s)
      | None \<Rightarrow>
          create_conversation chatbot_uuid session_id client_uuid None None new_uuid now s)"

text \<open>
  The messages of one conversation, oldest first, as
  \<open>GET /chat/conversations/{conversation_uuid}/messages\<close> selects them.
\<close>

definition conversation_messages :: "string \<Rightarrow> db \<Rightarrow> message list" where
  "conversation_messages conversation_uuid s =
     sort_key m_created_at (filter (\<lambda>m. m_conversation_uuid m = conversation_uuid) (messages s))"

text \<open>The last ten messages of the conversation as model input, oldest first.\<close>

definition history :: "string \<Rightarrow> db \<Rightarrow> lc_message list" where
  "history conversation_uuid s =
     map (\<lambda>msg. if m_role msg = ''user'' then HumanMessage (m_content msg)
                 else AIMessage (m_content msg))
       (rev (take 10 (order_by_desc m_created_at
                        (filter (\<lambda>m. m_conversation_uuid m = conversation_uuid) (messages s)))))"

text \<open>
  \<open>ChatService._prepare_chat_run\<close>.  The deduction of the credit and the enqueueing of
  the topic classification write nothing to the tables modelled here.
\<close>

definition prepare_chat_run ::
  "collaborators \<Rightarrow> string \<Rightarrow> string \<Rightarrow> string \<Rightarrow> timestamp \<Rightarrow> db \<Rightarrow>
   (error + conversation \<times> lc_message list) \<times> db" where
  "prepare_chat_run env chatbot_uuid conversation_uuid user_message now s =
     (case get_chatbot chatbot_uuid s of
        None \<Rightarrow> (Inl (ValueError ''Chatbot not found''), s)
      | Some chatbot \<Rightarrow>
          if \<not> has_credits_for_chatbot env chatbot_uuid
          then (Inl (ValueError ''No message credits remaining. Your workspace has reached its monthly limit. Please upgrade your plan.''), s)
          else
            (case get_conversation conversation_uuid s of
               None \<Rightarrow> (Inl (ValueError ''Conversation not found''), s)
             | Some conversation \<Rightarrow>
                 let lc_messages = history conversation_uuid s @ [HumanMessage user_message];
                     s1 = add_message conversation_uuid ''user'' user_message now s;
                     s2 = snd (update_conversation_details env conversation user_message now s1)
                 in (Inr (conversation, lc_messages), s2)))"

text \<open>
  \<open>str.lower\<close> on the ASCII letters, and the test whether the answer already speaks of
  customer service.
\<close>

definition lower :: "string \<Rightarrow> string" where
  "lower text =
     map (\<lambda>c. if 65 \<le> (of_char c :: nat) \<and> (of_char c :: nat) \<le> 90
               then char_of ((of_char c :: nat) + 32) else c) text"

definition mentions_customer_service :: "string \<Rightarrow> bool" where
  "mentions_customer_service ai_response \<longleftrightarrow>
     sublist ''customer service'' (lower ai_response)
     \<or> sublist ''representative'' (lower ai_response)"

text \<open>
  \<open>ChatService.process_message\<close>, the non-streaming path of the REST endpoint.  The
  classifier's verdict overrides the flag of the workflow, and a handoff request is
  created when the flag is set; an exception of \<open>create_handoff_request\<close> would be
  caught and printed, and the model of that function raises none.
\<close>

definition process_message ::
  "collaborators \<Rightarrow> string \<Rightarrow> string \<Rightarrow> string \<Rightarrow> timestamp \<Rightarrow> db \<Rightarrow>
   (error + string) \<times> db \<times> event list" where
  "process_message env chatbot_uuid conversation_uuid user_message now s =
     (case prepare_chat_run env chatbot_uuid conversation_uuid user_message now s of
        (Inl e, s1) \<Rightarrow> (Inl e, s1, [])
      | (Inr (conversation, lc_messages), s1) \<Rightarrow>
          (case graph_ainvoke env chatbot_uuid lc_messages of
             Inl e \<Rightarrow> (Inl e, s1, [Generate conversation_uuid user_message])
           | Inr (answer, offer) \<Rightarrow>
               let explicit = user_explicitly_requests_handoff env user_message;
                   should_offer_handoff = (offer \<or> explicit);
                   ai_response =
                     (if explicit \<and> \<not> mentions_customer_service answer
                      then ''I understand you'd like to speak with a customer service representative. Let me connect you with someone who can help you better.''
                      else answer);
                   s2 = add_message conversation_uuid ''assistant'' ai_response now s1;
                   s3 = (if should_offer_handoff
                         then snd (create_handoff_request conversation_uuid chatbot_uuid
                                (Some (if explicit
                                       then ''User explicitly requested customer service''
                                       else ''AI determined handoff is needed'')) now s2)
                         else s2);
                   s4 = touch_conversation conversation_uuid now s3
               in (Inr ai_response, s4, [Generate conversation_uuid user_message])))"

text \<open>
  The loop of \<open>ChatService.stream_message\<close> over the deltas of the model: an empty
  delta is skipped, any other is appended to the answer and handed to \<open>on_chunk\<close>.
\<close>

fun stream_chunks ::
  "(string \<Rightarrow> connection_manager \<Rightarrow> connection_manager \<times> event list) \<Rightarrow> string list \<Rightarrow>
   string \<times> connection_manager \<times> event list \<Rightarrow> string \<times> connection_manager \<times> event list" where
  "stream_chunks on_chunk [] acc = acc"
| "stream_chunks on_chunk (delta # chunks) (full_response, m, events) =
     (if delta = [] then stream_chunks on_chunk chunks (full_response, m, events)
      else (case on_chunk delta m of
              (m', sent) \<Rightarrow> stream_chunks on_chunk chunks (full_response @ delta, m', events @ sent)))"

text \<open>
  \<open>ChatService.stream_message\<close>, the streaming path of the WebSocket endpoint: the
  preparation, the retrieval, the stream, then the assistant message and the timestamp.
  The function never calls the classifier and never calls \<open>create_handoff_request\<close>.
\<close>

definition stream_message ::
  "collaborators \<Rightarrow> (string \<Rightarrow> connection_manager \<Rightarrow> connection_manager \<times> event list) \<Rightarrow>
   string \<Rightarrow> string \<Rightarrow> string \<Rightarrow> timestamp \<Rightarrow> db \<Rightarrow> connection_manager \<Rightarrow>
   (error + string) \<times> db \<times> connection_manager \<times> event list" where
  "stream_message env on_chunk chatbot_uuid conversation_uuid user_message now s m =
     (case prepare_chat_run env chatbot_uuid conversation_uuid user_message now s of
        (Inl e, s1) \<Rightarrow> (Inl e, s1, m, [])
      | (Inr (conversation, lc_messages), s1) \<Rightarrow>
          (case retrieve_context env chatbot_uuid user_message of
             Inl e \<Rightarrow> (Inl e, s1, m, [Generate conversation_uuid user_message])
           | Inr context \<Rightarrow>
               (case astream env chatbot_uuid context lc_messages of
                  (chunks, failure) \<Rightarrow>
                    (case stream_chunks on_chunk chunks
                            ([], m, [Generate conversation_uuid user_message]) of
                       (full_response, m', events) \<Rightarrow>
                         (case failure of
                            Some e \<Rightarrow> (Inl e, s1, m', events)
                          | None \<Rightarrow>
                              (Inr full_response,
                               touch_conversation conversation_uuid now
                                 (add_message conversation_uuid ''assistant'' full_response now s1),
                               m', events))))))"

section \<open>Topic classification (app/tasks.py)\<close>

text \<open>\<open>str.strip()\<close>: the white space of ASCII is taken off both ends.\<close>

definition is_space :: "char \<Rightarrow> bool" where
  "is_space c \<longleftrightarrow> (of_char c :: nat) \<in> {9, 10, 11, 12, 13, 28, 29, 30, 31, 32}"

definition strip :: "string \<Rightarrow> string" where
  "strip text = rev (dropWhile is_space (rev (dropWhile is_space text)))"

text \<open>\<open>db.get(Message, message_id)\<close> and the write of a loaded message.\<close>

definition get_message :: "nat \<Rightarrow> db \<Rightarrow> message option" where
  "get_message i s = find (\<lambda>m. m_id m = i) (messages s)"

definition save_message :: "message \<Rightarrow> db \<Rightarrow> db" where
  "save_message msg s =
     s\<lparr>messages := map (\<lambda>x. if m_id x = m_id msg then msg else x) (messages s)\<rparr>"

text \<open>The count of the topic for the chatbot: a new row with 1, or one more.\<close>

definition count_topic :: "string \<Rightarrow> string \<Rightarrow> timestamp \<Rightarrow> db \<Rightarrow> db" where
  "count_topic chatbot_uuid topic now s =
     (case find (\<lambda>t. t_chatbot_uuid t = chatbot_uuid \<and> t_topic t = topic) (topic_stats s) of
        None \<Rightarrow>
          s\<lparr>topic_stats := topic_stats s @
               [\<lparr>t_id = next_topic_stat_id s, t_chatbot_uuid = chatbot_uuid, t_topic = topic,
                 t_message_count = 1, t_updated_at = now\<rparr>],
            next_topic_stat_id := Suc (next_topic_stat_id s)\<rparr>
      | Some stat \<Rightarrow>
          s\<lparr>topic_stats :=
               map (\<lambda>x. if t_id x = t_id stat
                         then stat\<lparr>t_message_count := t_message_count stat + 1,
                                   t_updated_at := now\<rparr>
                         else x) (topic_stats s)\<rparr>)"

text \<open>
  \<open>classify_message_topic\<close>, the background task.  Every failure ends in \<open>return None\<close>
  with the store untouched; a message that has a topic is answered with that topic.
\<close>

definition classify_message_topic ::
  "collaborators \<Rightarrow> nat \<Rightarrow> string \<Rightarrow> string \<Rightarrow> string \<Rightarrow> timestamp \<Rightarrow> db \<Rightarrow>
   string option \<times> db" where
  "classify_message_topic env message_id chatbot_uuid message_role content now s =
     (case get_message message_id s of
        None \<Rightarrow> (None, s)
      | Some message \<Rightarrow>
          if truthy (m_topic message) then (m_topic message, s)
          else if \<not> truthy (openai_api_key env) then (None, s)
          else
            (case classify_topic env (if message_role = ''user'' then ''customer'' else ''assistant'')
                    content of
               Inl llm_error \<Rightarrow> (None, s)
             | Inr result_topic \<Rightarrow>
                 if strip result_topic = [] then (None, s)
                 else
                   let topic_normalized = take 100 (strip result_topic)
                   in (Some topic_normalized,
                       count_topic chatbot_uuid topic_normalized now
                         (save_message (message\<lparr>m_topic := Some topic_normalized\<rparr>) s))))"

section \<open>Chat routes (app/api/routes/chat.py)\<close>

text \<open>
  \<open>POST /chat/messages/{message_id}/feedback\<close>.  The request body is validated to be
  \<open>like\<close> or \<open>dislike\<close> before the route runs.  The 404 and 400 responses are returned,
  not raised; the feedback of an assistant message is assigned without a look at the
  value it holds.
\<close>

datatype feedback = Like | Dislike

fun feedback_text :: "feedback \<Rightarrow> string" where
  "feedback_text Like = ''like''"
| "feedback_text Dislike = ''dislike''"

definition submit_feedback :: "nat \<Rightarrow> feedback \<Rightarrow> db \<Rightarrow> (http_error + message) \<times> db" where
  "submit_feedback message_id request_feedback s =
     (case get_message message_id s of
        None \<Rightarrow> (Inl (HTTPException 404 ''Message not found''), s)
      | Some message \<Rightarrow>
          if m_role message \<noteq> ''assistant''
          then (Inl (HTTPException 400 ''Feedback can only be submitted for assistant messages''), s)
          else (Inr (message\<lparr>m_feedback := Some (feedback_text request_feedback)\<rparr>),
                save_message (message\<lparr>m_feedback := Some (feedback_text request_feedback)\<rparr>) s))"

text \<open>
  \<open>POST /chat/{chatbot_uuid}/send\<close>, the REST fallback.  \<open>update_customer_info\<close> is the
  block under the comment "Update customer info if provided": the customer's name and
  e-mail of the request, when given, are assigned to the conversation, whatever it holds,
  before the message is processed.
\<close>

record send_message_request =
  q_message :: string
  q_session_id :: string
  q_customer_name :: "string option"
  q_customer_email :: "string option"

definition update_customer_info :: "send_message_request \<Rightarrow> conversation \<Rightarrow> conversation" where
  "update_customer_info request conversation =
     (let c1 = (if truthy (q_customer_name request)
                then conversation\<lparr>c_customer_name := q_customer_name request\<rparr>
                else conversation)
      in if truthy (q_customer_email request)
         then c1\<lparr>c_customer_email := q_customer_email request\<rparr>
         else c1)"

text \<open>The newest assistant message of a conversation.\<close>

definition last_assistant_message :: "string \<Rightarrow> db \<Rightarrow> message option" where
  "last_assistant_message conversation_uuid s =
     (case order_by_desc m_created_at
             (filter (\<lambda>m. m_conversation_uuid m = conversation_uuid \<and> m_role m = ''assistant'')
                (messages s)) of
        [] \<Rightarrow> None
      | msg # _ \<Rightarrow> Some msg)"

definition route_send_message ::
  "collaborators \<Rightarrow> string \<Rightarrow> send_message_request \<Rightarrow> string \<Rightarrow> timestamp \<Rightarrow> db \<Rightarrow>
   (http_error + message option) \<times> db \<times> event list" where
  "route_send_message env chatbot_uuid request new_uuid now s =
     (case get_chatbot chatbot_uuid s of
        None \<Rightarrow> (Inl (HTTPException 404 ''Chatbot not found''), s, [])
      | Some chatbot \<Rightarrow>
          (case get_or_create_conversation chatbot_uuid (q_session_id request) None new_uuid now s of
             (Inl e, s1) \<Rightarrow> (Inl (Unhandled e), s1, [])
           | (Inr conversation, s1) \<Rightarrow>
               let s2 = save_conversation (update_customer_info request conversation) now s1
               in (case process_message env chatbot_uuid (c_uuid conversation)
                          (q_message request) now s2 of
                     (Inl e, s3, events) \<Rightarrow> (Inl (HTTPException 500 (str_error e)), s3, events)
                   | (Inr ai_response, s3, events) \<Rightarrow>
                       (Inr (last_assistant_message (c_uuid conversation) s3), s3, events))))"

section \<open>The message relay (websocket_endpoint in app/api/routes/chat.py)\<close>

text \<open>
  One turn of the read loop of a widget connection.  The state of the loop is the
  conversation bound to the connection (\<open>None\<close> until the first message), the store, the
  connection manager, what has been sent so far, and whether the loop still runs.
\<close>

datatype inbound = Ping | Message "string option" | Other_type

record relay =
  r_conversation :: "string option"
  r_db :: db
  r_manager :: connection_manager
  r_events :: "event list"
  r_connected :: bool

text \<open>The callback \<open>handle_chunk\<close> that the endpoint hands to \<open>stream_message\<close>.\<close>

definition handle_chunk ::
  "(websocket \<Rightarrow> bool) \<Rightarrow> string \<Rightarrow> timestamp \<Rightarrow> string \<Rightarrow> connection_manager \<Rightarrow>
   connection_manager \<times> event list" where
  "handle_chunk alive session_id now delta m =
     send_message alive (Message_chunk delta now) session_id m"

text \<open>
  The branch \<open>handoff_status == "human"\<close>: the message is stored with the role \<open>user\<close>,
  the conversation is touched, the details are extracted, the dashboard is told.
\<close>

definition relay_human ::
  "collaborators \<Rightarrow> (websocket \<Rightarrow> bool) \<Rightarrow> string \<Rightarrow> conversation \<Rightarrow> string \<Rightarrow> timestamp \<Rightarrow>
   db \<Rightarrow> connection_manager \<Rightarrow> db \<times> connection_manager \<times> event list" where
  "relay_human env alive chatbot_uuid conversation user_message now s m =
     (let s1 = add_message (c_uuid conversation) ''user'' user_message now s;
          s2 = save_conversation (conversation\<lparr>c_updated_at := now\<rparr>) now s1;
          s3 = snd (update_conversation_details env (conversation\<lparr>c_updated_at := now\<rparr>)
                      user_message now s2)
      in (case broadcast_to_dashboard alive
                 (New_message (c_uuid conversation) chatbot_uuid ''user'') chatbot_uuid m of
            (m1, sent) \<Rightarrow> (s3, m1, sent)))"

text \<open>The branch \<open>handoff_status == "requested"\<close>: as above, and the fixed acknowledgment.\<close>

definition relay_requested ::
  "collaborators \<Rightarrow> (websocket \<Rightarrow> bool) \<Rightarrow> string \<Rightarrow> string \<Rightarrow> conversation \<Rightarrow> string \<Rightarrow>
   timestamp \<Rightarrow> db \<Rightarrow> connection_manager \<Rightarrow> db \<times> connection_manager \<times> event list" where
  "relay_requested env alive chatbot_uuid session_id conversation user_message now s m =
     (let s1 = add_message (c_uuid conversation) ''user'' user_message now s;
          s2 = save_conversation (conversation\<lparr>c_updated_at := now\<rparr>) now s1;
          s3 = snd (update_conversation_details env (conversation\<lparr>c_updated_at := now\<rparr>)
                      user_message now s2)
      in (case broadcast_to_dashboard alive
                 (New_message (c_uuid conversation) chatbot_uuid ''user'') chatbot_uuid m of
            (m1, sent1) \<Rightarrow>
              (case send_message alive
                      (Message_frame ''assistant''
                         ''Your message has been received. A customer service representative will respond shortly.''
                         now) session_id m1 of
                 (m2, sent2) \<Rightarrow> (s3, m2, sent1 @ sent2))))"

text \<open>
  The remaining branch: the typing indicator, then \<open>stream_message\<close> inside \<open>try\<close>.  When
  it returns, the indicator is stopped, the completion frame carries the answer and the
  id of the newest assistant message, and the dashboard is told.  When it raises, the
  indicator is stopped and an error frame carries \<open>str(e)\<close>, or the fixed text when
  \<open>str(e)\<close> is empty.
\<close>

definition relay_automated ::
  "collaborators \<Rightarrow> (websocket \<Rightarrow> bool) \<Rightarrow> string \<Rightarrow> string \<Rightarrow> conversation \<Rightarrow> string \<Rightarrow>
   timestamp \<Rightarrow> db \<Rightarrow> connection_manager \<Rightarrow> db \<times> connection_manager \<times> event list" where
  "relay_automated env alive chatbot_uuid session_id conversation user_message now s m =
     (case send_message alive (Typing True) session_id m of
        (m1, sent1) \<Rightarrow>
          (case stream_message env (handle_chunk alive session_id now) chatbot_uuid
                  (c_uuid conversation) user_message now s m1 of
             (Inr ai_response, s1, m2, sent2) \<Rightarrow>
               (case send_message alive (Typing False) session_id m2 of
                  (m3, sent3) \<Rightarrow>
                    (case send_message alive
                            (Message_complete ai_response now
                               (map_option m_id (last_assistant_message (c_uuid conversation) s1)))
                            session_id m3 of
                       (m4, sent4) \<Rightarrow>
                         (case broadcast_to_dashboard alive
                                 (New_message (c_uuid conversation) chatbot_uuid ''assistant'')
                                 chatbot_uuid m4 of
                            (m5, sent5) \<Rightarrow> (s1, m5, sent1 @ sent2 @ sent3 @ sent4 @ sent5))))
           | (Inl e, s1, m2, sent2) \<Rightarrow>
               (case send_message alive (Typing False) session_id m2 of
                  (m3, sent3) \<Rightarrow>
                    (case send_message alive
                            (Error_frame (if str_error e \<noteq> [] then str_error e
                                          else ''Failed to process message''))
                            session_id m3 of
                       (m4, sent4) \<Rightarrow> (s1, m4, sent1 @ sent2 @ sent3 @ sent4)))))"

text \<open>
  The first message of a connection: the conversation of the session is fetched or
  created (with the client id of the query, or a fresh one), and announced to the session
  and to the dashboard.  An exception ends in an error frame, and no conversation is
  bound.
\<close>

definition initialize_conversation ::
  "(websocket \<Rightarrow> bool) \<Rightarrow> string \<Rightarrow> string \<Rightarrow> string option \<Rightarrow> string \<Rightarrow> string \<Rightarrow>
   timestamp \<Rightarrow> db \<Rightarrow> connection_manager \<Rightarrow>
   string option \<times> db \<times> connection_manager \<times> event list" where
  "initialize_conversation alive chatbot_uuid session_id client_uuid new_client_uuid new_uuid
     now s m =
     (let final_client_uuid = (if truthy client_uuid then the client_uuid else new_client_uuid)
      in (case get_or_create_conversation chatbot_uuid session_id (Some final_client_uuid)
                 new_uuid now s of
            (Inr conversation, s1) \<Rightarrow>
              (case send_message alive
                      (Conversation_created (c_uuid conversation) final_client_uuid session_id)
                      session_id m of
                 (m1, sent1) \<Rightarrow>
                   (case broadcast_to_dashboard alive
                           (Dashboard_conversation_created (c_uuid conversation) chatbot_uuid)
                           chatbot_uuid m1 of
                      (m2, sent2) \<Rightarrow> (Some (c_uuid conversation), s1, m2, sent1 @ sent2)))
          | (Inl e, s1) \<Rightarrow>
              (case send_message alive (Error_frame ''Failed to initialize conversation'')
                      session_id m of
                 (m1, sent1) \<Rightarrow> (None, s1, m1, sent1))))"

text \<open>
  The turn for a message with a body, once a conversation is bound: the row is read
  again from the store (\<open>session.refresh\<close>; a row that is gone raises, which ends the
  connection), and its \<open>handoff_status\<close> chooses the branch.
\<close>

definition relay_message ::
  "collaborators \<Rightarrow> (websocket \<Rightarrow> bool) \<Rightarrow> websocket \<Rightarrow> string \<Rightarrow> string \<Rightarrow> string \<Rightarrow> string \<Rightarrow>
   timestamp \<Rightarrow> relay \<Rightarrow> relay" where
  "relay_message env alive websocket chatbot_uuid session_id conversation_uuid user_message
     now r =
     (case get_conversation conversation_uuid (r_db r) of
        None \<Rightarrow>
          r\<lparr>r_manager := disconnect websocket session_id (r_manager r), r_connected := False\<rparr>
      | Some conversation \<Rightarrow>
          (case (if c_handoff_status conversation = ''human''
                 then relay_human env alive chatbot_uuid conversation user_message now
                        (r_db r) (r_manager r)
                 else if c_handoff_status conversation = ''requested''
                 then relay_requested env alive chatbot_uuid session_id conversation user_message
                        now (r_db r) (r_manager r)
                 else relay_automated env alive chatbot_uuid session_id conversation user_message
                        now (r_db r) (r_manager r)) of
             (s', m', sent) \<Rightarrow>
               r\<lparr>r_db := s', r_manager := m', r_events := r_events r @ sent\<rparr>))"

text \<open>
  One turn of the loop for an inbound frame: \<open>ping\<close> is answered on the connection
  itself, a message without a body and a frame of another type are skipped.
\<close>

definition websocket_endpoint_step ::
  "collaborators \<Rightarrow> (websocket \<Rightarrow> bool) \<Rightarrow> websocket \<Rightarrow> string \<Rightarrow> string \<Rightarrow> string option \<Rightarrow>
   string \<Rightarrow> string \<Rightarrow> timestamp \<Rightarrow> inbound \<Rightarrow> relay \<Rightarrow> relay" where
  "websocket_endpoint_step env alive websocket chatbot_uuid session_id client_uuid
     new_client_uuid new_uuid now data r =
     (case data of
        Ping \<Rightarrow>
          if alive websocket
          then r\<lparr>r_events := r_events r @ [Send_json Direct websocket Pong True]\<rparr>
          else r\<lparr>r_events := r_events r @ [Send_json Direct websocket Pong False],
                 r_manager := disconnect websocket session_id (r_manager r),
                 r_connected := False\<rparr>
      | Other_type \<Rightarrow> r
      | Message body \<Rightarrow>
          if \<not> truthy body then r
          else
            (case r_conversation r of
               Some conversation_uuid \<Rightarrow>
                 relay_message env alive websocket chatbot_uuid session_id conversation_uuid
                   (the body) now r
             | None \<Rightarrow>
                 (case initialize_conversation alive chatbot_uuid session_id client_uuid
                         new_client_uuid new_uuid now (r_db r) (r_manager r) of
                    (None, s1, m1, sent) \<Rightarrow>
                      r\<lparr>r_db := s1, r_manager := m1, r_events := r_events r @ sent\<rparr>
                  | (Some conversation_uuid, s1, m1, sent) \<Rightarrow>
                      relay_message env alive websocket chatbot_uuid session_id conversation_uuid
                        (the body) now
                        (r\<lparr>r_conversation := Some conversation_uuid, r_db := s1,
                           r_manager := m1, r_events := r_events r @ sent\<rparr>))))"

section \<open>Example stores\<close>

text \<open>
  One chatbot and one conversation that is still answered by the automated responder;
  then the same store after a handoff request, and after an operator accepted it.
\<close>

definition grant_all :: "string \<Rightarrow> string \<Rightarrow> bool" where
  "grant_all workspace_uuid user_uuid = True"

definition conversation_1 :: conversation where
  "conversation_1 =
     \<lparr>c_uuid = ''conv-1'', c_chatbot_uuid = ''bot-1'',
      c_customer_name = Some ''Anonymous'', c_customer_email = None, c_customer_phone = None,
      c_session_id = ''session-A'', c_client_uuid = Some ''client-1'',
      c_status = ''active'', c_handoff_status = ''ai'', c_assigned_to_user_uuid = None,
      c_created_at = 1, c_updated_at = 1\<rparr>"

definition store_automated :: db where
  "store_automated =
     \<lparr>chatbots = [\<lparr>b_uuid = ''bot-1'', b_workspace_uuid = ''ws-1'', b_is_active = True\<rparr>],
      conversations = [conversation_1],
      messages = [],
      handoff_requests = [],
      topic_stats = [],
      next_message_id = 1,
      next_handoff_id = 1,
      next_topic_stat_id = 1\<rparr>"

definition store_requested :: db where
  "store_requested =
     coordinator_step grant_all 10 (CreateRequest ''conv-1'' (Some ''help'')) store_automated"

definition store_human :: db where
  "store_human = coordinator_step grant_all 20 (AcceptRequest 1 ''agent-1'') store_requested"

text \<open>A second conversation of the same client, on another session.\<close>

definition conversation_2 :: conversation where
  "conversation_2 =
     \<lparr>c_uuid = ''conv-2'', c_chatbot_uuid = ''bot-1'',
      c_customer_name = Some ''Anonymous'', c_customer_email = None, c_customer_phone = None,
      c_session_id = ''session-B'', c_client_uuid = Some ''client-1'',
      c_status = ''active'', c_handoff_status = ''ai'', c_assigned_to_user_uuid = None,
      c_created_at = 6, c_updated_at = 6\<rparr>"

definition store_two_sessions :: db where
  "store_two_sessions = store_automated\<lparr>conversations := [conversation_1, conversation_2]\<rparr>"

text \<open>
  Collaborators that find nothing in a message and answer every question, and
  collaborators whose searches always find an e-mail address, a phone number and a name.
\<close>

definition quiet_collaborators :: collaborators where
  "quiet_collaborators =
     \<lparr>extract_email = (\<lambda>body. None),
      extract_phone = (\<lambda>body. None),
      extract_name = (\<lambda>body. None),
      has_credits_for_chatbot = (\<lambda>chatbot_uuid. True),
      user_explicitly_requests_handoff = (\<lambda>body. False),
      retrieve_context = (\<lambda>chatbot_uuid query. Inr ''opening hours: 9 to 5''),
      astream = (\<lambda>chatbot_uuid context history. ([''We are '', '''', ''open.''], None)),
      graph_ainvoke = (\<lambda>chatbot_uuid history. Inr (''We are open.'', False)),
      openai_api_key = Some ''key'',
      classify_topic = (\<lambda>role_label content. Inr '' Opening Hours '')\<rparr>"

definition eager_collaborators :: collaborators where
  "eager_collaborators =
     quiet_collaborators
       \<lparr>extract_email := (\<lambda>body. Some ''found@example.org''),
        extract_phone := (\<lambda>body. Some ''555-123-4567''),
        extract_name := (\<lambda>body. Some ''Bob'')\<rparr>"

text \<open>
  A conversation whose customer is known by name and e-mail, and a REST request on its
  session that names somebody else.
\<close>

definition conversation_known :: conversation where
  "conversation_known =
     conversation_1\<lparr>c_customer_name := Some ''Alice'',
                     c_customer_email := Some ''alice@example.org''\<rparr>"

definition store_known_customer :: db where
  "store_known_customer = store_automated\<lparr>conversations := [conversation_known]\<rparr>"

definition request_other_identity :: send_message_request where
  "request_other_identity =
     \<lparr>q_message = ''hello'', q_session_id = ''session-A'',
      q_customer_name = Some ''Mallory'', q_customer_email = Some ''mallory@example.org''\<rparr>"

text \<open>The three customer identity fields of a conversation.\<close>

definition customer_fields :: "conversation \<Rightarrow> string option \<times> string option \<times> string option" where
  "customer_fields c = (c_customer_name c, c_customer_email c, c_customer_phone c)"

text \<open>
  Two messages are the same but for the feedback and the topic: the second, with the
  feedback and the topic of the first put back, is the first.
\<close>

definition same_but_feedback_and_topic :: "message \<Rightarrow> message \<Rightarrow> bool" where
  "same_but_feedback_and_topic m m' \<longleftrightarrow>
     m'\<lparr>m_feedback := m_feedback m, m_topic := m_topic m\<rparr> = m"

text \<open>An assistant message that was liked and has a topic.\<close>

definition message_liked :: message where
  "message_liked =
     \<lparr>m_id = 1, m_conversation_uuid = ''conv-1'', m_role = ''assistant'',
      m_content = ''We are open.'', m_feedback = Some ''like'', m_created_at = 3,
      m_topic = Some ''Opening Hours''\<rparr>"

definition store_feedback :: db where
  "store_feedback = store_automated\<lparr>messages := [message_liked], next_message_id := 2\<rparr>"

section \<open>Connections and events of the examples\<close>

text \<open>The connections registered under a session id, and under a chatbot for its dashboards.\<close>

definition session_group :: "string \<Rightarrow> connection_manager \<Rightarrow> websocket list" where
  "session_group session_id m =
     (case map_of (active_connections m) session_id of None \<Rightarrow> [] | Some conns \<Rightarrow> conns)"

definition dashboard_group :: "string \<Rightarrow> connection_manager \<Rightarrow> websocket list" where
  "dashboard_group chatbot_uuid m =
     (case map_of (dashboard_connections m) chatbot_uuid of None \<Rightarrow> [] | Some conns \<Rightarrow> conns)"

text \<open>An event that is a call of the response generator; an event that is a frame for the
  customer (anything sent but a dashboard broadcast).\<close>

fun generator_call :: "event \<Rightarrow> bool" where
  "generator_call (Generate conversation_uuid user_message) = True"
| "generator_call (Send_json ch ws fr ok) = False"

fun customer_frame :: "event \<Rightarrow> bool" where
  "customer_frame (Send_json (To_dashboard chatbot_uuid) ws fr ok) = False"
| "customer_frame (Send_json ch ws fr ok) = True"
| "customer_frame (Generate conversation_uuid user_message) = False"

text \<open>Connections that all take a frame, and connections that are all dead.\<close>

definition everybody_alive :: "websocket \<Rightarrow> bool" where
  "everybody_alive websocket = True"

definition nobody_alive :: "websocket \<Rightarrow> bool" where
  "nobody_alive websocket = False"

text \<open>
  A manager with the widget connection 7 on \<open>session-A\<close> and the dashboard connection 9 of
  \<open>bot-1\<close>; and a manager on which two dashboard connections came with one session id
  and the first of them has left.
\<close>

definition manager_live :: connection_manager where
  "manager_live =
     connect 9 ''dashboard_ops'' (Some ''bot-1'')
       (connect 7 ''session-A'' (Some ''bot-1'') new_manager)"

definition manager_two_tabs :: connection_manager where
  "manager_two_tabs =
     disconnect 1 ''dashboard_ops''
       (connect 2 ''dashboard_ops'' (Some ''bot-1'')
          (connect 1 ''dashboard_ops'' (Some ''bot-1'') new_manager))"

text \<open>The relay of \<open>session-A\<close>, bound to \<open>conv-1\<close>, on the store where an operator has taken
  over and on the store where the automated responder answers.\<close>

definition relay_on_human :: relay where
  "relay_on_human =
     \<lparr>r_conversation = Some ''conv-1'', r_db = store_human, r_manager = manager_live,
      r_events = [], r_connected = True\<rparr>"

definition relay_on_automated :: relay where
  "relay_on_automated =
     \<lparr>r_conversation = Some ''conv-1'', r_db = store_automated, r_manager = manager_live,
      r_events = [], r_connected = True\<rparr>"

text \<open>
  Collaborators whose vector index fails, and collaborators whose classifier finds an
  explicit request for a human in every message.
\<close>

definition failing_collaborators :: collaborators where
  "failing_collaborators =
     quiet_collaborators
       \<lparr>retrieve_context :=
          (\<lambda>chatbot_uuid query.
             Inl (Exception ''PineconeApiException: (401) Unauthorized, api key pc-4f2a rejected''))\<rparr>"

definition asking_collaborators :: collaborators where
  "asking_collaborators =
     quiet_collaborators\<lparr>user_explicitly_requests_handoff := (\<lambda>body. True)\<rparr>"

text \<open>The store after the first message of \<open>conv-1\<close> was stored, and after it was answered.\<close>

definition store_after_hello :: db where
  "store_after_hello =
     store_automated
       \<lparr>messages :=
          [\<lparr>m_id = 1, m_conversation_uuid = ''conv-1'', m_role = ''user'',
            m_content = ''hello'', m_feedback = None, m_created_at = 40, m_topic = None\<rparr>],
        next_message_id := 2\<rparr>"

definition store_after_request :: db where
  "store_after_request =
     store_automated
       \<lparr>conversations := [conversation_1\<lparr>c_updated_at := 40\<rparr>],
        messages :=
          [\<lparr>m_id = 1, m_conversation_uuid = ''conv-1'', m_role = ''user'',
            m_content = ''I want to talk to a human'', m_feedback = None, m_created_at = 40,
            m_topic = None\<rparr>,
           \<lparr>m_id = 2, m_conversation_uuid = ''conv-1'', m_role = ''assistant'',
            m_content = ''We are open.'', m_feedback = None, m_created_at = 40,
            m_topic = None\<rparr>],
        next_message_id := 3\<rparr>"

section \<open>Lookups after a write\<close>

lemma find_Some_set: "find P xs = Some x \<Longrightarrow> x \<in> set xs \<and> P x"
  by (induction xs) (auto split: if_splits)

lemma find_None_set: "find P xs = None \<longleftrightarrow> (\<forall>x \<in> set xs. \<not> P x)"
  by (induction xs) auto

lemma find_replace_by_key:
  assumes "key r = k"
  shows "find (\<lambda>x. key x = k) (map (\<lambda>x. if key x = k then r else x) xs)
         = (case find (\<lambda>x. key x = k) xs of None \<Rightarrow> None | Some _ \<Rightarrow> Some r)"
  using assms by (induction xs) auto

lemma handoff_requests_save_conversation [simp]:
  "handoff_requests (save_conversation c now s) = handoff_requests s"
  by (simp add: save_conversation_def)

lemma get_handoff_request_save_conversation [simp]:
  "get_handoff_request i (save_conversation c now s) = get_handoff_request i s"
  by (simp add: get_handoff_request_def)

lemma get_handoff_request_save:
  "get_handoff_request (h_id r) (save_handoff_request r s)
   = (case get_handoff_request (h_id r) s of None \<Rightarrow> None | Some _ \<Rightarrow> Some r)"
  unfolding get_handoff_request_def save_handoff_request_def
  using find_replace_by_key [of h_id r "h_id r" "handoff_requests s"] by simp

lemma find_h_id: "find (\<lambda>r. h_id r = i) xs = Some r \<Longrightarrow> h_id r = i"
  by (induction xs) (auto split: if_splits)

lemma get_handoff_request_id: "get_handoff_request i s = Some r \<Longrightarrow> h_id r = i"
  unfolding get_handoff_request_def by (rule find_h_id)

lemma find_append_first:
  "find P (xs @ ys) = (case find P xs of None \<Rightarrow> find P ys | Some x \<Rightarrow> Some x)"
  by (induction xs) auto

lemma find_map_keeping_key:
  assumes "\<And>x. key (f x) = key x"
  shows "find (\<lambda>x. key x = k) (map f xs) = map_option f (find (\<lambda>x. key x = k) xs)"
  using assms by (induction xs) auto

lemma get_conversation_save_conversation:
  "get_conversation u (save_conversation c now s)
   = map_option (\<lambda>x. if c_uuid x = c_uuid c
                       then (if c = x then x else c\<lparr>c_updated_at := now\<rparr>) else x)
       (get_conversation u s)"
  unfolding get_conversation_def save_conversation_def
  by (simp add: find_map_keeping_key [where key = c_uuid])

lemma find_c_uuid: "find (\<lambda>c. c_uuid c = u) xs = Some c \<Longrightarrow> c_uuid c = u"
  by (induction xs) (auto split: if_splits)

lemma get_conversation_uuid: "get_conversation u s = Some c \<Longrightarrow> c_uuid c = u"
  unfolding get_conversation_def by (rule find_c_uuid)

lemma store_requested_eq:
  "store_requested =
     \<lparr>chatbots = [\<lparr>b_uuid = ''bot-1'', b_workspace_uuid = ''ws-1'', b_is_active = True\<rparr>],
      conversations = [conversation_1\<lparr>c_handoff_status := ''requested'', c_updated_at := 10\<rparr>],
      messages = [],
      handoff_requests =
        [\<lparr>h_id = 1, h_conversation_uuid = ''conv-1'', h_chatbot_uuid = ''bot-1'',
          h_status = ''pending'', h_requested_at = 10, h_accepted_at = None,
          h_accepted_by_user_uuid = None, h_resolved_at = None, h_reason = Some ''help''\<rparr>],
      topic_stats = [],
      next_message_id = 1,
      next_handoff_id = 2,
      next_topic_stat_id = 1\<rparr>"
  by (simp add: store_requested_def store_automated_def conversation_1_def
      route_create_handoff_request_def create_handoff_request_def get_conversation_def
      save_conversation_def Let_def)

lemma store_human_eq:
  "store_human =
     \<lparr>chatbots = [\<lparr>b_uuid = ''bot-1'', b_workspace_uuid = ''ws-1'', b_is_active = True\<rparr>],
      conversations =
        [conversation_1\<lparr>c_handoff_status := ''human'',
           c_assigned_to_user_uuid := Some ''agent-1'', c_updated_at := 20\<rparr>],
      messages = [],
      handoff_requests =
        [\<lparr>h_id = 1, h_conversation_uuid = ''conv-1'', h_chatbot_uuid = ''bot-1'',
          h_status = ''accepted'', h_requested_at = 10, h_accepted_at = Some 20,
          h_accepted_by_user_uuid = Some ''agent-1'', h_resolved_at = None,
          h_reason = Some ''help''\<rparr>],
      topic_stats = [],
      next_message_id = 1,
      next_handoff_id = 2,
      next_topic_stat_id = 1\<rparr>"
  by (simp add: store_human_def store_requested_eq conversation_1_def
      route_accept_handoff_request_def accept_handoff_request_def get_handoff_request_def
      get_conversation_def save_conversation_def save_handoff_request_def Let_def)
section \<open>The response authority under the Handoff Coordinator\<close>

lemma authority_step_refl: "authority_step c c"
  by (simp add: authority_step_def)

lemma authority_step_trans:
  "authority_step a b \<Longrightarrow> authority_step b c \<Longrightarrow> authority_step a c"
  by (auto simp: authority_step_def)

lemma authority_steps_refl: "list_all2 authority_step xs xs"
  by (simp add: list_all2_refl authority_step_refl)

lemma authority_steps_trans:
  "list_all2 authority_step xs ys \<Longrightarrow> list_all2 authority_step ys zs
   \<Longrightarrow> list_all2 authority_step xs zs"
  using list_all2_trans [of authority_step authority_step authority_step xs ys zs]
    authority_step_trans by blast

lemma save_conversation_authority:
  assumes "c_handoff_status c = ''requested'' \<or> c_handoff_status c = ''human''"
  shows "list_all2 authority_step (conversations s) (conversations (save_conversation c now s))"
  using assms
  by (auto simp: save_conversation_def list_all2_map2 authority_step_def intro!: list_all2_refl)

lemma create_handoff_request_authority:
  "list_all2 authority_step (conversations s)
     (conversations (snd (create_handoff_request cu bu reason now s)))"
  by (auto simp: create_handoff_request_def Let_def authority_steps_refl
      intro!: save_conversation_authority split: option.splits)

lemma accept_handoff_request_authority:
  "list_all2 authority_step (conversations s)
     (conversations (snd (accept_handoff_request i u now s)))"
  by (auto simp: accept_handoff_request_def Let_def authority_steps_refl save_handoff_request_def
      intro!: save_conversation_authority split: option.splits)

lemma reconcile_authority:
  "list_all2 authority_step (conversations (snd acc))
     (conversations (snd (reconcile bu existing now convs acc)))"
proof (induction convs arbitrary: acc)
  case Nil
  then show ?case by (cases acc) (simp add: authority_steps_refl)
next
  case (Cons conv convs)
  obtain requests s where acc: "acc = (requests, s)" by (cases acc)
  show ?case
  proof (cases "c_uuid conv \<in> set existing")
    case True
    then show ?thesis using Cons.IH [of "(requests, s)"] by (simp add: acc)
  next
    case False
    obtain req s' where cr: "create_handoff_request (c_uuid conv) bu
        (Some ''Auto-created from conversation status'') now s = (req, s')"
      by (cases "create_handoff_request (c_uuid conv) bu
        (Some ''Auto-created from conversation status'') now s")
    have one: "list_all2 authority_step (conversations s) (conversations s')"
      using create_handoff_request_authority [of s "c_uuid conv" bu
          "Some ''Auto-created from conversation status''" now] by (simp add: cr)
    have rest: "list_all2 authority_step (conversations s')
        (conversations (snd (reconcile bu existing now convs (requests @ [req], s'))))"
      using Cons.IH [of "(requests @ [req], s')"] by simp
    show ?thesis
      using False authority_steps_trans [OF one rest] by (simp add: acc cr)
  qed
qed

lemma route_accept_authority:
  "list_all2 authority_step (conversations s)
     (conversations (snd (route_accept_handoff_request i u now s)))"
  using accept_handoff_request_authority [of s i u now]
  by (auto simp: route_accept_handoff_request_def split: prod.splits sum.splits)

lemma route_create_authority:
  "list_all2 authority_step (conversations s)
     (conversations (snd (route_create_handoff_request cu reason now s)))"
  by (simp add: route_create_handoff_request_def split_beta authority_steps_refl
      create_handoff_request_authority split: option.splits)

lemma route_get_pending_authority:
  "list_all2 authority_step (conversations s)
     (conversations (snd (route_get_pending_handoff_requests access bu u now s)))"
proof -
  have "list_all2 authority_step (conversations s)
     (conversations (snd (reconcile bu ex now convs (reqs, s))))" for ex convs reqs
    using reconcile_authority [of "(reqs, s)" bu ex now convs] by simp
  then show ?thesis
    by (simp add: route_get_pending_handoff_requests_def Let_def split_beta
        authority_steps_refl split: option.splits)
qed

lemma accept_if_pending_authority:
  assumes "list_all2 authority_step (conversations s) (conversations (snd p))"
  shows "list_all2 authority_step (conversations s)
      (conversations (snd (if h_status (fst p) = ''pending''
                      then route_accept_handoff_request (h_id (fst p)) u now (snd p)
                      else (Inr (fst p), snd p))))"
  using assms authority_steps_trans [OF assms route_accept_authority [of "snd p" "h_id (fst p)" u now]]
  by simp

lemma take_over_authority:
  "list_all2 authority_step (conversations s)
     (conversations (snd (take_over_conversation access cu u now s)))"
proof (cases "get_conversation cu s")
  case None
  then show ?thesis by (simp add: take_over_conversation_def authority_steps_refl)
next
  case (Some c)
  show ?thesis
  proof (cases "get_handoff_request_by_conversation cu s")
    case None
    have "list_all2 authority_step (conversations s)
       (conversations (snd (create_handoff_request cu (c_chatbot_uuid c)
          (Some ''Manual takeover'') now s)))"
      by (rule create_handoff_request_authority)
    from accept_if_pending_authority [OF this, of u now] Some None show ?thesis
      by (simp add: take_over_conversation_def split_beta authority_steps_refl
          split: option.splits)
  next
    case (Some r)
    with \<open>get_conversation cu s = Some c\<close> show ?thesis
      by (simp add: take_over_conversation_def authority_steps_refl route_accept_authority
          split: option.splits)
  qed
qed

section \<open>Creating a request twice\<close>

text \<open>
  Claim C5.  \<open>create_handoff_request\<close> is idempotent while a pending request exists: a
  second call for the same conversation, with no accept in between, returns the very
  request the first call returned (the same row, so the same id and the same fields) and
  leaves the whole store, the conversation included, as the first call left it.  The
  reason, the chatbot and the clock of the second call play no part.
\<close>

theorem create_handoff_request_idempotent:
  "create_handoff_request conversation_uuid chatbot_uuid' reason' now'
     (snd (create_handoff_request conversation_uuid chatbot_uuid reason now s))
   = create_handoff_request conversation_uuid chatbot_uuid reason now s"
proof (cases "find (\<lambda>r. h_conversation_uuid r = conversation_uuid \<and> h_status r = ''pending'')
                (handoff_requests s)")
  case (Some existing)
  then show ?thesis by (simp add: create_handoff_request_def)
next
  case None
  obtain r1 s1 where first:
    "create_handoff_request conversation_uuid chatbot_uuid reason now s = (r1, s1)"
    by (cases "create_handoff_request conversation_uuid chatbot_uuid reason now s")
  from None first have r1: "h_conversation_uuid r1 = conversation_uuid" "h_status r1 = ''pending''"
    by (auto simp: create_handoff_request_def Let_def)
  from None first have hs: "handoff_requests s1 = handoff_requests s @ [r1]"
    by (auto simp: create_handoff_request_def Let_def split: option.splits)
  have "find (\<lambda>r. h_conversation_uuid r = conversation_uuid \<and> h_status r = ''pending'')
          (handoff_requests s1) = Some r1"
    using None r1 by (simp add: hs find_append_first)
  then have "create_handoff_request conversation_uuid chatbot_uuid' reason' now' s1 = (r1, s1)"
    by (simp add: create_handoff_request_def)
  then show ?thesis by (simp add: first)
qed

section \<open>Accepting a request\<close>

text \<open>
  Claim C3.  \<open>accept_handoff_request\<close> fails with the not-found error when no request
  has the given id, and with the state-conflict error (\<open>Handoff request is already ...\<close>)
  when the request is not pending; either failure leaves the store untouched.  For a
  pending request the first accept succeeds and stores status, accepted-at and
  accepted-by; a second accept of the same id then gets the state-conflict error and the
  store, with the fields of the first acceptance, stays as it was.
\<close>

theorem accept_handoff_request_failures:
  "(get_handoff_request i s = None \<longrightarrow>
      accept_handoff_request i u now s = (Inl (ValueError ''Handoff request not found''), s))
   \<and> (\<forall>r. get_handoff_request i s = Some r \<and> h_status r \<noteq> ''pending'' \<longrightarrow>
      accept_handoff_request i u now s
        = (Inl (ValueError (''Handoff request is already '' @ h_status r)), s))
   \<and> (\<forall>r. get_handoff_request i s = Some r \<and> h_status r = ''pending'' \<longrightarrow>
      fst (accept_handoff_request i u now s)
        = Inr (r\<lparr>h_status := ''accepted'', h_accepted_at := Some now,
                  h_accepted_by_user_uuid := Some u\<rparr>)
      \<and> get_handoff_request i (snd (accept_handoff_request i u now s))
        = Some (r\<lparr>h_status := ''accepted'', h_accepted_at := Some now,
                  h_accepted_by_user_uuid := Some u\<rparr>)
      \<and> accept_handoff_request i u' now' (snd (accept_handoff_request i u now s))
        = (Inl (ValueError ''Handoff request is already accepted''),
           snd (accept_handoff_request i u now s)))"
proof (intro conjI allI impI)
  assume "get_handoff_request i s = None"
  then show "accept_handoff_request i u now s = (Inl (ValueError ''Handoff request not found''), s)"
    by (simp add: accept_handoff_request_def)
next
  fix r assume "get_handoff_request i s = Some r \<and> h_status r \<noteq> ''pending''"
  then show "accept_handoff_request i u now s
        = (Inl (ValueError (''Handoff request is already '' @ h_status r)), s)"
    by (simp add: accept_handoff_request_def)
next
  fix r assume a: "get_handoff_request i s = Some r \<and> h_status r = ''pending''"
  define r' where "r' = r\<lparr>h_status := ''accepted'', h_accepted_at := Some now,
                  h_accepted_by_user_uuid := Some u\<rparr>"
  define s1 where "s1 = (case get_conversation (h_conversation_uuid r) s of
                        Some conversation \<Rightarrow>
                          save_conversation
                            (conversation\<lparr>c_handoff_status := ''human'',
                                          c_assigned_to_user_uuid := Some u\<rparr>) now s
                      | None \<Rightarrow> s)"
  have id: "h_id r' = i"
    using a get_handoff_request_id [of i s r] by (simp add: r'_def)
  have first: "accept_handoff_request i u now s = (Inr r', save_handoff_request r' s1)"
    using a by (simp add: accept_handoff_request_def Let_def r'_def s1_def)
  have "get_handoff_request i s1 = Some r"
    using a by (simp add: s1_def split: option.splits)
  then have look: "get_handoff_request i (save_handoff_request r' s1) = Some r'"
    using get_handoff_request_save [of r' s1] id by simp
  have st: "h_status r' = ''accepted''" by (simp add: r'_def)
  show "fst (accept_handoff_request i u now s) = Inr r'"
    by (simp add: first)
  show "get_handoff_request i (snd (accept_handoff_request i u now s)) = Some r'"
    by (simp add: first look)
  show "accept_handoff_request i u' now' (snd (accept_handoff_request i u now s))
        = (Inl (ValueError ''Handoff request is already accepted''),
           snd (accept_handoff_request i u now s))"
  proof -
    have "accept_handoff_request i u' now' (save_handoff_request r' s1)
        = (Inl (ValueError ''Handoff request is already accepted''), save_handoff_request r' s1)"
      using look st by (simp add: accept_handoff_request_def)
    then show ?thesis by (simp add: first)
  qed
qed

theorem accept_handoff_request_failures_witness:
  "get_handoff_request 7 store_automated = None
   \<and> accept_handoff_request 7 ''agent-1'' 20 store_automated
       = (Inl (ValueError ''Handoff request not found''), store_automated)
   \<and> map_option h_status (get_handoff_request 1 store_human) = Some ''accepted''
   \<and> accept_handoff_request 1 ''agent-2'' 30 store_human
       = (Inl (ValueError ''Handoff request is already accepted''), store_human)
   \<and> map_option h_status (get_handoff_request 1 store_requested) = Some ''pending''
   \<and> map_option h_accepted_by_user_uuid
        (get_handoff_request 1 (snd (accept_handoff_request 1 ''agent-1'' 20 store_requested)))
       = Some (Some ''agent-1'')
   \<and> accept_handoff_request 1 ''agent-2'' 30
        (snd (accept_handoff_request 1 ''agent-1'' 20 store_requested))
       = (Inl (ValueError ''Handoff request is already accepted''),
          snd (accept_handoff_request 1 ''agent-1'' 20 store_requested))"
  using accept_handoff_request_failures [of 7 store_automated "''agent-1''" 20]
    accept_handoff_request_failures [of 1 store_human "''agent-2''" 30]
    accept_handoff_request_failures [of 1 store_requested "''agent-1''" 20 "''agent-2''" 30]
  by (simp add: store_automated_def store_human_eq store_requested_eq get_handoff_request_def)

lemma write_back_field:
  assumes "f c' = v" "f (c'\<lparr>c_updated_at := now\<rparr>) = v"
  shows "f (if c' = c then c else c'\<lparr>c_updated_at := now\<rparr>) = v"
  using assms by auto

section \<open>Requests and conversations stay in step\<close>

lemma conversations_save_conversation:
  "conversations (save_conversation c now s) = map (written_row c now) (conversations s)"
  by (simp add: save_conversation_def written_row_def)

lemma written_row_uuid [simp]: "c_uuid (written_row c now x) = c_uuid x"
  by (simp add: written_row_def)

lemma written_row_other: "c_uuid x \<noteq> c_uuid c \<Longrightarrow> written_row c now x = x"
  by (simp add: written_row_def)

lemma written_row_status:
  "c_uuid x = c_uuid c \<Longrightarrow> c_handoff_status (written_row c now x) = c_handoff_status c"
  by (simp add: written_row_def)

lemma find_pending_None:
  "find (\<lambda>r. h_conversation_uuid r = u \<and> h_status r = ''pending'') hs = None
   \<longleftrightarrow> u \<notin> set (map h_conversation_uuid (filter (\<lambda>r. h_status r = ''pending'') hs))"
  by (induction hs) auto

lemma create_handoff_request_step:
  "list_all2 request_step (conversations s)
     (conversations (snd (create_handoff_request u bu reason now s)))"
proof -
  have same: "list_all2 request_step (conversations s) (conversations s)"
    by (simp add: list_all2_same request_step_def)
  have row: "request_step x (written_row (c\<lparr>c_handoff_status := ''requested''\<rparr>) now x)" for c x
    by (cases "c_uuid x = c_uuid c")
       (simp_all add: request_step_def written_row_status written_row_other)
  have saved: "list_all2 request_step (conversations s)
      (conversations (save_conversation (c\<lparr>c_handoff_status := ''requested''\<rparr>) now s))" for c
    using row by (simp add: conversations_save_conversation list_all2_map2 list_all2_same)
  show ?thesis
    using same saved
    by (simp add: create_handoff_request_def Let_def split: option.splits)
qed

lemma accept_handoff_request_step:
  assumes "pending_consistent s"
  shows "list_all2 accept_step (conversations s)
           (conversations (snd (accept_handoff_request i usr now s)))"
proof -
  have same: "list_all2 accept_step (conversations s) (conversations s)"
    by (simp add: list_all2_same accept_step_def)
  show ?thesis
  proof (cases "get_handoff_request i s")
    case None
    with same show ?thesis by (simp add: accept_handoff_request_def)
  next
    case (Some r)
    then have rin: "r \<in> set (handoff_requests s)"
      unfolding get_handoff_request_def using find_Some_set by fastforce
    show ?thesis
    proof (cases "h_status r = ''pending''")
      case False
      with Some same show ?thesis by (simp add: accept_handoff_request_def)
    next
      case True
      show ?thesis
      proof (cases "get_conversation (h_conversation_uuid r) s")
        case None
        with Some True same show ?thesis
          by (simp add: accept_handoff_request_def Let_def save_handoff_request_def)
      next
        case c: (Some c)
        then have u: "c_uuid c = h_conversation_uuid r" by (rule get_conversation_uuid)
        let ?c = "c\<lparr>c_handoff_status := ''human'', c_assigned_to_user_uuid := Some usr\<rparr>"
        have "accept_step x (written_row ?c now x)" if "x \<in> set (conversations s)" for x
        proof (cases "c_uuid x = h_conversation_uuid r")
          case False
          with u show ?thesis by (simp add: written_row_other accept_step_def)
        next
          case x: True
          with assms rin that True have "c_handoff_status x = ''requested''"
            unfolding pending_consistent_def by blast
          moreover have "c_handoff_status (written_row ?c now x) = ''human''"
            using x u by (simp add: written_row_status)
          ultimately show ?thesis by (simp add: accept_step_def)
        qed
        then have "list_all2 accept_step (conversations s)
            (conversations (save_conversation ?c now s))"
          by (simp add: conversations_save_conversation list_all2_map2 list_all2_same)
        with Some True c show ?thesis
          by (simp add: accept_handoff_request_def Let_def save_handoff_request_def)
      qed
    qed
  qed
qed

lemma create_handoff_request_consistent:
  assumes "pending_consistent s"
  shows "pending_consistent (snd (create_handoff_request u bu reason now s))"
proof (cases "find (\<lambda>r. h_conversation_uuid r = u \<and> h_status r = ''pending'')
                (handoff_requests s)")
  case (Some a)
  with assms show ?thesis by (simp add: create_handoff_request_def)
next
  case None
  have fresh: "u \<notin> set (map h_conversation_uuid
                        (filter (\<lambda>r. h_status r = ''pending'') (handoff_requests s)))"
    using None find_pending_None [of u "handoff_requests s"] by blast
  define new where "new = \<lparr>h_id = next_handoff_id s, h_conversation_uuid = u,
      h_chatbot_uuid = bu, h_status = ''pending'', h_requested_at = now, h_accepted_at = None,
      h_accepted_by_user_uuid = None, h_resolved_at = None, h_reason = reason\<rparr>"
  have newf: "h_conversation_uuid new = u" "h_status new = ''pending''"
    by (simp_all add: new_def)
  have i2: "distinct (map h_conversation_uuid
              (filter (\<lambda>r. h_status r = ''pending'') (handoff_requests s @ [new])))"
    using assms fresh newf by (simp add: pending_consistent_def)
  show ?thesis
  proof (cases "get_conversation u s")
    case n: None
    then have nou: "\<forall>x \<in> set (conversations s). c_uuid x \<noteq> u"
      unfolding get_conversation_def by (simp add: find_None_set)
    have st: "snd (create_handoff_request u bu reason now s)
        = s\<lparr>handoff_requests := handoff_requests s @ [new],
            next_handoff_id := Suc (next_handoff_id s)\<rparr>"
      using None n by (simp add: create_handoff_request_def Let_def new_def)
    have i1: "\<forall>r \<in> set (handoff_requests s @ [new]). \<forall>y \<in> set (conversations s).
          h_status r = ''pending'' \<and> c_uuid y = h_conversation_uuid r
          \<longrightarrow> c_handoff_status y = ''requested''"
      using assms nou newf unfolding pending_consistent_def by auto
    show ?thesis
      unfolding st pending_consistent_def using i1 i2 by simp
  next
    case (Some c)
    then have cu: "c_uuid c = u" by (rule get_conversation_uuid)
    let ?c = "c\<lparr>c_handoff_status := ''requested''\<rparr>"
    have st: "snd (create_handoff_request u bu reason now s)
        = (save_conversation ?c now s)\<lparr>handoff_requests := handoff_requests s @ [new],
            next_handoff_id := Suc (next_handoff_id s)\<rparr>"
      using None Some by (simp add: create_handoff_request_def Let_def new_def save_conversation_def)
    have convs: "conversations (snd (create_handoff_request u bu reason now s))
        = map (written_row ?c now) (conversations s)"
      by (simp add: st conversations_save_conversation)
    have hrs: "handoff_requests (snd (create_handoff_request u bu reason now s))
        = handoff_requests s @ [new]"
      by (simp add: st)
    have row: "c_handoff_status (written_row ?c now x) = ''requested''
               \<or> (written_row ?c now x = x \<and> c_uuid x \<noteq> u)" for x
      using cu by (cases "c_uuid x = u") (simp_all add: written_row_status written_row_other)
    have i1: "\<forall>r \<in> set (handoff_requests s @ [new]).
          \<forall>y \<in> set (map (written_row ?c now) (conversations s)).
          h_status r = ''pending'' \<and> c_uuid y = h_conversation_uuid r
          \<longrightarrow> c_handoff_status y = ''requested''"
    proof (intro ballI impI)
      fix r y
      assume r: "r \<in> set (handoff_requests s @ [new])"
        and y: "y \<in> set (map (written_row ?c now) (conversations s))"
        and p: "h_status r = ''pending'' \<and> c_uuid y = h_conversation_uuid r"
      from y obtain x where x: "x \<in> set (conversations s)" "y = written_row ?c now x" by auto
      from row [of x] show "c_handoff_status y = ''requested''"
      proof
        assume "c_handoff_status (written_row ?c now x) = ''requested''"
        with x show ?thesis by simp
      next
        assume a: "written_row ?c now x = x \<and> c_uuid x \<noteq> u"
        with x p newf have "r \<noteq> new" by auto
        with r have "r \<in> set (handoff_requests s)" by simp
        with assms x p a show ?thesis
          unfolding pending_consistent_def by auto
      qed
    qed
    show ?thesis
      unfolding pending_consistent_def convs hrs using i1 i2 by blast
  qed
qed

lemma pending_after_replace:
  "h_status a \<noteq> ''pending'' \<Longrightarrow>
   filter (\<lambda>r. h_status r = ''pending'') (map (\<lambda>x. if h_id x = i then a else x) hs)
   = filter (\<lambda>r. h_id r \<noteq> i) (filter (\<lambda>r. h_status r = ''pending'') hs)"
  by (induction hs) auto

lemma accept_handoff_request_consistent:
  assumes "pending_consistent s"
  shows "pending_consistent (snd (accept_handoff_request i usr now s))"
proof (cases "get_handoff_request i s")
  case None
  with assms show ?thesis by (simp add: accept_handoff_request_def)
next
  case (Some r)
  then have rin: "r \<in> set (handoff_requests s)"
    unfolding get_handoff_request_def using find_Some_set by fastforce
  from Some have ri: "h_id r = i" by (rule get_handoff_request_id)
  show ?thesis
  proof (cases "h_status r = ''pending''")
    case False
    with Some assms show ?thesis by (simp add: accept_handoff_request_def)
  next
    case True
    define a where "a = r\<lparr>h_status := ''accepted'', h_accepted_at := Some now,
                         h_accepted_by_user_uuid := Some usr\<rparr>"
    define hs' where "hs' = map (\<lambda>x. if h_id x = i then a else x) (handoff_requests s)"
    have na: "h_status a \<noteq> ''pending''" by (simp add: a_def)
    have ai: "h_id a = i" by (simp add: a_def ri)
    have pend: "filter (\<lambda>r. h_status r = ''pending'') hs'
        = filter (\<lambda>r. h_id r \<noteq> i) (filter (\<lambda>r. h_status r = ''pending'') (handoff_requests s))"
      unfolding hs'_def using na by (rule pending_after_replace)
    have "distinct (map h_conversation_uuid
            (filter (\<lambda>r. h_status r = ''pending'') (handoff_requests s)))"
      using assms unfolding pending_consistent_def by simp
    then have i2: "distinct (map h_conversation_uuid (filter (\<lambda>r. h_status r = ''pending'') hs'))"
      unfolding pend by (rule distinct_map_filter)
    have left: "r' \<in> set (handoff_requests s) \<and> h_id r' \<noteq> i"
      if "r' \<in> set hs'" "h_status r' = ''pending''" for r'
    proof -
      from that have "r' \<in> set (filter (\<lambda>r. h_status r = ''pending'') hs')" by simp
      then show ?thesis unfolding pend by simp
    qed
    have other: "h_conversation_uuid r' \<noteq> h_conversation_uuid r"
      if "r' \<in> set (handoff_requests s)" "h_id r' \<noteq> i" "h_status r' = ''pending''" for r'
    proof
      assume e: "h_conversation_uuid r' = h_conversation_uuid r"
      have "inj_on h_conversation_uuid
              (set (filter (\<lambda>r. h_status r = ''pending'') (handoff_requests s)))"
        using assms unfolding pending_consistent_def by (simp add: distinct_map)
      moreover have "r \<in> set (filter (\<lambda>r. h_status r = ''pending'') (handoff_requests s))"
        "r' \<in> set (filter (\<lambda>r. h_status r = ''pending'') (handoff_requests s))"
        using rin True that by simp_all
      ultimately have "r' = r" using e by (meson inj_onD)
      with that ri show False by simp
    qed
    show ?thesis
    proof (cases "get_conversation (h_conversation_uuid r) s")
      case None
      have st: "snd (accept_handoff_request i usr now s) = s\<lparr>handoff_requests := hs'\<rparr>"
        using Some True None
        by (simp add: accept_handoff_request_def Let_def save_handoff_request_def a_def hs'_def ri)
      have i1: "\<forall>r' \<in> set hs'. \<forall>y \<in> set (conversations s).
          h_status r' = ''pending'' \<and> c_uuid y = h_conversation_uuid r'
          \<longrightarrow> c_handoff_status y = ''requested''"
        using assms left unfolding pending_consistent_def by blast
      show ?thesis unfolding st pending_consistent_def using i1 i2 by simp
    next
      case c: (Some c)
      then have u: "c_uuid c = h_conversation_uuid r" by (rule get_conversation_uuid)
      let ?c = "c\<lparr>c_handoff_status := ''human'', c_assigned_to_user_uuid := Some usr\<rparr>"
      have st: "snd (accept_handoff_request i usr now s)
          = (save_conversation ?c now s)\<lparr>handoff_requests := hs'\<rparr>"
        using Some True c
        by (simp add: accept_handoff_request_def Let_def save_handoff_request_def a_def hs'_def ri)
      have convs: "conversations (snd (accept_handoff_request i usr now s))
          = map (written_row ?c now) (conversations s)"
        by (simp add: st conversations_save_conversation)
      have hrs: "handoff_requests (snd (accept_handoff_request i usr now s)) = hs'"
        by (simp add: st)
      have i1: "\<forall>r' \<in> set hs'. \<forall>y \<in> set (map (written_row ?c now) (conversations s)).
          h_status r' = ''pending'' \<and> c_uuid y = h_conversation_uuid r'
          \<longrightarrow> c_handoff_status y = ''requested''"
      proof (intro ballI impI)
        fix r' y
        assume r': "r' \<in> set hs'"
          and y: "y \<in> set (map (written_row ?c now) (conversations s))"
          and p: "h_status r' = ''pending'' \<and> c_uuid y = h_conversation_uuid r'"
        from y obtain x where x: "x \<in> set (conversations s)" "y = written_row ?c now x" by auto
        from left [of r'] r' p have l: "r' \<in> set (handoff_requests s)" "h_id r' \<noteq> i" by simp_all
        with other [of r'] p have "h_conversation_uuid r' \<noteq> h_conversation_uuid r" by simp
        with p x u have "c_uuid x \<noteq> c_uuid ?c" by simp
        then have "y = x" using x by (simp add: written_row_other)
        with assms l x p show "c_handoff_status y = ''requested''"
          unfolding pending_consistent_def by auto
      qed
      show ?thesis
        unfolding pending_consistent_def convs hrs using i1 i2 by blast
    qed
  qed
qed

lemma reconcile_consistent:
  "pending_consistent s \<Longrightarrow>
   pending_consistent (snd (reconcile bu existing now convs (requests, s)))"
proof (induction convs arbitrary: requests s)
  case Nil
  then show ?case by simp
next
  case (Cons conv convs)
  show ?case
  proof (cases "c_uuid conv \<notin> set existing")
    case True
    have "pending_consistent (snd (create_handoff_request (c_uuid conv) bu
             (Some ''Auto-created from conversation status'') now s))"
      using Cons.prems by (rule create_handoff_request_consistent)
    then show ?thesis
      using True Cons.IH by (simp add: split_beta)
  next
    case False
    then show ?thesis using Cons by simp
  qed
qed

lemma route_create_consistent:
  "pending_consistent s \<Longrightarrow>
   pending_consistent (snd (route_create_handoff_request cu reason now s))"
  by (simp add: route_create_handoff_request_def split_beta create_handoff_request_consistent
      split: option.splits)

lemma route_accept_store:
  "snd (route_accept_handoff_request i usr now s) = snd (accept_handoff_request i usr now s)"
  by (simp add: route_accept_handoff_request_def split: prod.splits sum.splits)

lemma route_get_pending_consistent:
  "pending_consistent s \<Longrightarrow>
   pending_consistent (snd (route_get_pending_handoff_requests access bu usr now s))"
  by (simp add: route_get_pending_handoff_requests_def Let_def split_beta reconcile_consistent
      split: option.splits)

lemma take_over_consistent:
  assumes "pending_consistent s"
  shows "pending_consistent (snd (take_over_conversation access cu usr now s))"
proof (cases "get_conversation cu s")
  case None
  with assms show ?thesis by (simp add: take_over_conversation_def)
next
  case c: (Some c)
  show ?thesis
  proof (cases "get_chatbot (c_chatbot_uuid c) s")
    case None
    with c assms show ?thesis by (simp add: take_over_conversation_def)
  next
    case b: (Some b)
    show ?thesis
    proof (cases "access (b_workspace_uuid b) usr")
      case False
      with c b assms show ?thesis by (simp add: take_over_conversation_def)
    next
      case True
      define p where "p = (case get_handoff_request_by_conversation cu s of
                          None \<Rightarrow>
                            create_handoff_request cu (c_chatbot_uuid c)
                              (Some ''Manual takeover'') now s
                        | Some handoff_request \<Rightarrow> (handoff_request, s))"
      have p: "pending_consistent (snd p)"
        using assms
        by (simp add: p_def create_handoff_request_consistent split: option.splits)
      have "snd (take_over_conversation access cu usr now s)
          = (if h_status (fst p) = ''pending''
             then snd (accept_handoff_request (h_id (fst p)) usr now (snd p))
             else snd p)"
        using c b True
        by (simp add: take_over_conversation_def p_def [symmetric] split_beta route_accept_store)
      with p show ?thesis by (simp add: accept_handoff_request_consistent)
    qed
  qed
qed

lemma coordinator_step_consistent:
  "pending_consistent s \<Longrightarrow> pending_consistent (coordinator_step access now op s)"
  by (cases op)
     (simp_all add: route_create_consistent route_accept_store accept_handoff_request_consistent
        route_get_pending_consistent take_over_consistent)

lemma route_create_step:
  "list_all2 request_step (conversations s)
     (conversations (snd (route_create_handoff_request cu reason now s)))"
proof (cases "get_conversation cu s")
  case None
  then show ?thesis
    by (simp add: route_create_handoff_request_def list_all2_same request_step_def)
next
  case (Some c)
  then show ?thesis
    using create_handoff_request_step [of s cu "c_chatbot_uuid c" reason now]
    by (simp add: route_create_handoff_request_def split_beta)
qed

section \<open>Which way the authority moves\<close>

text \<open>
  Claim C1, as amended.  Whatever operation of the Handoff Coordinator runs (create,
  accept, the reconciliation in the pending list, takeover), every conversation row
  keeps its key and its \<open>handoff_status\<close> afterwards is what it was before, or
  \<open>requested\<close>, or \<open>human\<close>: nothing ever writes \<open>ai\<close>, so a conversation that has left
  the automated responder never returns to it.  Creating a request leaves every status
  as it was or sets it to \<open>requested\<close>, and it does not look at the current authority:
  for a conversation that exists and has no pending request it succeeds with a pending
  request and sets the status to \<open>requested\<close>, whatever the status was; with a pending
  request of the conversation present it returns that request and changes nothing in the
  store, in the service and through the route alike.  In a store where
  no conversation has two pending requests and every conversation with a pending request
  is \<open>requested\<close>, each operation of the coordinator leaves such a store again, and
  accepting a request moves a status only from \<open>requested\<close> to \<open>human\<close>.
\<close>

theorem coordinator_writes_requested_or_human:
  "list_all2 authority_step (conversations s) (conversations (coordinator_step access now op s))
   \<and> list_all2 request_step (conversations s)
        (conversations (coordinator_step access now (CreateRequest cu reason) s))
   \<and> (\<forall>c. get_conversation cu s = Some c
          \<and> find (\<lambda>r. h_conversation_uuid r = cu \<and> h_status r = ''pending'')
               (handoff_requests s) = None \<longrightarrow>
        map_sum id h_status (fst (route_create_handoff_request cu reason now s)) = Inr ''pending''
        \<and> map_option c_handoff_status
            (get_conversation cu (coordinator_step access now (CreateRequest cu reason) s))
          = Some ''requested'')
   \<and> (pending_consistent s \<longrightarrow>
        pending_consistent (coordinator_step access now op s)
        \<and> list_all2 accept_step (conversations s)
             (conversations (coordinator_step access now (AcceptRequest i user_uuid) s)))
   \<and> (\<forall>r. find (\<lambda>r. h_conversation_uuid r = cu \<and> h_status r = ''pending'')
               (handoff_requests s) = Some r \<longrightarrow>
        create_handoff_request cu chatbot_uuid reason now s = (r, s)
        \<and> coordinator_step access now (CreateRequest cu reason) s = s
        \<and> (\<forall>c. get_conversation cu s = Some c \<longrightarrow>
               route_create_handoff_request cu reason now s = (Inr r, s)))"
proof (intro conjI allI impI)
  show "list_all2 authority_step (conversations s)
          (conversations (coordinator_step access now op s))"
    by (cases op)
       (simp_all add: route_create_authority route_accept_authority
          route_get_pending_authority take_over_authority)
next
  show "list_all2 request_step (conversations s)
          (conversations (coordinator_step access now (CreateRequest cu reason) s))"
    by (simp add: route_create_step)
next
  fix c
  assume a: "get_conversation cu s = Some c
          \<and> find (\<lambda>r. h_conversation_uuid r = cu \<and> h_status r = ''pending'')
               (handoff_requests s) = None"
  then have u: "c_uuid c = cu" using get_conversation_uuid by blast
  show "map_sum id h_status (fst (route_create_handoff_request cu reason now s)) = Inr ''pending''"
    using a by (simp add: route_create_handoff_request_def create_handoff_request_def Let_def)
  have "get_conversation cu (snd (create_handoff_request cu (c_chatbot_uuid c) reason now s))
        = get_conversation cu (save_conversation (c\<lparr>c_handoff_status := ''requested''\<rparr>) now s)"
    using a by (simp add: create_handoff_request_def Let_def get_conversation_def)
  then show "map_option c_handoff_status
            (get_conversation cu (coordinator_step access now (CreateRequest cu reason) s))
          = Some ''requested''"
    using a u
    by (simp add: route_create_handoff_request_def split_beta get_conversation_save_conversation
        write_back_field)
next
  assume "pending_consistent s"
  then show "pending_consistent (coordinator_step access now op s)"
    by (rule coordinator_step_consistent)
next
  assume "pending_consistent s"
  then show "list_all2 accept_step (conversations s)
      (conversations (coordinator_step access now (AcceptRequest i user_uuid) s))"
    by (simp add: route_accept_store accept_handoff_request_step)
next
  fix r
  assume p: "find (\<lambda>r. h_conversation_uuid r = cu \<and> h_status r = ''pending'')
               (handoff_requests s) = Some r"
  then show "create_handoff_request cu chatbot_uuid reason now s = (r, s)"
    by (simp add: create_handoff_request_def)
  from p show "coordinator_step access now (CreateRequest cu reason) s = s"
    by (simp add: route_create_handoff_request_def create_handoff_request_def
        split: option.splits)
  fix c
  assume "get_conversation cu s = Some c"
  with p show "route_create_handoff_request cu reason now s = (Inr r, s)"
    by (simp add: route_create_handoff_request_def create_handoff_request_def)
qed

theorem coordinator_writes_requested_or_human_witness:
  "get_conversation ''conv-1'' store_human
     = Some (conversation_1\<lparr>c_handoff_status := ''human'',
               c_assigned_to_user_uuid := Some ''agent-1'', c_updated_at := 20\<rparr>)
   \<and> find (\<lambda>r. h_conversation_uuid r = ''conv-1'' \<and> h_status r = ''pending'')
        (handoff_requests store_human) = None
   \<and> list_all2 authority_step (conversations store_human)
        (conversations (coordinator_step grant_all 30 (CreateRequest ''conv-1'' None) store_human))
   \<and> list_all2 request_step (conversations store_human)
        (conversations (coordinator_step grant_all 30 (CreateRequest ''conv-1'' None) store_human))
   \<and> map_sum id h_status (fst (route_create_handoff_request ''conv-1'' None 30 store_human))
       = Inr ''pending''
   \<and> map_option c_handoff_status
        (get_conversation ''conv-1''
           (coordinator_step grant_all 30 (CreateRequest ''conv-1'' None) store_human))
       = Some ''requested''
   \<and> pending_consistent store_requested
   \<and> pending_consistent store_human
   \<and> list_all2 accept_step (conversations store_requested) (conversations store_human)
   \<and> find (\<lambda>r. h_conversation_uuid r = ''conv-1'' \<and> h_status r = ''pending'')
        (handoff_requests store_requested)
       = Some \<lparr>h_id = 1, h_conversation_uuid = ''conv-1'', h_chatbot_uuid = ''bot-1'',
               h_status = ''pending'', h_requested_at = 10, h_accepted_at = None,
               h_accepted_by_user_uuid = None, h_resolved_at = None, h_reason = Some ''help''\<rparr>
   \<and> get_conversation ''conv-1'' store_requested
       = Some (conversation_1\<lparr>c_handoff_status := ''requested'', c_updated_at := 10\<rparr>)
   \<and> create_handoff_request ''conv-1'' ''bot-2'' (Some ''again'') 20 store_requested
       = (\<lparr>h_id = 1, h_conversation_uuid = ''conv-1'', h_chatbot_uuid = ''bot-1'',
            h_status = ''pending'', h_requested_at = 10, h_accepted_at = None,
            h_accepted_by_user_uuid = None, h_resolved_at = None, h_reason = Some ''help''\<rparr>,
          store_requested)
   \<and> coordinator_step grant_all 20 (CreateRequest ''conv-1'' (Some ''again'')) store_requested
       = store_requested
   \<and> route_create_handoff_request ''conv-1'' (Some ''again'') 20 store_requested
       = (Inr \<lparr>h_id = 1, h_conversation_uuid = ''conv-1'', h_chatbot_uuid = ''bot-1'',
                h_status = ''pending'', h_requested_at = 10, h_accepted_at = None,
                h_accepted_by_user_uuid = None, h_resolved_at = None, h_reason = Some ''help''\<rparr>,
          store_requested)"
proof -
  have lookup: "get_conversation ''conv-1'' store_human
     = Some (conversation_1\<lparr>c_handoff_status := ''human'',
               c_assigned_to_user_uuid := Some ''agent-1'', c_updated_at := 20\<rparr>)"
    by (simp add: store_human_eq get_conversation_def conversation_1_def)
  have none: "find (\<lambda>r. h_conversation_uuid r = ''conv-1'' \<and> h_status r = ''pending'')
        (handoff_requests store_human) = None"
    by (simp add: store_human_eq)
  have consistent: "pending_consistent store_requested"
    by (simp add: store_requested_eq pending_consistent_def conversation_1_def)
  have step: "coordinator_step grant_all 20 (AcceptRequest 1 ''agent-1'') store_requested
      = store_human"
    by (simp add: store_human_def)
  have pending: "find (\<lambda>r. h_conversation_uuid r = ''conv-1'' \<and> h_status r = ''pending'')
        (handoff_requests store_requested)
       = Some \<lparr>h_id = 1, h_conversation_uuid = ''conv-1'', h_chatbot_uuid = ''bot-1'',
               h_status = ''pending'', h_requested_at = 10, h_accepted_at = None,
               h_accepted_by_user_uuid = None, h_resolved_at = None, h_reason = Some ''help''\<rparr>"
    by (simp add: store_requested_eq)
  have row: "get_conversation ''conv-1'' store_requested
       = Some (conversation_1\<lparr>c_handoff_status := ''requested'', c_updated_at := 10\<rparr>)"
    by (simp add: store_requested_eq get_conversation_def conversation_1_def)
  from coordinator_writes_requested_or_human
    [where s = store_human and access = grant_all and now = 30
       and op = "CreateRequest ''conv-1'' None" and cu = "''conv-1''" and reason = None]
    coordinator_writes_requested_or_human
    [where s = store_requested and access = grant_all and now = 20
       and op = "AcceptRequest 1 ''agent-1''" and cu = "''conv-1''"
       and reason = "Some ''again''" and i = 1 and user_uuid = "''agent-1''"
       and chatbot_uuid = "''bot-2''"]
  show ?thesis
    using lookup none consistent pending row unfolding step by blast
qed

text \<open>
  The path \<open>ai\<close>, \<open>requested\<close>, \<open>human\<close> is not kept: on the store in which an operator has
  accepted the request of \<open>conv-1\<close>, a further create succeeds although the authority is
  \<open>human\<close>, and it moves the conversation back to \<open>requested\<close>.
\<close>

theorem handoff_status_path_counterexample:
  "map c_handoff_status (conversations store_automated) = [''ai'']
   \<and> map c_handoff_status (conversations store_requested) = [''requested'']
   \<and> map c_handoff_status (conversations store_human) = [''human'']
   \<and> map_sum id h_status (fst (route_create_handoff_request ''conv-1'' None 30 store_human))
       = Inr ''pending''
   \<and> map c_handoff_status
        (conversations (coordinator_step grant_all 30 (CreateRequest ''conv-1'' None) store_human))
       = [''requested'']"
  by (simp add: store_automated_def store_requested_eq store_human_eq conversation_1_def
      route_create_handoff_request_def create_handoff_request_def get_conversation_def
      save_conversation_def Let_def)

section \<open>Which conversation a session gets\<close>

lemma get_or_create_conversation_result:
  assumes "get_or_create_conversation chatbot_uuid session_id client_uuid new_uuid now s
           = (Inr c, s')"
  shows "c \<in> set (conversations s') \<and> c_session_id c = session_id
         \<and> c_chatbot_uuid c = chatbot_uuid
         \<and> (distinct (map c_uuid (conversations s)) \<longrightarrow> distinct (map c_uuid (conversations s')))"
proof (cases "find (\<lambda>c. c_chatbot_uuid c = chatbot_uuid \<and> c_session_id c = session_id
                      \<and> c_status c = ''active'') (conversations s)")
  case None
  with assms show ?thesis
    by (auto simp: get_or_create_conversation_def create_conversation_def Let_def
        split: if_splits)
next
  case (Some a)
  with assms have "c = a" "s' = s"
    by (auto simp: get_or_create_conversation_def)
  with Some show ?thesis
    using find_Some_set [of _ "conversations s" a] by auto
qed

lemma distinct_uuid_eq:
  assumes "distinct (map c_uuid xs)" "a \<in> set xs" "b \<in> set xs" "c_uuid a = c_uuid b"
  shows "a = b"
  using assms by (meson distinct_map inj_onD)

lemma get_or_create_conversation_keeps:
  assumes "get_or_create_conversation chatbot_uuid session_id client_uuid new_uuid now s
           = (Inr c, s')"
  shows "set (conversations s) \<subseteq> set (conversations s')"
  using assms
  by (auto simp: get_or_create_conversation_def create_conversation_def Let_def
      split: option.splits if_splits)

lemma conversation_messages_add_other:
  assumes "u \<noteq> v"
  shows "conversation_messages v (add_message u role content t s) = conversation_messages v s"
  using assms by (simp add: conversation_messages_def add_message_def)

lemma conversation_messages_owner:
  "m \<in> set (conversation_messages v s) \<Longrightarrow> m_conversation_uuid m = v"
  by (simp add: conversation_messages_def)

text \<open>
  Claim C10.  \<open>get_or_create_conversation\<close> binds by session id.  When the store holds an
  active conversation of the chatbot with the session id, such a conversation of the
  store is returned and nothing is written.  When it holds none (and the key drawn for
  the new row is not taken), a new active conversation with that session id and the
  given client id is appended and returned; it is not one of the old rows.  Two
  different session ids, served one after the other with the same client id, get
  conversations with different uuids, so the messages listed for one never include a
  message of the other, and storing a message under one leaves the other's list as it
  was.
\<close>

theorem conversation_bound_by_session:
  "((\<exists>c \<in> set (conversations s). c_chatbot_uuid c = chatbot_uuid
            \<and> c_session_id c = session_id \<and> c_status c = ''active'') \<longrightarrow>
        (\<exists>c. get_or_create_conversation chatbot_uuid session_id client_uuid new_uuid now s
               = (Inr c, s)
             \<and> c \<in> set (conversations s) \<and> c_chatbot_uuid c = chatbot_uuid
             \<and> c_session_id c = session_id \<and> c_status c = ''active''))
   \<and> ((\<forall>c \<in> set (conversations s). \<not> (c_chatbot_uuid c = chatbot_uuid
            \<and> c_session_id c = session_id \<and> c_status c = ''active''))
        \<and> new_uuid \<notin> set (map c_uuid (conversations s)) \<longrightarrow>
        (\<exists>c. get_or_create_conversation chatbot_uuid session_id client_uuid new_uuid now s
               = (Inr c, s\<lparr>conversations := conversations s @ [c]\<rparr>)
             \<and> c_uuid c = new_uuid \<and> c_chatbot_uuid c = chatbot_uuid
             \<and> c_session_id c = session_id \<and> c_client_uuid c = client_uuid
             \<and> c_status c = ''active'' \<and> c \<notin> set (conversations s)))
   \<and> (\<forall>conv_a s1 conv_b s2.
        distinct (map c_uuid (conversations s))
        \<and> session_id \<noteq> session_b
        \<and> get_or_create_conversation chatbot_uuid session_id client_uuid new_uuid now s
            = (Inr conv_a, s1)
        \<and> get_or_create_conversation chatbot_uuid session_b client_uuid new_uuid_b now_b s1
            = (Inr conv_b, s2) \<longrightarrow>
        c_uuid conv_a \<noteq> c_uuid conv_b
        \<and> (\<forall>s3. \<forall>m \<in> set (conversation_messages (c_uuid conv_b) s3).
              m_conversation_uuid m \<noteq> c_uuid conv_a)
        \<and> (\<forall>s3. \<forall>m \<in> set (conversation_messages (c_uuid conv_a) s3).
              m_conversation_uuid m \<noteq> c_uuid conv_b)
        \<and> (\<forall>role content t s3.
              conversation_messages (c_uuid conv_b)
                (add_message (c_uuid conv_a) role content t s3)
              = conversation_messages (c_uuid conv_b) s3))"
proof (intro conjI allI impI)
  assume "\<exists>c \<in> set (conversations s). c_chatbot_uuid c = chatbot_uuid
            \<and> c_session_id c = session_id \<and> c_status c = ''active''"
  then obtain c where "find (\<lambda>c. c_chatbot_uuid c = chatbot_uuid \<and> c_session_id c = session_id
                   \<and> c_status c = ''active'') (conversations s) = Some c"
    using find_None_set [of "\<lambda>c. c_chatbot_uuid c = chatbot_uuid \<and> c_session_id c = session_id
                   \<and> c_status c = ''active''" "conversations s"] by fastforce
  then show "\<exists>c. get_or_create_conversation chatbot_uuid session_id client_uuid new_uuid now s
               = (Inr c, s)
             \<and> c \<in> set (conversations s) \<and> c_chatbot_uuid c = chatbot_uuid
             \<and> c_session_id c = session_id \<and> c_status c = ''active''"
    using find_Some_set [of "\<lambda>c. c_chatbot_uuid c = chatbot_uuid \<and> c_session_id c = session_id
                   \<and> c_status c = ''active''" "conversations s" c]
    by (simp add: get_or_create_conversation_def)
next
  assume a: "(\<forall>c \<in> set (conversations s). \<not> (c_chatbot_uuid c = chatbot_uuid
            \<and> c_session_id c = session_id \<and> c_status c = ''active''))
        \<and> new_uuid \<notin> set (map c_uuid (conversations s))"
  then have none: "find (\<lambda>c. c_chatbot_uuid c = chatbot_uuid \<and> c_session_id c = session_id
                   \<and> c_status c = ''active'') (conversations s) = None"
    by (simp add: find_None_set)
  show "\<exists>c. get_or_create_conversation chatbot_uuid session_id client_uuid new_uuid now s
               = (Inr c, s\<lparr>conversations := conversations s @ [c]\<rparr>)
             \<and> c_uuid c = new_uuid \<and> c_chatbot_uuid c = chatbot_uuid
             \<and> c_session_id c = session_id \<and> c_client_uuid c = client_uuid
             \<and> c_status c = ''active'' \<and> c \<notin> set (conversations s)"
    using a none
    by (auto simp: get_or_create_conversation_def create_conversation_def Let_def)
next
  fix conv_a s1 conv_b s2
  assume a: "distinct (map c_uuid (conversations s))
        \<and> session_id \<noteq> session_b
        \<and> get_or_create_conversation chatbot_uuid session_id client_uuid new_uuid now s
            = (Inr conv_a, s1)
        \<and> get_or_create_conversation chatbot_uuid session_b client_uuid new_uuid_b now_b s1
            = (Inr conv_b, s2)"
  from a have ra: "conv_a \<in> set (conversations s1)" "c_session_id conv_a = session_id"
      "distinct (map c_uuid (conversations s1))"
    using get_or_create_conversation_result
      [of chatbot_uuid session_id client_uuid new_uuid now s conv_a s1] by auto
  from a ra have rb: "conv_b \<in> set (conversations s2)" "c_session_id conv_b = session_b"
      "distinct (map c_uuid (conversations s2))"
    using get_or_create_conversation_result
      [of chatbot_uuid session_b client_uuid new_uuid_b now_b s1 conv_b s2] by auto
  from a ra have "conv_a \<in> set (conversations s2)"
    using get_or_create_conversation_keeps
      [of chatbot_uuid session_b client_uuid new_uuid_b now_b s1 conv_b s2] by auto
  with rb ra a show ne: "c_uuid conv_a \<noteq> c_uuid conv_b"
    using distinct_uuid_eq [of "conversations s2" conv_a conv_b] by auto
  show "\<forall>m \<in> set (conversation_messages (c_uuid conv_b) s3).
          m_conversation_uuid m \<noteq> c_uuid conv_a" for s3
    using ne conversation_messages_owner by fastforce
  show "\<forall>m \<in> set (conversation_messages (c_uuid conv_a) s3).
          m_conversation_uuid m \<noteq> c_uuid conv_b" for s3
    using ne conversation_messages_owner by fastforce
  fix role content t s3
  from ne show "conversation_messages (c_uuid conv_b)
                (add_message (c_uuid conv_a) role content t s3)
              = conversation_messages (c_uuid conv_b) s3"
    by (rule conversation_messages_add_other)
qed

theorem conversation_bound_by_session_witness:
  "get_or_create_conversation ''bot-1'' ''session-A'' (Some ''client-1'') ''conv-2'' 5
       store_automated = (Inr conversation_1, store_automated)
   \<and> get_or_create_conversation ''bot-1'' ''session-B'' (Some ''client-1'') ''conv-2'' 6
       store_automated = (Inr conversation_2, store_two_sessions)
   \<and> c_client_uuid conversation_1 = c_client_uuid conversation_2
   \<and> c_uuid conversation_1 \<noteq> c_uuid conversation_2
   \<and> conversation_messages (c_uuid conversation_2)
        (add_message (c_uuid conversation_1) ''user'' ''hello'' 7 store_two_sessions) = []"
proof -
  have a: "get_or_create_conversation ''bot-1'' ''session-A'' (Some ''client-1'') ''conv-2'' 5
       store_automated = (Inr conversation_1, store_automated)"
    by (simp add: get_or_create_conversation_def store_automated_def conversation_1_def)
  have b: "get_or_create_conversation ''bot-1'' ''session-B'' (Some ''client-1'') ''conv-2'' 6
       store_automated = (Inr conversation_2, store_two_sessions)"
    by (simp add: get_or_create_conversation_def create_conversation_def store_automated_def
        store_two_sessions_def conversation_1_def conversation_2_def truthy_def Let_def)
  have d: "distinct (map c_uuid (conversations store_automated))"
    by (simp add: store_automated_def)
  have e: "conversation_messages (c_uuid conversation_2) store_two_sessions = []"
    by (simp add: conversation_messages_def store_two_sessions_def store_automated_def)
  from conversation_bound_by_session
    [of store_automated "''bot-1''" "''session-A''" "Some ''client-1''" "''conv-2''" 5
       "''session-B''" "''conv-2''" 6] a b d
  have "c_uuid conversation_1 \<noteq> c_uuid conversation_2
     \<and> conversation_messages (c_uuid conversation_2)
          (add_message (c_uuid conversation_1) ''user'' ''hello'' 7 store_two_sessions)
        = conversation_messages (c_uuid conversation_2) store_two_sessions"
    by blast
  with a b e show ?thesis
    by (simp add: conversation_1_def conversation_2_def)
qed

section \<open>The customer identity fields\<close>

lemma get_conversation_saved:
  assumes "get_conversation u s = Some c" "c_uuid c' = u"
  shows "get_conversation u (save_conversation c' now s)
         = Some (if c' = c then c else c'\<lparr>c_updated_at := now\<rparr>)"
proof -
  from assms(1) have "c_uuid c = u" by (rule get_conversation_uuid)
  with assms show ?thesis
    by (simp add: get_conversation_save_conversation)
qed

lemma get_conversation_add_message [simp]:
  "get_conversation u (add_message v role content now s) = get_conversation u s"
  by (simp add: get_conversation_def add_message_def)

lemma customer_fields_save:
  assumes "get_conversation (c_uuid c') s = Some c" "customer_fields c' = customer_fields c"
  shows "map_option customer_fields (get_conversation v (save_conversation c' now s))
         = map_option customer_fields (get_conversation v s)"
proof (cases "v = c_uuid c'")
  case True
  have "customer_fields (if c' = c then c else c'\<lparr>c_updated_at := now\<rparr>) = customer_fields c"
    using assms(2) by (simp add: customer_fields_def)
  with True assms(1) show ?thesis
    by (simp add: get_conversation_saved [OF assms(1) refl] del: if_split)
next
  case False
  have "get_conversation v (save_conversation c' now s) = get_conversation v s"
  proof (cases "get_conversation v s")
    case None
    then show ?thesis by (simp add: get_conversation_save_conversation)
  next
    case (Some x)
    then have "c_uuid x = v" by (rule get_conversation_uuid)
    with False Some show ?thesis by (simp add: get_conversation_save_conversation)
  qed
  then show ?thesis by simp
qed

lemma customer_fields_touch:
  "map_option customer_fields (get_conversation v (touch_conversation u now s))
   = map_option customer_fields (get_conversation v s)"
proof (cases "get_conversation u s")
  case None
  then show ?thesis by (simp add: touch_conversation_def)
next
  case (Some c)
  then have u: "c_uuid c = u" by (rule get_conversation_uuid)
  have "map_option customer_fields
          (get_conversation v (save_conversation (c\<lparr>c_updated_at := now\<rparr>) now s))
        = map_option customer_fields (get_conversation v s)"
    using Some u by (intro customer_fields_save [where c = c]) (simp_all add: customer_fields_def)
  with Some show ?thesis by (simp add: touch_conversation_def)
qed

lemma get_conversation_handoff_fields [simp]:
  "get_conversation v (x\<lparr>handoff_requests := hs, next_handoff_id := n\<rparr>) = get_conversation v x"
  by (simp add: get_conversation_def)

lemma customer_fields_create_handoff_request:
  "map_option customer_fields
     (get_conversation v (snd (create_handoff_request u bu reason now s)))
   = map_option customer_fields (get_conversation v s)"
proof (cases "get_conversation u s")
  case None
  then show ?thesis
    by (simp add: create_handoff_request_def Let_def split: option.splits)
next
  case (Some c)
  then have u: "c_uuid c = u" by (rule get_conversation_uuid)
  have "map_option customer_fields
          (get_conversation v (save_conversation (c\<lparr>c_handoff_status := ''requested''\<rparr>) now s))
        = map_option customer_fields (get_conversation v s)"
    using Some u by (intro customer_fields_save [where c = c]) (simp_all add: customer_fields_def)
  with Some show ?thesis
    by (simp add: create_handoff_request_def Let_def split: option.splits)
qed

lemma update_conversation_details_row:
  assumes "get_conversation u s = Some conversation"
  shows "\<exists>c'. get_conversation u (snd (update_conversation_details env conversation body now s))
              = Some c'
     \<and> (truthy (c_customer_email conversation)
          \<longrightarrow> c_customer_email c' = c_customer_email conversation)
     \<and> (truthy (c_customer_phone conversation)
          \<longrightarrow> c_customer_phone c' = c_customer_phone conversation)
     \<and> (truthy (c_customer_name conversation) \<and> c_customer_name conversation \<noteq> Some ''Anonymous''
          \<longrightarrow> c_customer_name c' = c_customer_name conversation)"
proof -
  from assms have u: "c_uuid conversation = u" by (rule get_conversation_uuid)
  define se where "se = (\<not> truthy (c_customer_email conversation)
                        \<and> truthy (extract_email env body))"
  define c1 where "c1 = (if se then conversation\<lparr>c_customer_email := extract_email env body\<rparr>
                         else conversation)"
  define sp where "sp = (\<not> truthy (c_customer_phone c1) \<and> truthy (extract_phone env body))"
  define c2 where "c2 = (if sp then c1\<lparr>c_customer_phone := extract_phone env body\<rparr> else c1)"
  define sn where "sn = ((\<not> truthy (c_customer_name c2) \<or> c_customer_name c2 = Some ''Anonymous'')
                        \<and> truthy (extract_name env body))"
  define c3 where "c3 = (if sn then c2\<lparr>c_customer_name := extract_name env body\<rparr> else c2)"
  have upd: "snd (update_conversation_details env conversation body now s)
        = (if se \<or> sp \<or> sn then save_conversation c3 now s else s)"
    unfolding update_conversation_details_def c3_def sn_def c2_def sp_def c1_def se_def
    by (simp only: Let_def snd_conv)
  have c3u: "c_uuid c3 = u" using u by (simp add: c3_def c2_def c1_def)
  show ?thesis
  proof (cases "se \<or> sp \<or> sn")
    case False
    with assms upd show ?thesis by simp
  next
    case True
    have "get_conversation u (save_conversation c3 now s)
          = Some (if c3 = conversation then conversation else c3\<lparr>c_updated_at := now\<rparr>)"
      using assms c3u by (rule get_conversation_saved)
    moreover have "truthy (c_customer_email conversation)
          \<longrightarrow> c_customer_email c3 = c_customer_email conversation"
      by (simp add: c3_def c2_def c1_def se_def)
    moreover have "truthy (c_customer_phone conversation)
          \<longrightarrow> c_customer_phone c3 = c_customer_phone conversation"
      by (simp add: c3_def c2_def c1_def sp_def)
    moreover have "truthy (c_customer_name conversation)
            \<and> c_customer_name conversation \<noteq> Some ''Anonymous''
          \<longrightarrow> c_customer_name c3 = c_customer_name conversation"
      by (auto simp: c3_def c2_def c1_def sn_def)
    ultimately show ?thesis using True upd by auto
  qed
qed


lemma prepare_chat_run_row:
  assumes "get_conversation u s = Some c"
  shows "\<exists>c'. get_conversation u (snd (prepare_chat_run env bu u body now s)) = Some c'
     \<and> (truthy (c_customer_email c) \<longrightarrow> c_customer_email c' = c_customer_email c)
     \<and> (truthy (c_customer_phone c) \<longrightarrow> c_customer_phone c' = c_customer_phone c)
     \<and> (truthy (c_customer_name c) \<and> c_customer_name c \<noteq> Some ''Anonymous''
          \<longrightarrow> c_customer_name c' = c_customer_name c)"
proof (cases "get_chatbot bu s = None \<or> \<not> has_credits_for_chatbot env bu")
  case True
  then have "snd (prepare_chat_run env bu u body now s) = s"
    by (auto simp: prepare_chat_run_def split: option.splits)
  with assms show ?thesis by simp
next
  case False
  then have "snd (prepare_chat_run env bu u body now s)
      = snd (update_conversation_details env c body now (add_message u ''user'' body now s))"
    using assms by (auto simp: prepare_chat_run_def Let_def split: option.splits)
  moreover have "get_conversation u (add_message u ''user'' body now s) = Some c"
    using assms by simp
  ultimately show ?thesis
    using update_conversation_details_row
      [of u "add_message u ''user'' body now s" c env body now] by simp
qed

lemma process_message_fields:
  "map_option customer_fields
     (get_conversation u (fst (snd (process_message env bu u body now s))))
   = map_option customer_fields
       (get_conversation u (snd (prepare_chat_run env bu u body now s)))"
proof (cases "prepare_chat_run env bu u body now s")
  case (Pair res s1)
  show ?thesis
  proof (cases res)
    case (Inl e)
    with Pair show ?thesis by (simp add: process_message_def)
  next
    case (Inr p)
    obtain conversation lc_messages where p: "p = (conversation, lc_messages)" by (cases p)
    show ?thesis
    proof (cases "graph_ainvoke env bu lc_messages")
      case (Inl e)
      with Pair Inr p show ?thesis by (simp add: process_message_def)
    next
      case (Inr q)
      obtain answer offer where q: "q = (answer, offer)" by (cases q)
      from Pair \<open>res = Inr p\<close> p Inr q show ?thesis
        by (simp add: process_message_def Let_def customer_fields_touch
            customer_fields_create_handoff_request)
    qed
  qed
qed

lemma process_message_row:
  assumes "get_conversation u s = Some c"
  shows "\<exists>c'. get_conversation u (fst (snd (process_message env bu u body now s))) = Some c'
     \<and> (truthy (c_customer_email c) \<longrightarrow> c_customer_email c' = c_customer_email c)
     \<and> (truthy (c_customer_phone c) \<longrightarrow> c_customer_phone c' = c_customer_phone c)
     \<and> (truthy (c_customer_name c) \<and> c_customer_name c \<noteq> Some ''Anonymous''
          \<longrightarrow> c_customer_name c' = c_customer_name c)"
proof -
  from prepare_chat_run_row [OF assms, of env bu body now]
  obtain c1 where c1: "get_conversation u (snd (prepare_chat_run env bu u body now s)) = Some c1"
     "truthy (c_customer_email c) \<longrightarrow> c_customer_email c1 = c_customer_email c"
     "truthy (c_customer_phone c) \<longrightarrow> c_customer_phone c1 = c_customer_phone c"
     "truthy (c_customer_name c) \<and> c_customer_name c \<noteq> Some ''Anonymous''
          \<longrightarrow> c_customer_name c1 = c_customer_name c"
    by blast
  from process_message_fields [of u env bu body now s] c1(1)
  obtain c' where c': "get_conversation u (fst (snd (process_message env bu u body now s))) = Some c'"
      "customer_fields c' = customer_fields c1"
    by (cases "get_conversation u (fst (snd (process_message env bu u body now s)))") auto
  with c1 show ?thesis by (auto simp: customer_fields_def)
qed

lemma update_customer_info_uuid [simp]: "c_uuid (update_customer_info request c) = c_uuid c"
  by (simp add: update_customer_info_def Let_def)

lemma route_send_message_store:
  assumes "get_chatbot bu s = Some b"
    and "find (\<lambda>c. c_chatbot_uuid c = bu \<and> c_session_id c = q_session_id request
                    \<and> c_status c = ''active'') (conversations s) = Some c"
  shows "fst (snd (route_send_message env bu request new_uuid now s))
         = fst (snd (process_message env bu (c_uuid c) (q_message request) now
                  (save_conversation (update_customer_info request c) now s)))"
  using assms
  by (simp add: route_send_message_def get_or_create_conversation_def Let_def
      split: prod.splits sum.splits)

lemma saved_fields:
  "customer_fields (if c' = c then c else c'\<lparr>c_updated_at := now\<rparr>) = customer_fields c'"
  by (auto simp: customer_fields_def)

text \<open>
  Claim C7, as amended.  The detail extraction never overwrites a field that is set:
  after \<open>update_conversation_details\<close> on a conversation of the store, an e-mail address
  or a phone number that was non-empty is what it was, and so is a name that was
  non-empty and not the placeholder \<open>Anonymous\<close>.  The REST send-message endpoint is
  different: a non-empty e-mail address (or name other than \<open>Anonymous\<close>) in the request
  replaces what the conversation of the session holds.  Where the request gives none, the
  field that was set is kept; the phone number is never replaced.
\<close>

theorem customer_fields_kept_or_replaced:
  "(\<forall>c. get_conversation u s = Some c \<longrightarrow>
      (\<exists>c'. get_conversation u (snd (update_conversation_details env c body now s)) = Some c'
         \<and> (truthy (c_customer_email c) \<longrightarrow> c_customer_email c' = c_customer_email c)
         \<and> (truthy (c_customer_phone c) \<longrightarrow> c_customer_phone c' = c_customer_phone c)
         \<and> (truthy (c_customer_name c) \<and> c_customer_name c \<noteq> Some ''Anonymous''
              \<longrightarrow> c_customer_name c' = c_customer_name c)))
   \<and> (\<forall>b c. get_chatbot bu s = Some b
        \<and> find (\<lambda>c. c_chatbot_uuid c = bu \<and> c_session_id c = q_session_id request
                       \<and> c_status c = ''active'') (conversations s) = Some c
        \<and> get_conversation (c_uuid c) s = Some c \<longrightarrow>
      (\<exists>c'. get_conversation (c_uuid c)
                (fst (snd (route_send_message env bu request new_uuid now s))) = Some c'
         \<and> (truthy (q_customer_email request)
              \<longrightarrow> c_customer_email c' = q_customer_email request)
         \<and> (truthy (q_customer_name request) \<and> q_customer_name request \<noteq> Some ''Anonymous''
              \<longrightarrow> c_customer_name c' = q_customer_name request)
         \<and> (\<not> truthy (q_customer_email request) \<and> truthy (c_customer_email c)
              \<longrightarrow> c_customer_email c' = c_customer_email c)
         \<and> (\<not> truthy (q_customer_name request) \<and> truthy (c_customer_name c)
              \<and> c_customer_name c \<noteq> Some ''Anonymous''
              \<longrightarrow> c_customer_name c' = c_customer_name c)
         \<and> (truthy (c_customer_phone c) \<longrightarrow> c_customer_phone c' = c_customer_phone c)))"
proof (intro conjI allI impI)
  fix c assume "get_conversation u s = Some c"
  then show "\<exists>c'. get_conversation u (snd (update_conversation_details env c body now s)) = Some c'
         \<and> (truthy (c_customer_email c) \<longrightarrow> c_customer_email c' = c_customer_email c)
         \<and> (truthy (c_customer_phone c) \<longrightarrow> c_customer_phone c' = c_customer_phone c)
         \<and> (truthy (c_customer_name c) \<and> c_customer_name c \<noteq> Some ''Anonymous''
              \<longrightarrow> c_customer_name c' = c_customer_name c)"
    by (rule update_conversation_details_row)
next
  fix b c
  assume a: "get_chatbot bu s = Some b
        \<and> find (\<lambda>c. c_chatbot_uuid c = bu \<and> c_session_id c = q_session_id request
                       \<and> c_status c = ''active'') (conversations s) = Some c
        \<and> get_conversation (c_uuid c) s = Some c"
  define cu where "cu = update_customer_info request c"
  define c2 where "c2 = (if cu = c then c else cu\<lparr>c_updated_at := now\<rparr>)"
  define s2 where "s2 = save_conversation cu now s"
  have row2: "get_conversation (c_uuid c) s2 = Some c2"
    using a get_conversation_saved [of "c_uuid c" s c cu now]
    by (simp add: s2_def c2_def cu_def)
  have f2: "customer_fields c2 = customer_fields cu"
    unfolding c2_def by (rule saved_fields)
  have store: "fst (snd (route_send_message env bu request new_uuid now s))
         = fst (snd (process_message env bu (c_uuid c) (q_message request) now s2))"
    using a route_send_message_store [of bu s b request c env new_uuid now]
    by (simp add: s2_def cu_def)
  from process_message_row [OF row2, of env bu "q_message request" now]
  obtain c' where c': "get_conversation (c_uuid c)
        (fst (snd (process_message env bu (c_uuid c) (q_message request) now s2))) = Some c'"
     "truthy (c_customer_email c2) \<longrightarrow> c_customer_email c' = c_customer_email c2"
     "truthy (c_customer_phone c2) \<longrightarrow> c_customer_phone c' = c_customer_phone c2"
     "truthy (c_customer_name c2) \<and> c_customer_name c2 \<noteq> Some ''Anonymous''
          \<longrightarrow> c_customer_name c' = c_customer_name c2"
    by blast
  have e2: "c_customer_email c2
      = (if truthy (q_customer_email request) then q_customer_email request
         else c_customer_email c)"
    and n2: "c_customer_name c2
      = (if truthy (q_customer_name request) then q_customer_name request
         else c_customer_name c)"
    and p2: "c_customer_phone c2 = c_customer_phone c"
    using f2 by (simp_all add: customer_fields_def cu_def update_customer_info_def Let_def)
  show "\<exists>c'. get_conversation (c_uuid c)
                (fst (snd (route_send_message env bu request new_uuid now s))) = Some c'
         \<and> (truthy (q_customer_email request)
              \<longrightarrow> c_customer_email c' = q_customer_email request)
         \<and> (truthy (q_customer_name request) \<and> q_customer_name request \<noteq> Some ''Anonymous''
              \<longrightarrow> c_customer_name c' = q_customer_name request)
         \<and> (\<not> truthy (q_customer_email request) \<and> truthy (c_customer_email c)
              \<longrightarrow> c_customer_email c' = c_customer_email c)
         \<and> (\<not> truthy (q_customer_name request) \<and> truthy (c_customer_name c)
              \<and> c_customer_name c \<noteq> Some ''Anonymous''
              \<longrightarrow> c_customer_name c' = c_customer_name c)
         \<and> (truthy (c_customer_phone c) \<longrightarrow> c_customer_phone c' = c_customer_phone c)"
    using c' e2 n2 p2 store by auto
qed

lemma store_known_row:
  "get_conversation ''conv-1'' store_known_customer = Some conversation_known"
  by (simp add: get_conversation_def store_known_customer_def store_automated_def
      conversation_known_def conversation_1_def)

theorem customer_fields_kept_or_replaced_witness:
  "get_conversation ''conv-1'' store_known_customer = Some conversation_known
   \<and> truthy (c_customer_email conversation_known)
   \<and> truthy (extract_email eager_collaborators ''mail me at found@example.org'')
   \<and> map_option c_customer_email
        (get_conversation ''conv-1''
           (snd (update_conversation_details eager_collaborators conversation_known
                   ''mail me at found@example.org'' 30 store_known_customer)))
       = Some (Some ''alice@example.org'')
   \<and> map_option c_customer_phone
        (get_conversation ''conv-1''
           (snd (update_conversation_details eager_collaborators conversation_known
                   ''mail me at found@example.org'' 30 store_known_customer)))
       = Some (Some ''555-123-4567'')
   \<and> truthy (q_customer_email request_other_identity)
   \<and> map_option c_customer_email
        (get_conversation ''conv-1''
           (fst (snd (route_send_message eager_collaborators ''bot-1'' request_other_identity
                        ''conv-9'' 30 store_known_customer))))
       = Some (Some ''mallory@example.org'')"
proof -
  have fnd: "find (\<lambda>c. c_chatbot_uuid c = ''bot-1''
                \<and> c_session_id c = q_session_id request_other_identity
                \<and> c_status c = ''active'') (conversations store_known_customer)
             = Some conversation_known"
    by (simp add: store_known_customer_def store_automated_def conversation_known_def
        conversation_1_def request_other_identity_def)
  have bot: "get_chatbot ''bot-1'' store_known_customer
             = Some \<lparr>b_uuid = ''bot-1'', b_workspace_uuid = ''ws-1'', b_is_active = True\<rparr>"
    by (simp add: get_chatbot_def store_known_customer_def store_automated_def)
  have uu: "c_uuid conversation_known = ''conv-1''"
    by (simp add: conversation_known_def conversation_1_def)
  have t1: "truthy (c_customer_email conversation_known)"
     "c_customer_email conversation_known = Some ''alice@example.org''"
     "truthy (q_customer_email request_other_identity)"
     "q_customer_email request_other_identity = Some ''mallory@example.org''"
     "truthy (extract_email eager_collaborators ''mail me at found@example.org'')"
    by (simp_all add: conversation_known_def truthy_def request_other_identity_def
        eager_collaborators_def)
  have ph: "map_option c_customer_phone
        (get_conversation ''conv-1''
           (snd (update_conversation_details eager_collaborators conversation_known
                   ''mail me at found@example.org'' 30 store_known_customer)))
       = Some (Some ''555-123-4567'')"
    by (simp add: update_conversation_details_def Let_def eager_collaborators_def
        quiet_collaborators_def conversation_known_def conversation_1_def truthy_def
        store_known_customer_def store_automated_def save_conversation_def get_conversation_def)
  from customer_fields_kept_or_replaced
    [of "''conv-1''" store_known_customer eager_collaborators "''mail me at found@example.org''"
       30 "''bot-1''" request_other_identity "''conv-9''"]
    store_known_row fnd bot uu t1 ph
  show ?thesis by auto
qed

text \<open>
  The customer of \<open>conv-1\<close> is known as Alice; one request on the session with another
  name and address replaces both.
\<close>

theorem customer_fields_never_overwritten_counterexample:
  "map_option c_customer_email (get_conversation ''conv-1'' store_known_customer)
     = Some (Some ''alice@example.org'')
   \<and> map_option c_customer_name (get_conversation ''conv-1'' store_known_customer)
     = Some (Some ''Alice'')
   \<and> map_option c_customer_email
        (get_conversation ''conv-1''
           (fst (snd (route_send_message quiet_collaborators ''bot-1'' request_other_identity
                        ''conv-9'' 30 store_known_customer))))
     = Some (Some ''mallory@example.org'')
   \<and> map_option c_customer_name
        (get_conversation ''conv-1''
           (fst (snd (route_send_message quiet_collaborators ''bot-1'' request_other_identity
                        ''conv-9'' 30 store_known_customer))))
     = Some (Some ''Mallory'')"
  by (simp add: route_send_message_def get_or_create_conversation_def get_chatbot_def
      process_message_def prepare_chat_run_def update_conversation_details_def
      update_customer_info_def history_def order_by_desc_def add_message_def
      touch_conversation_def save_conversation_def get_conversation_def
      mentions_customer_service_def quiet_collaborators_def request_other_identity_def
      store_known_customer_def store_automated_def conversation_known_def conversation_1_def
      truthy_def Let_def)

section \<open>Feedback and topic of a message\<close>

lemma find_m_id: "find (\<lambda>m. m_id m = i) xs = Some m \<Longrightarrow> m_id m = i \<and> m \<in> set xs"
  by (induction xs) (auto split: if_splits)

lemma get_message_id: "get_message i s = Some m \<Longrightarrow> m_id m = i \<and> m \<in> set (messages s)"
  unfolding get_message_def by (rule find_m_id)

lemma distinct_m_id_eq:
  assumes "distinct (map m_id xs)" "a \<in> set xs" "b \<in> set xs" "m_id a = m_id b"
  shows "a = b"
  using assms by (meson distinct_map inj_onD)

lemma save_message_others:
  assumes "distinct (map m_id (messages s))" "get_message i s = Some m"
    "same_but_feedback_and_topic m m'" "m_id m' = i"
  shows "list_all2 same_but_feedback_and_topic (messages s) (messages (save_message m' s))"
proof -
  have "same_but_feedback_and_topic x (if m_id x = m_id m' then m' else x)"
    if "x \<in> set (messages s)" for x
  proof (cases "m_id x = m_id m'")
    case True
    with assms that have "x = m"
      using get_message_id [of i s m] distinct_m_id_eq [of "messages s" x m] by auto
    with True assms(3) show ?thesis by simp
  next
    case False
    then show ?thesis by (simp add: same_but_feedback_and_topic_def)
  qed
  then show ?thesis
    by (simp add: save_message_def list_all2_map2 list_all2_same)
qed

lemma messages_count_topic [simp]: "messages (count_topic bu topic now s) = messages s"
  by (simp add: count_topic_def split: option.splits)

lemma get_message_save_message:
  "get_message (m_id m') (save_message m' s)
   = (case get_message (m_id m') s of None \<Rightarrow> None | Some _ \<Rightarrow> Some m')"
  unfolding get_message_def save_message_def
  using find_replace_by_key [of m_id m' "m_id m'" "messages s"] by simp

lemma same_refl: "list_all2 same_but_feedback_and_topic xs xs"
  by (simp add: list_all2_same same_but_feedback_and_topic_def)

text \<open>
  Claim C4, as amended.  The topic is settable once: \<open>classify_message_topic\<close> on a message
  whose topic is non-empty returns that topic and leaves the store as it is, without an
  error.  The feedback is not: \<open>submit_feedback\<close> on an assistant message stores the
  feedback of the request whatever the message held (on a message of another role it
  answers 400 and writes nothing).  Neither operation changes anything of a stored
  message but its feedback and its topic.
\<close>

theorem topic_set_once_feedback_replaced:
  "(\<forall>m. get_message i s = Some m \<and> truthy (m_topic m) \<longrightarrow>
        classify_message_topic env i bu message_role content now s = (m_topic m, s))
   \<and> (\<forall>m. get_message i s = Some m \<and> m_role m = ''assistant'' \<longrightarrow>
        fst (submit_feedback i f s) = Inr (m\<lparr>m_feedback := Some (feedback_text f)\<rparr>)
        \<and> get_message i (snd (submit_feedback i f s))
            = Some (m\<lparr>m_feedback := Some (feedback_text f)\<rparr>))
   \<and> (\<forall>m. get_message i s = Some m \<and> m_role m \<noteq> ''assistant'' \<longrightarrow>
        submit_feedback i f s
          = (Inl (HTTPException 400 ''Feedback can only be submitted for assistant messages''), s))
   \<and> (distinct (map m_id (messages s)) \<longrightarrow>
        list_all2 same_but_feedback_and_topic (messages s) (messages (snd (submit_feedback i f s)))
        \<and> list_all2 same_but_feedback_and_topic (messages s)
            (messages (snd (classify_message_topic env i bu message_role content now s))))"
proof (intro conjI allI impI)
  fix m assume "get_message i s = Some m \<and> truthy (m_topic m)"
  then show "classify_message_topic env i bu message_role content now s = (m_topic m, s)"
    by (simp add: classify_message_topic_def)
next
  fix m assume a: "get_message i s = Some m \<and> m_role m = ''assistant''"
  then show "fst (submit_feedback i f s) = Inr (m\<lparr>m_feedback := Some (feedback_text f)\<rparr>)"
    by (simp add: submit_feedback_def)
  from a have "m_id m = i" using get_message_id by blast
  with a show "get_message i (snd (submit_feedback i f s))
            = Some (m\<lparr>m_feedback := Some (feedback_text f)\<rparr>)"
    using get_message_save_message [of "m\<lparr>m_feedback := Some (feedback_text f)\<rparr>" s]
    by (simp add: submit_feedback_def)
next
  fix m assume "get_message i s = Some m \<and> m_role m \<noteq> ''assistant''"
  then show "submit_feedback i f s
          = (Inl (HTTPException 400 ''Feedback can only be submitted for assistant messages''), s)"
    by (simp add: submit_feedback_def)
next
  assume d: "distinct (map m_id (messages s))"
  show "list_all2 same_but_feedback_and_topic (messages s) (messages (snd (submit_feedback i f s)))"
  proof (cases "get_message i s")
    case None
    then show ?thesis by (simp add: submit_feedback_def same_refl)
  next
    case (Some m)
    then have "m_id m = i" using get_message_id by blast
    then have "list_all2 same_but_feedback_and_topic (messages s)
        (messages (save_message (m\<lparr>m_feedback := Some (feedback_text f)\<rparr>) s))"
      using d Some by (intro save_message_others [where m = m and i = i])
        (simp_all add: same_but_feedback_and_topic_def)
    with Some show ?thesis by (simp add: submit_feedback_def same_refl)
  qed
  show "list_all2 same_but_feedback_and_topic (messages s)
            (messages (snd (classify_message_topic env i bu message_role content now s)))"
  proof (cases "get_message i s")
    case None
    then show ?thesis by (simp add: classify_message_topic_def same_refl)
  next
    case (Some m)
    then have "m_id m = i" using get_message_id by blast
    then have "list_all2 same_but_feedback_and_topic (messages s)
        (messages (save_message (m\<lparr>m_topic := t\<rparr>) s))" for t
      using d Some by (intro save_message_others [where m = m and i = i])
        (simp_all add: same_but_feedback_and_topic_def)
    with Some show ?thesis
      by (simp add: classify_message_topic_def same_refl Let_def split: sum.splits)
  qed
qed

theorem topic_set_once_feedback_replaced_witness:
  "get_message 1 store_feedback = Some message_liked
   \<and> truthy (m_topic message_liked)
   \<and> m_role message_liked = ''assistant''
   \<and> distinct (map m_id (messages store_feedback))
   \<and> classify_message_topic quiet_collaborators 1 ''bot-1'' ''assistant'' ''We are open.'' 9
        store_feedback = (Some ''Opening Hours'', store_feedback)
   \<and> map_option m_feedback (get_message 1 (snd (submit_feedback 1 Dislike store_feedback)))
       = Some (Some ''dislike'')
   \<and> list_all2 same_but_feedback_and_topic (messages store_feedback)
        (messages (snd (submit_feedback 1 Dislike store_feedback)))"
proof -
  have g: "get_message 1 store_feedback = Some message_liked"
    by (simp add: get_message_def store_feedback_def store_automated_def message_liked_def)
  have t: "truthy (m_topic message_liked)" "m_role message_liked = ''assistant''"
      "m_topic message_liked = Some ''Opening Hours''"
    by (simp_all add: message_liked_def truthy_def)
  have d: "distinct (map m_id (messages store_feedback))"
    by (simp add: store_feedback_def store_automated_def)
  from topic_set_once_feedback_replaced
    [of 1 store_feedback quiet_collaborators "''bot-1''" "''assistant''" "''We are open.''" 9 Dislike]
    g t d
  show ?thesis by simp
qed

text \<open>A message that was liked is disliked by a second call: the feedback is overwritten.\<close>

theorem feedback_set_once_counterexample:
  "map_option m_feedback (get_message 1 store_feedback) = Some (Some ''like'')
   \<and> map_option m_feedback (get_message 1 (snd (submit_feedback 1 Dislike store_feedback)))
       = Some (Some ''dislike'')"
  by (simp add: submit_feedback_def save_message_def get_message_def store_feedback_def
      store_automated_def message_liked_def)

section \<open>Broadcasts to the dashboards\<close>

lemma manager_two_tabs_eq:
  "manager_two_tabs =
     \<lparr>active_connections = [], dashboard_connections = [(''bot-1'', [2])],
      dashboard_session_map = []\<rparr>"
  by (simp add: manager_two_tabs_def connect_def disconnect_def discard_from_def new_manager_def
      truthy_def)

lemma manager_live_eq:
  "manager_live =
     \<lparr>active_connections = [(''session-A'', [7])], dashboard_connections = [(''bot-1'', [9])],
      dashboard_session_map = [(''dashboard_ops'', ''bot-1'')]\<rparr>"
  by (simp add: manager_live_def connect_def new_manager_def truthy_def)

lemma broadcast_each_events:
  "snd (broadcast_each alive message bu conns m)
   = map (\<lambda>ws. Send_json (To_dashboard bu) ws message (alive ws)) conns"
  by (induction conns arbitrary: m) (simp_all add: split_beta)

lemma broadcast_each_without_index:
  assumes "find (\<lambda>(sid, chatbot_uuid_map). chatbot_uuid_map = bu) (dashboard_session_map m) = None"
  shows "fst (broadcast_each alive message bu conns m) = m"
  using assms
  by (induction conns) (simp_all add: split_beta drop_dead_dashboard_def)

lemma drop_dead_with_index:
  assumes "find (\<lambda>(sid, chatbot_uuid_map). chatbot_uuid_map = bu) (dashboard_session_map m) = Some p"
    and "map_of (dashboard_connections m) bu = Some g"
  shows "drop_dead_dashboard bu ws m
         = m\<lparr>dashboard_connections := AList.update bu (removeAll ws g) (dashboard_connections m)\<rparr>"
  using assms by (simp add: drop_dead_dashboard_def)

lemma broadcast_each_with_index:
  assumes "find (\<lambda>(sid, chatbot_uuid_map). chatbot_uuid_map = bu) (dashboard_session_map m) = Some p"
    and "map_of (dashboard_connections m) bu = Some g"
  shows "fst (broadcast_each alive message bu conns m)
         = m\<lparr>dashboard_connections :=
               AList.update bu (filter (\<lambda>ws. ws \<notin> set conns \<or> alive ws) g)
                 (dashboard_connections m)\<rparr>"
  using assms
proof (induction conns arbitrary: m g)
  case Nil
  then show ?case by (simp add: update_triv)
next
  case (Cons ws conns)
  show ?case
  proof (cases "alive ws")
    case True
    have "filter (\<lambda>x. x \<notin> set conns \<or> alive x) g
          = filter (\<lambda>x. x \<noteq> ws \<and> x \<notin> set conns \<or> alive x) g"
      using True by (intro filter_cong) auto
    with True Cons.IH [OF Cons.prems] show ?thesis by (simp add: split_beta)
  next
    case False
    let ?m = "m\<lparr>dashboard_connections :=
                 AList.update bu (removeAll ws g) (dashboard_connections m)\<rparr>"
    have d: "drop_dead_dashboard bu ws m = ?m"
      using Cons.prems by (rule drop_dead_with_index)
    have "fst (broadcast_each alive message bu conns ?m)
         = ?m\<lparr>dashboard_connections :=
               AList.update bu (filter (\<lambda>ws. ws \<notin> set conns \<or> alive ws) (removeAll ws g))
                 (dashboard_connections ?m)\<rparr>"
      using Cons.prems by (intro Cons.IH) (simp_all add: update_conv')
    moreover have "filter (\<lambda>x. x \<notin> set conns \<or> alive x) (removeAll ws g)
          = filter (\<lambda>x. x \<noteq> ws \<and> x \<notin> set conns \<or> alive x) g"
      using False by (induction g) auto
    ultimately show ?thesis using False d by (simp add: split_beta)
  qed
qed

lemma send_each_events:
  "snd (send_each alive message sid conns m)
   = map (\<lambda>ws. Send_json (To_session sid) ws message (alive ws)) conns"
  by (induction conns arbitrary: m) (simp_all add: split_beta)

lemma send_message_events:
  "snd (send_message alive message sid m)
   = map (\<lambda>ws. Send_json (To_session sid) ws message (alive ws)) (session_group sid m)"
  by (simp add: send_message_def session_group_def send_each_events split: option.splits)

lemma broadcast_to_dashboard_events:
  "snd (broadcast_to_dashboard alive message bu m)
   = map (\<lambda>ws. Send_json (To_dashboard bu) ws message (alive ws)) (dashboard_group bu m)"
proof (cases "map_of (dashboard_connections m) bu")
  case None
  then show ?thesis by (simp add: broadcast_to_dashboard_def dashboard_group_def)
next
  case (Some conns)
  then show ?thesis
    using broadcast_each_events [of alive message bu conns m]
    by (cases conns) (simp_all add: broadcast_to_dashboard_def dashboard_group_def)
qed

text \<open>
  Claim C9, where the code falls short of it.  Two dashboard connections, 1 and 2, are
  registered for \<open>bot-1\<close> under the same session id, and connection 1 leaves: its
  \<open>disconnect\<close> deletes the entry of that session id from the reverse index, and connection
  2 stays in the group of \<open>bot-1\<close>.  A broadcast on which connection 2 fails attempts the
  send once and raises nothing, but the connection is still registered afterwards: the
  walk over the reverse index finds no session of \<open>bot-1\<close> and discards nothing.
\<close>

theorem broadcast_keeps_dead_connection:
  "dashboard_connections manager_two_tabs = [(''bot-1'', [2])]
   \<and> broadcast_to_dashboard nobody_alive (New_message ''conv-1'' ''bot-1'' ''user'') ''bot-1''
        manager_two_tabs
     = (manager_two_tabs,
        [Send_json (To_dashboard ''bot-1'') 2 (New_message ''conv-1'' ''bot-1'' ''user'') False])"
  by (simp add: manager_two_tabs_eq broadcast_to_dashboard_def drop_dead_dashboard_def
      nobody_alive_def)

text \<open>
  A broadcast for a chatbot that has no dashboard connection, or an empty group of them,
  attempts no send and leaves the manager as it is.
\<close>

theorem broadcast_without_connections:
  "(map_of (dashboard_connections m) bu = None \<or> map_of (dashboard_connections m) bu = Some [])
   \<longrightarrow> broadcast_to_dashboard alive message bu m = (m, [])"
  by (auto simp: broadcast_to_dashboard_def)

theorem broadcast_without_connections_witness:
  "map_of (dashboard_connections new_manager) ''bot-1'' = None
   \<and> broadcast_to_dashboard everybody_alive (New_message ''conv-1'' ''bot-1'' ''user'') ''bot-1''
        new_manager = (new_manager, [])"
  using broadcast_without_connections
    [of new_manager "''bot-1''" everybody_alive "New_message ''conv-1'' ''bot-1'' ''user''"]
  by (simp add: new_manager_def)

text \<open>
  A broadcast attempts one send on every connection of the chatbot's group, in the order
  of the group, whether or not earlier sends failed.
\<close>

theorem broadcast_attempts_every_connection:
  "snd (broadcast_to_dashboard alive message chatbot_uuid m)
     = map (\<lambda>ws. Send_json (To_dashboard chatbot_uuid) ws message (alive ws))
         (dashboard_group chatbot_uuid m)"
  by (rule broadcast_to_dashboard_events)

text \<open>
  When the reverse index holds a session of the chatbot, the broadcast leaves exactly
  the connections that took the frame in the chatbot's group; the groups of other
  chatbots and the widget connections are untouched.
\<close>

theorem broadcast_drops_dead_connections_with_index:
  assumes "find (\<lambda>(sid, chatbot_uuid_map). chatbot_uuid_map = chatbot_uuid)
             (dashboard_session_map m) \<noteq> None"
    and "dashboard_group chatbot_uuid m \<noteq> []"
  shows "dashboard_group chatbot_uuid (fst (broadcast_to_dashboard alive message chatbot_uuid m))
         = filter alive (dashboard_group chatbot_uuid m)
       \<and> (\<forall>other. other \<noteq> chatbot_uuid \<longrightarrow>
            dashboard_group other (fst (broadcast_to_dashboard alive message chatbot_uuid m))
            = dashboard_group other m)
       \<and> active_connections (fst (broadcast_to_dashboard alive message chatbot_uuid m))
         = active_connections m"
proof -
  from assms(1) obtain p where p:
    "find (\<lambda>(sid, chatbot_uuid_map). chatbot_uuid_map = chatbot_uuid) (dashboard_session_map m)
     = Some p" by auto
  from assms(2) obtain g where g: "map_of (dashboard_connections m) chatbot_uuid = Some g"
      "g \<noteq> []"
    by (auto simp: dashboard_group_def split: option.splits)
  have b: "broadcast_to_dashboard alive message chatbot_uuid m
           = broadcast_each alive message chatbot_uuid g m"
    using g by (cases g) (simp_all add: broadcast_to_dashboard_def)
  have f: "filter (\<lambda>ws. ws \<in> set g \<longrightarrow> alive ws) g = filter alive g"
    by (intro filter_cong) auto
  show ?thesis
    using g by (simp add: b broadcast_each_with_index [OF p g(1)] f dashboard_group_def
        update_conv')
qed

theorem broadcast_drops_dead_connections_with_index_witness:
  "find (\<lambda>(sid, chatbot_uuid_map). chatbot_uuid_map = ''bot-1'')
      (dashboard_session_map manager_live) \<noteq> None
   \<and> dashboard_group ''bot-1'' manager_live = [9]
   \<and> dashboard_group ''bot-1''
        (fst (broadcast_to_dashboard nobody_alive (New_message ''conv-1'' ''bot-1'' ''user'')
                ''bot-1'' manager_live)) = []"
proof -
  have a: "find (\<lambda>(sid, chatbot_uuid_map). chatbot_uuid_map = ''bot-1'')
      (dashboard_session_map manager_live) \<noteq> None"
    "dashboard_group ''bot-1'' manager_live = [9]"
    by (simp_all add: manager_live_eq dashboard_group_def)
  from broadcast_drops_dead_connections_with_index
    [where m = manager_live and chatbot_uuid = "''bot-1''" and alive = nobody_alive
       and message = "New_message ''conv-1'' ''bot-1'' ''user''", OF a(1)] a
  show ?thesis by (simp add: nobody_alive_def)
qed

section \<open>A message while an operator is assigned\<close>

lemma messages_save_conversation [simp]:
  "messages (save_conversation c now s) = messages s"
  by (simp add: save_conversation_def)

lemma next_message_id_save_conversation [simp]:
  "next_message_id (save_conversation c now s) = next_message_id s"
  by (simp add: save_conversation_def)

lemma update_conversation_details_store:
  "\<exists>c3. c_uuid c3 = c_uuid c \<and> c_handoff_status c3 = c_handoff_status c
        \<and> c_updated_at c3 = c_updated_at c
        \<and> (snd (update_conversation_details env c body now s) = s
            \<or> snd (update_conversation_details env c body now s) = save_conversation c3 now s)"
proof -
  define se where "se = (\<not> truthy (c_customer_email c) \<and> truthy (extract_email env body))"
  define c1 where "c1 = (if se then c\<lparr>c_customer_email := extract_email env body\<rparr> else c)"
  define sp where "sp = (\<not> truthy (c_customer_phone c1) \<and> truthy (extract_phone env body))"
  define c2 where "c2 = (if sp then c1\<lparr>c_customer_phone := extract_phone env body\<rparr> else c1)"
  define sn where "sn = ((\<not> truthy (c_customer_name c2) \<or> c_customer_name c2 = Some ''Anonymous'')
                        \<and> truthy (extract_name env body))"
  define c3 where "c3 = (if sn then c2\<lparr>c_customer_name := extract_name env body\<rparr> else c2)"
  have upd: "snd (update_conversation_details env c body now s)
        = (if se \<or> sp \<or> sn then save_conversation c3 now s else s)"
    unfolding update_conversation_details_def c3_def sn_def c2_def sp_def c1_def se_def
    by (simp only: Let_def snd_conv)
  have "c_uuid c3 = c_uuid c" "c_handoff_status c3 = c_handoff_status c"
      "c_updated_at c3 = c_updated_at c"
    by (simp_all add: c3_def c2_def c1_def)
  with upd show ?thesis by (cases "se \<or> sp \<or> sn") auto
qed

lemma messages_update_conversation_details [simp]:
  "messages (snd (update_conversation_details env c body now s)) = messages s"
  using update_conversation_details_store [of c env body now s] by auto

lemma handoff_requests_update_conversation_details [simp]:
  "handoff_requests (snd (update_conversation_details env c body now s)) = handoff_requests s"
  using update_conversation_details_store [of c env body now s] by auto

lemma update_conversation_details_updated_at:
  assumes "get_conversation u s = Some c" "c_updated_at c = now"
  shows "map_option c_updated_at
           (get_conversation u (snd (update_conversation_details env c body now s))) = Some now"
proof -
  from assms have u: "c_uuid c = u" using get_conversation_uuid by blast
  from update_conversation_details_store [of c env body now s]
  obtain c3 where c3: "c_uuid c3 = c_uuid c" "c_updated_at c3 = c_updated_at c"
     "snd (update_conversation_details env c body now s) = s
      \<or> snd (update_conversation_details env c body now s) = save_conversation c3 now s"
    by blast
  have "get_conversation u (save_conversation c3 now s)
          = Some (if c3 = c then c else c3\<lparr>c_updated_at := now\<rparr>)"
    using assms(1) c3(1) u by (intro get_conversation_saved) simp_all
  then have "map_option c_updated_at (get_conversation u (save_conversation c3 now s)) = Some now"
    using assms(2) by simp
  with c3(3) assms show ?thesis by auto
qed

lemma touched_twice:
  "(if c\<lparr>c_updated_at := now\<rparr> = c then c
    else c\<lparr>c_updated_at := now, c_updated_at := now\<rparr>) = c\<lparr>c_updated_at := now\<rparr>"
  by (cases "c\<lparr>c_updated_at := now\<rparr> = c") simp_all

lemma relay_human_result:
  assumes "get_conversation u s = Some c"
  shows "messages (fst (relay_human env alive bu c body now s m))
           = messages s @ [\<lparr>m_id = next_message_id s, m_conversation_uuid = u, m_role = ''user'',
                m_content = body, m_feedback = None, m_created_at = now, m_topic = None\<rparr>]"
    and "map_option c_updated_at (get_conversation u (fst (relay_human env alive bu c body now s m)))
           = Some now"
    and "snd (snd (relay_human env alive bu c body now s m))
           = map (\<lambda>ws. Send_json (To_dashboard bu) ws (New_message u bu ''user'') (alive ws))
               (dashboard_group bu m)"
    and "handoff_requests (fst (relay_human env alive bu c body now s m)) = handoff_requests s"
proof -
  from assms have u: "c_uuid c = u" using get_conversation_uuid by blast
  let ?s1 = "add_message u ''user'' body now s"
  let ?c = "c\<lparr>c_updated_at := now\<rparr>"
  let ?s2 = "save_conversation ?c now ?s1"
  have s: "fst (relay_human env alive bu c body now s m)
        = snd (update_conversation_details env ?c body now ?s2)"
    using u by (simp add: relay_human_def Let_def split_beta)
  have "get_conversation u ?s1 = Some c"
    using assms by simp
  then have "get_conversation u ?s2 = Some (if ?c = c then c else ?c\<lparr>c_updated_at := now\<rparr>)"
    by (rule get_conversation_saved) (simp add: u)
  then have row: "get_conversation u ?s2 = Some ?c"
    by (simp add: touched_twice)
  show "messages (fst (relay_human env alive bu c body now s m))
           = messages s @ [\<lparr>m_id = next_message_id s, m_conversation_uuid = u, m_role = ''user'',
                m_content = body, m_feedback = None, m_created_at = now, m_topic = None\<rparr>]"
    by (simp add: s) (simp add: add_message_def)
  show "map_option c_updated_at (get_conversation u (fst (relay_human env alive bu c body now s m)))
           = Some now"
    using update_conversation_details_updated_at [OF row, of now env body] by (simp add: s)
  show "snd (snd (relay_human env alive bu c body now s m))
           = map (\<lambda>ws. Send_json (To_dashboard bu) ws (New_message u bu ''user'') (alive ws))
               (dashboard_group bu m)"
    using u broadcast_to_dashboard_events [of alive "New_message u bu ''user''" bu m]
    by (simp add: relay_human_def Let_def split_beta)
  show "handoff_requests (fst (relay_human env alive bu c body now s m)) = handoff_requests s"
    by (simp add: s add_message_def)
qed

lemma relay_message_human:
  assumes "get_conversation u (r_db r) = Some c" "c_handoff_status c = ''human''"
  shows "relay_message env alive ws bu sid u body now r
         = r\<lparr>r_db := fst (relay_human env alive bu c body now (r_db r) (r_manager r)),
             r_manager := fst (snd (relay_human env alive bu c body now (r_db r) (r_manager r))),
             r_events := r_events r
                @ snd (snd (relay_human env alive bu c body now (r_db r) (r_manager r)))\<rparr>"
  using assms by (simp add: relay_message_def split_beta)

lemma no_generator_call_in_sends:
  "filter generator_call (map (\<lambda>ws. Send_json ch ws fr (alive ws)) conns) = []"
  by (induction conns) simp_all

lemma no_customer_frame_in_broadcast:
  "filter customer_frame (map (\<lambda>ws. Send_json (To_dashboard bu) ws fr (alive ws)) conns) = []"
  by (induction conns) simp_all

text \<open>
  On the first message of a connection the conversation is bound first; the turn is then
  the turn of the bound relay, and the binding calls no generator.
\<close>

lemma step_binds_conversation:
  assumes "r_conversation r = None" "body \<noteq> []"
    and "initialize_conversation alive bu sid client_uuid new_client_uuid new_uuid now
           (r_db r) (r_manager r) = (Some u, s1, m1, sent)"
  shows "websocket_endpoint_step env alive ws bu sid client_uuid new_client_uuid new_uuid now
           (Message (Some body)) r
         = websocket_endpoint_step env alive ws bu sid client_uuid new_client_uuid new_uuid now
             (Message (Some body))
             (r\<lparr>r_conversation := Some u, r_db := s1, r_manager := m1,
                r_events := r_events r @ sent\<rparr>)"
  using assms by (simp add: websocket_endpoint_step_def truthy_def)

lemma initialize_conversation_events:
  "filter generator_call
     (snd (snd (snd (initialize_conversation alive bu sid client_uuid new_client_uuid new_uuid
                       now s m)))) = []"
  by (simp add: initialize_conversation_def Let_def split_beta send_message_events
      broadcast_to_dashboard_events no_generator_call_in_sends split: sum.splits)

text \<open>
  Claim C6.  A message with a body arrives on a relay whose conversation is
  \<open>human\<close>-assigned when it is read again from the store.  Then the message is appended
  to the store with the role \<open>user\<close>, the conversation's \<open>updated_at\<close> is the time of the
  turn, and what is sent during the turn is exactly one \<open>new_message\<close> frame per dashboard
  connection of the chatbot: the response generator is not called, no frame goes to the
  customer's session, and the loop goes on.
\<close>

theorem human_assigned_message_is_stored_not_answered:
  fixes env alive ws bu sid client_uuid new_client_uuid new_uuid now body r
  defines "r' \<equiv> websocket_endpoint_step env alive ws bu sid client_uuid new_client_uuid
                   new_uuid now (Message (Some body)) r"
  assumes "r_conversation r = Some u"
    and "get_conversation u (r_db r) = Some c"
    and "c_handoff_status c = ''human''"
    and "body \<noteq> []"
  shows "messages (r_db r')
           = messages (r_db r) @
               [\<lparr>m_id = next_message_id (r_db r), m_conversation_uuid = u, m_role = ''user'',
                 m_content = body, m_feedback = None, m_created_at = now, m_topic = None\<rparr>]
         \<and> map_option c_updated_at (get_conversation u (r_db r')) = Some now
         \<and> r_events r'
           = r_events r @
               map (\<lambda>w. Send_json (To_dashboard bu) w (New_message u bu ''user'') (alive w))
                 (dashboard_group bu (r_manager r))
         \<and> filter generator_call (drop (length (r_events r)) (r_events r')) = []
         \<and> filter customer_frame (drop (length (r_events r)) (r_events r')) = []
         \<and> r_connected r' = r_connected r"
proof -
  have step: "r' = relay_message env alive ws bu sid u body now r"
    using assms(2,5) by (simp add: r'_def websocket_endpoint_step_def truthy_def)
  note res = relay_human_result [OF assms(3), of env alive bu body now "r_manager r"]
  have r: "r' = r\<lparr>r_db := fst (relay_human env alive bu c body now (r_db r) (r_manager r)),
             r_manager := fst (snd (relay_human env alive bu c body now (r_db r) (r_manager r))),
             r_events := r_events r
                @ snd (snd (relay_human env alive bu c body now (r_db r) (r_manager r)))\<rparr>"
    unfolding step using assms(3,4) by (rule relay_message_human)
  have ev: "r_events r'
         = r_events r @
             map (\<lambda>w. Send_json (To_dashboard bu) w (New_message u bu ''user'') (alive w))
               (dashboard_group bu (r_manager r))"
    by (simp add: r res(3))
  have "messages (r_db r')
         = messages (r_db r) @
             [\<lparr>m_id = next_message_id (r_db r), m_conversation_uuid = u, m_role = ''user'',
               m_content = body, m_feedback = None, m_created_at = now, m_topic = None\<rparr>]"
    by (simp add: r res(1))
  moreover have "map_option c_updated_at (get_conversation u (r_db r')) = Some now"
    by (simp add: r res(2))
  moreover have "filter generator_call (drop (length (r_events r)) (r_events r')) = []"
    unfolding ev by (simp add: no_generator_call_in_sends)
  moreover have "filter customer_frame (drop (length (r_events r)) (r_events r')) = []"
    unfolding ev by (simp add: no_customer_frame_in_broadcast)
  moreover have "r_connected r' = r_connected r"
    by (simp add: r)
  ultimately show ?thesis using ev by simp
qed

theorem human_assigned_message_is_stored_not_answered_witness:
  "r_conversation relay_on_human = Some ''conv-1''
   \<and> map_option c_handoff_status (get_conversation ''conv-1'' (r_db relay_on_human))
       = Some ''human''
   \<and> map m_role
        (messages (r_db (websocket_endpoint_step eager_collaborators everybody_alive 7 ''bot-1''
           ''session-A'' (Some ''client-1'') ''client-2'' ''conv-2'' 40
           (Message (Some ''are you there?'')) relay_on_human))) = [''user'']
   \<and> r_events (websocket_endpoint_step eager_collaborators everybody_alive 7 ''bot-1''
           ''session-A'' (Some ''client-1'') ''client-2'' ''conv-2'' 40
           (Message (Some ''are you there?'')) relay_on_human)
       = [Send_json (To_dashboard ''bot-1'') 9 (New_message ''conv-1'' ''bot-1'' ''user'') True]"
proof -
  have g: "get_conversation ''conv-1'' (r_db relay_on_human)
        = Some (conversation_1\<lparr>c_handoff_status := ''human'',
               c_assigned_to_user_uuid := Some ''agent-1'', c_updated_at := 20\<rparr>)"
    by (simp add: relay_on_human_def store_human_eq get_conversation_def conversation_1_def)
  have b: "r_conversation relay_on_human = Some ''conv-1''" "r_events relay_on_human = []"
      "messages (r_db relay_on_human) = []"
      "dashboard_group ''bot-1'' (r_manager relay_on_human) = [9]"
    by (simp_all add: relay_on_human_def store_human_eq manager_live_eq dashboard_group_def)
  from human_assigned_message_is_stored_not_answered
    [where r = relay_on_human and u = "''conv-1''" and body = "''are you there?''"
       and env = eager_collaborators and alive = everybody_alive and ws = 7
       and bu = "''bot-1''" and sid = "''session-A''" and client_uuid = "Some ''client-1''"
       and new_client_uuid = "''client-2''" and new_uuid = "''conv-2''" and now = 40,
     OF b(1) g]
    b g
  show ?thesis by (simp add: everybody_alive_def)
qed

section \<open>An exception during generation\<close>

lemma relay_message_automated:
  assumes "get_conversation u (r_db r) = Some c" "c_handoff_status c \<noteq> ''human''"
    "c_handoff_status c \<noteq> ''requested''"
  shows "relay_message env alive ws bu sid u body now r
         = r\<lparr>r_db := fst (relay_automated env alive bu sid c body now (r_db r) (r_manager r)),
             r_manager := fst (snd (relay_automated env alive bu sid c body now (r_db r) (r_manager r))),
             r_events := r_events r
                @ snd (snd (relay_automated env alive bu sid c body now (r_db r) (r_manager r)))\<rparr>"
  using assms by (simp add: relay_message_def split_beta)

lemma relay_automated_failure:
  assumes "stream_message env (handle_chunk alive sid now) bu (c_uuid c) body now s
             (fst (send_message alive (Typing True) sid m)) = (Inl e, s1, m2, sent2)"
  shows "fst (relay_automated env alive bu sid c body now s m) = s1"
    and "snd (snd (relay_automated env alive bu sid c body now s m))
         = map (\<lambda>w. Send_json (To_session sid) w (Typing True) (alive w)) (session_group sid m)
           @ sent2
           @ map (\<lambda>w. Send_json (To_session sid) w (Typing False) (alive w)) (session_group sid m2)
           @ map (\<lambda>w. Send_json (To_session sid) w
                         (Error_frame (if str_error e \<noteq> [] then str_error e
                                       else ''Failed to process message'')) (alive w))
               (session_group sid (fst (send_message alive (Typing False) sid m2)))"
  using assms
  by (simp_all add: relay_automated_def split_beta send_message_events)

lemma history_empty: "messages s = [] \<Longrightarrow> history u s = []"
  by (simp add: history_def order_by_desc_def)

lemma prepare_chat_run_hello:
  assumes "has_credits_for_chatbot env ''bot-1''"
    "extract_email env ''hello'' = None" "extract_phone env ''hello'' = None"
    "extract_name env ''hello'' = None"
  shows "prepare_chat_run env ''bot-1'' ''conv-1'' ''hello'' 40 store_automated
         = (Inr (conversation_1, [HumanMessage ''hello'']), store_after_hello)"
  using assms
  by (simp add: prepare_chat_run_def history_empty get_chatbot_def get_conversation_def
        store_automated_def conversation_1_def update_conversation_details_def truthy_def
        add_message_def store_after_hello_def Let_def)

lemma send_typing_live:
  "send_message everybody_alive fr ''session-A'' manager_live
   = (manager_live, [Send_json (To_session ''session-A'') 7 fr True])"
  by (simp add: send_message_def manager_live_eq everybody_alive_def)

lemma stream_message_fails:
  "stream_message failing_collaborators (handle_chunk everybody_alive ''session-A'' 40)
     ''bot-1'' ''conv-1'' ''hello'' 40 store_automated manager_live
   = (Inl (Exception ''PineconeApiException: (401) Unauthorized, api key pc-4f2a rejected''),
      store_after_hello, manager_live, [Generate ''conv-1'' ''hello''])"
proof -
  have "prepare_chat_run failing_collaborators ''bot-1'' ''conv-1'' ''hello'' 40 store_automated
         = (Inr (conversation_1, [HumanMessage ''hello'']), store_after_hello)"
    by (rule prepare_chat_run_hello)
       (simp_all add: failing_collaborators_def quiet_collaborators_def)
  then show ?thesis
    by (simp add: stream_message_def failing_collaborators_def)
qed

text \<open>
  Claim C8, as amended.  When \<open>stream_message\<close> raises on the automated branch, the relay
  sends, after the typing indicator and whatever the stream had sent, a \<open>typing: false\<close>
  frame and then an error frame to the connections of the session.  The message of the
  error frame is the text of the exception itself, \<open>str(e)\<close>; only for an exception with
  an empty text is it the fixed \<open>Failed to process message\<close>.  The store is what
  \<open>stream_message\<close> left, the conversation stays bound and the loop goes on.
\<close>

theorem generation_failure_sends_exception_text:
  fixes env alive ws bu sid client_uuid new_client_uuid new_uuid now body r
  defines "r' \<equiv> websocket_endpoint_step env alive ws bu sid client_uuid new_client_uuid
                   new_uuid now (Message (Some body)) r"
  assumes "r_conversation r = Some u"
    and "get_conversation u (r_db r) = Some c"
    and "c_handoff_status c \<noteq> ''human''"
    and "c_handoff_status c \<noteq> ''requested''"
    and "body \<noteq> []"
    and "stream_message env (handle_chunk alive sid now) bu u body now (r_db r)
           (fst (send_message alive (Typing True) sid (r_manager r))) = (Inl e, s1, m2, sent2)"
  shows "r_events r'
           = r_events r
             @ map (\<lambda>w. Send_json (To_session sid) w (Typing True) (alive w))
                 (session_group sid (r_manager r))
             @ sent2
             @ map (\<lambda>w. Send_json (To_session sid) w (Typing False) (alive w))
                 (session_group sid m2)
             @ map (\<lambda>w. Send_json (To_session sid) w
                           (Error_frame (if str_error e \<noteq> [] then str_error e
                                         else ''Failed to process message'')) (alive w))
                 (session_group sid (fst (send_message alive (Typing False) sid m2)))
         \<and> r_db r' = s1
         \<and> r_conversation r' = r_conversation r
         \<and> r_connected r' = r_connected r"
proof -
  have u: "c_uuid c = u" using assms(3) get_conversation_uuid by blast
  have step: "r' = relay_message env alive ws bu sid u body now r"
    using assms(2,6) by (simp add: r'_def websocket_endpoint_step_def truthy_def)
  have r: "r' = r\<lparr>r_db := fst (relay_automated env alive bu sid c body now (r_db r) (r_manager r)),
             r_manager := fst (snd (relay_automated env alive bu sid c body now (r_db r) (r_manager r))),
             r_events := r_events r
                @ snd (snd (relay_automated env alive bu sid c body now (r_db r) (r_manager r)))\<rparr>"
    unfolding step using assms(3,4,5) by (rule relay_message_automated)
  from assms(7) u have f: "stream_message env (handle_chunk alive sid now) bu (c_uuid c) body now
      (r_db r) (fst (send_message alive (Typing True) sid (r_manager r))) = (Inl e, s1, m2, sent2)"
    by simp
  show ?thesis
    by (simp add: r relay_automated_failure [OF f])
qed

theorem generation_failure_sends_exception_text_witness:
  "r_conversation relay_on_automated = Some ''conv-1''
   \<and> map_option c_handoff_status (get_conversation ''conv-1'' (r_db relay_on_automated))
       = Some ''ai''
   \<and> r_events (websocket_endpoint_step failing_collaborators everybody_alive 7 ''bot-1''
         ''session-A'' (Some ''client-1'') ''client-2'' ''conv-2'' 40 (Message (Some ''hello''))
         relay_on_automated)
       = [Send_json (To_session ''session-A'') 7 (Typing True) True,
          Generate ''conv-1'' ''hello'',
          Send_json (To_session ''session-A'') 7 (Typing False) True,
          Send_json (To_session ''session-A'') 7
            (Error_frame ''PineconeApiException: (401) Unauthorized, api key pc-4f2a rejected'')
            True]
   \<and> r_connected (websocket_endpoint_step failing_collaborators everybody_alive 7 ''bot-1''
         ''session-A'' (Some ''client-1'') ''client-2'' ''conv-2'' 40 (Message (Some ''hello''))
         relay_on_automated)"
proof -
  have g: "get_conversation ''conv-1'' (r_db relay_on_automated) = Some conversation_1"
    by (simp add: relay_on_automated_def store_automated_def get_conversation_def
        conversation_1_def)
  have b: "r_conversation relay_on_automated = Some ''conv-1''"
      "r_events relay_on_automated = []" "r_connected relay_on_automated"
      "r_db relay_on_automated = store_automated" "r_manager relay_on_automated = manager_live"
    by (simp_all add: relay_on_automated_def)
  have st: "c_handoff_status conversation_1 = ''ai''" by (simp add: conversation_1_def)
  have grp: "session_group ''session-A'' manager_live = [7]"
    by (simp add: session_group_def manager_live_eq)
  have f: "stream_message failing_collaborators (handle_chunk everybody_alive ''session-A'' 40)
      ''bot-1'' ''conv-1'' ''hello'' 40 (r_db relay_on_automated)
      (fst (send_message everybody_alive (Typing True) ''session-A'' (r_manager relay_on_automated)))
    = (Inl (Exception ''PineconeApiException: (401) Unauthorized, api key pc-4f2a rejected''),
       store_after_hello, manager_live, [Generate ''conv-1'' ''hello''])"
    by (simp add: b send_typing_live stream_message_fails)
  from generation_failure_sends_exception_text
    [where r = relay_on_automated and u = "''conv-1''" and c = conversation_1
       and body = "''hello''" and env = failing_collaborators and alive = everybody_alive
       and sid = "''session-A''" and now = 40 and bu = "''bot-1''" and ?s1.0 = store_after_hello
       and ?m2.0 = manager_live and ?sent2.0 = "[Generate ''conv-1'' ''hello'']" and ws = 7
       and client_uuid = "Some ''client-1''" and new_client_uuid = "''client-2''"
       and new_uuid = "''conv-2''",
     OF b(1) g _ _ _ f]
  moreover have "get_conversation ''conv-1'' store_automated = Some conversation_1"
    using g by (simp add: b)
  ultimately show ?thesis
    by (simp add: b st grp send_typing_live everybody_alive_def)
qed

text \<open>
  The error frame is not generic: when the vector index rejects its key, the customer's
  connection gets the text of that exception, key included.
\<close>

theorem error_frame_generic_counterexample:
  "user_explicitly_requests_handoff failing_collaborators ''hello'' = False
   \<and> retrieve_context failing_collaborators ''bot-1'' ''hello''
       = Inl (Exception ''PineconeApiException: (401) Unauthorized, api key pc-4f2a rejected'')
   \<and> r_events (websocket_endpoint_step failing_collaborators everybody_alive 7 ''bot-1''
         ''session-A'' (Some ''client-1'') ''client-2'' ''conv-2'' 40 (Message (Some ''hello''))
         relay_on_automated)
       = [Send_json (To_session ''session-A'') 7 (Typing True) True,
          Generate ''conv-1'' ''hello'',
          Send_json (To_session ''session-A'') 7 (Typing False) True,
          Send_json (To_session ''session-A'') 7
            (Error_frame ''PineconeApiException: (401) Unauthorized, api key pc-4f2a rejected'')
            True]"
proof -
  have g: "get_conversation ''conv-1'' store_automated = Some conversation_1"
    by (simp add: store_automated_def get_conversation_def conversation_1_def)
  have st: "c_handoff_status conversation_1 = ''ai''" "c_uuid conversation_1 = ''conv-1''"
    by (simp_all add: conversation_1_def)
  have "r_events (relay_message failing_collaborators everybody_alive 7 ''bot-1''
         ''session-A'' ''conv-1'' ''hello'' 40 relay_on_automated)
       = [Send_json (To_session ''session-A'') 7 (Typing True) True,
          Generate ''conv-1'' ''hello'',
          Send_json (To_session ''session-A'') 7 (Typing False) True,
          Send_json (To_session ''session-A'') 7
            (Error_frame ''PineconeApiException: (401) Unauthorized, api key pc-4f2a rejected'')
            True]"
    by (simp add: relay_message_def relay_on_automated_def g st relay_automated_def
        send_typing_live stream_message_fails)
  then show ?thesis
    by (simp add: websocket_endpoint_step_def truthy_def relay_on_automated_def
        failing_collaborators_def quiet_collaborators_def)
qed

section \<open>An explicit request for a human\<close>

lemma handoff_status_save:
  assumes "get_conversation (c_uuid c') s = Some c" "c_handoff_status c' = c_handoff_status c"
  shows "map_option c_handoff_status (get_conversation v (save_conversation c' now s))
         = map_option c_handoff_status (get_conversation v s)"
proof (cases "v = c_uuid c'")
  case True
  have "c_handoff_status (if c' = c then c else c'\<lparr>c_updated_at := now\<rparr>) = c_handoff_status c"
    using assms(2) by simp
  with True assms(1) show ?thesis
    by (simp add: get_conversation_saved [OF assms(1) refl] del: if_split)
next
  case False
  have "get_conversation v (save_conversation c' now s) = get_conversation v s"
  proof (cases "get_conversation v s")
    case None
    then show ?thesis by (simp add: get_conversation_save_conversation)
  next
    case (Some x)
    then have "c_uuid x = v" by (rule get_conversation_uuid)
    with False Some show ?thesis by (simp add: get_conversation_save_conversation)
  qed
  then show ?thesis by simp
qed

lemma handoff_status_update_conversation_details:
  assumes "get_conversation u s = Some c"
  shows "map_option c_handoff_status
           (get_conversation v (snd (update_conversation_details env c body now s)))
         = map_option c_handoff_status (get_conversation v s)"
proof -
  from assms have u: "c_uuid c = u" by (rule get_conversation_uuid)
  from update_conversation_details_store [of c env body now s]
  obtain c3 where c3: "c_uuid c3 = c_uuid c" "c_handoff_status c3 = c_handoff_status c"
     "snd (update_conversation_details env c body now s) = s
      \<or> snd (update_conversation_details env c body now s) = save_conversation c3 now s"
    by blast
  have "map_option c_handoff_status (get_conversation v (save_conversation c3 now s))
         = map_option c_handoff_status (get_conversation v s)"
    using assms u c3(1,2) by (intro handoff_status_save [where c = c]) simp_all
  with c3(3) show ?thesis by auto
qed

lemma handoff_status_touch:
  "map_option c_handoff_status (get_conversation v (touch_conversation u now s))
   = map_option c_handoff_status (get_conversation v s)"
proof (cases "get_conversation u s")
  case None
  then show ?thesis by (simp add: touch_conversation_def)
next
  case (Some c)
  then have u: "c_uuid c = u" by (rule get_conversation_uuid)
  have "map_option c_handoff_status
          (get_conversation v (save_conversation (c\<lparr>c_updated_at := now\<rparr>) now s))
        = map_option c_handoff_status (get_conversation v s)"
    using Some u by (intro handoff_status_save [where c = c]) simp_all
  with Some show ?thesis by (simp add: touch_conversation_def)
qed

lemma handoff_requests_add_message [simp]:
  "handoff_requests (add_message u role content now s) = handoff_requests s"
  by (simp add: add_message_def)

lemma handoff_requests_touch [simp]:
  "handoff_requests (touch_conversation u now s) = handoff_requests s"
  by (simp add: touch_conversation_def split: option.splits)

lemma prepare_chat_run_authority:
  "handoff_requests (snd (prepare_chat_run env bu u body now s)) = handoff_requests s
   \<and> map_option c_handoff_status (get_conversation v (snd (prepare_chat_run env bu u body now s)))
     = map_option c_handoff_status (get_conversation v s)"
proof (cases "get_chatbot bu s = None \<or> \<not> has_credits_for_chatbot env bu
              \<or> get_conversation u s = None")
  case True
  then have "snd (prepare_chat_run env bu u body now s) = s"
    by (auto simp: prepare_chat_run_def split: option.splits)
  then show ?thesis by simp
next
  case False
  then obtain c where c: "get_conversation u s = Some c" by auto
  with False have "snd (prepare_chat_run env bu u body now s)
      = snd (update_conversation_details env c body now (add_message u ''user'' body now s))"
    by (auto simp: prepare_chat_run_def Let_def split: option.splits)
  moreover have "get_conversation u (add_message u ''user'' body now s) = Some c"
    using c by simp
  ultimately show ?thesis
    using handoff_status_update_conversation_details
      [of u "add_message u ''user'' body now s" c v env body now]
    by simp
qed

lemma stream_message_store:
  "fst (snd (stream_message env on_chunk bu u body now s m))
     = snd (prepare_chat_run env bu u body now s)
   \<or> (\<exists>answer. fst (snd (stream_message env on_chunk bu u body now s m))
     = touch_conversation u now
         (add_message u ''assistant'' answer now (snd (prepare_chat_run env bu u body now s))))"
  by (auto simp: stream_message_def split_beta split: prod.splits sum.splits option.splits)

text \<open>
  \<open>stream_message\<close> writes no handoff request and changes no conversation's
  \<open>handoff_status\<close>, whatever the collaborators answer.
\<close>

lemma stream_message_never_hands_off:
  "handoff_requests (fst (snd (stream_message env on_chunk bu u body now s m)))
     = handoff_requests s
   \<and> map_option c_handoff_status
       (get_conversation v (fst (snd (stream_message env on_chunk bu u body now s m))))
     = map_option c_handoff_status (get_conversation v s)"
  using stream_message_store [of env on_chunk bu u body now s m]
    prepare_chat_run_authority [of env bu u body now s v]
  by (auto simp: handoff_status_touch)

lemma prepare_chat_run_request:
  "prepare_chat_run asking_collaborators ''bot-1'' ''conv-1'' ''I want to talk to a human'' 40
     store_automated
   = (Inr (conversation_1, [HumanMessage ''I want to talk to a human'']),
      store_automated
        \<lparr>messages :=
           [\<lparr>m_id = 1, m_conversation_uuid = ''conv-1'', m_role = ''user'',
             m_content = ''I want to talk to a human'', m_feedback = None, m_created_at = 40,
             m_topic = None\<rparr>],
         next_message_id := 2\<rparr>)"
  by (simp add: prepare_chat_run_def history_empty get_chatbot_def get_conversation_def
        store_automated_def conversation_1_def update_conversation_details_def truthy_def
        add_message_def asking_collaborators_def quiet_collaborators_def Let_def)

lemma handle_chunk_live:
  "handle_chunk everybody_alive ''session-A'' 40 delta manager_live
   = (manager_live, [Send_json (To_session ''session-A'') 7 (Message_chunk delta 40) True])"
  by (simp add: handle_chunk_def send_typing_live)

lemma stream_message_request:
  "stream_message asking_collaborators (handle_chunk everybody_alive ''session-A'' 40)
     ''bot-1'' ''conv-1'' ''I want to talk to a human'' 40 store_automated manager_live
   = (Inr ''We are open.'', store_after_request, manager_live,
      [Generate ''conv-1'' ''I want to talk to a human'',
       Send_json (To_session ''session-A'') 7 (Message_chunk ''We are '' 40) True,
       Send_json (To_session ''session-A'') 7 (Message_chunk ''open.'' 40) True])"
  by (simp add: stream_message_def prepare_chat_run_request handle_chunk_live)
     (simp add: asking_collaborators_def quiet_collaborators_def handle_chunk_live
        touch_conversation_def add_message_def get_conversation_def save_conversation_def
        store_automated_def store_after_request_def conversation_1_def)

text \<open>
  Claim C2, where the code falls short of it.  The customer of \<open>conv-1\<close>, answered by the
  automated responder, sends \<open>I want to talk to a human\<close> over the WebSocket, and the
  classifier of explicit requests says yes.  The relay streams the generator's answer and
  completes the turn; the store afterwards holds the two messages, no handoff request,
  and the conversation is still \<open>ai\<close>.
\<close>

theorem streaming_path_ignores_explicit_request:
  "user_explicitly_requests_handoff asking_collaborators ''I want to talk to a human''
   \<and> map c_handoff_status (conversations (r_db relay_on_automated)) = [''ai'']
   \<and> r_db (websocket_endpoint_step asking_collaborators everybody_alive 7 ''bot-1''
         ''session-A'' (Some ''client-1'') ''client-2'' ''conv-2'' 40
         (Message (Some ''I want to talk to a human'')) relay_on_automated)
       = store_after_request
   \<and> handoff_requests store_after_request = []
   \<and> map c_handoff_status (conversations store_after_request) = [''ai'']
   \<and> r_events (websocket_endpoint_step asking_collaborators everybody_alive 7 ''bot-1''
         ''session-A'' (Some ''client-1'') ''client-2'' ''conv-2'' 40
         (Message (Some ''I want to talk to a human'')) relay_on_automated)
       = [Send_json (To_session ''session-A'') 7 (Typing True) True,
          Generate ''conv-1'' ''I want to talk to a human'',
          Send_json (To_session ''session-A'') 7 (Message_chunk ''We are '' 40) True,
          Send_json (To_session ''session-A'') 7 (Message_chunk ''open.'' 40) True,
          Send_json (To_session ''session-A'') 7 (Typing False) True,
          Send_json (To_session ''session-A'') 7 (Message_complete ''We are open.'' 40 (Some 2))
            True,
          Send_json (To_dashboard ''bot-1'') 9 (New_message ''conv-1'' ''bot-1'' ''assistant'')
            True]"
proof -
  have g: "get_conversation ''conv-1'' store_automated = Some conversation_1"
    by (simp add: store_automated_def get_conversation_def conversation_1_def)
  have st: "c_handoff_status conversation_1 = ''ai''" "c_uuid conversation_1 = ''conv-1''"
    by (simp_all add: conversation_1_def)
  have last: "last_assistant_message ''conv-1'' store_after_request
      = Some \<lparr>m_id = 2, m_conversation_uuid = ''conv-1'', m_role = ''assistant'',
            m_content = ''We are open.'', m_feedback = None, m_created_at = 40,
            m_topic = None\<rparr>"
    by (simp add: last_assistant_message_def store_after_request_def order_by_desc_def)
  have bc: "broadcast_to_dashboard everybody_alive fr ''bot-1'' manager_live
      = (manager_live, [Send_json (To_dashboard ''bot-1'') 9 fr True])" for fr
    by (simp add: broadcast_to_dashboard_def manager_live_eq everybody_alive_def)
  have "relay_message asking_collaborators everybody_alive 7 ''bot-1''
         ''session-A'' ''conv-1'' ''I want to talk to a human'' 40 relay_on_automated
       = relay_on_automated
          \<lparr>r_db := store_after_request,
           r_manager := manager_live,
           r_events :=
             [Send_json (To_session ''session-A'') 7 (Typing True) True,
              Generate ''conv-1'' ''I want to talk to a human'',
              Send_json (To_session ''session-A'') 7 (Message_chunk ''We are '' 40) True,
              Send_json (To_session ''session-A'') 7 (Message_chunk ''open.'' 40) True,
              Send_json (To_session ''session-A'') 7 (Typing False) True,
              Send_json (To_session ''session-A'') 7
                (Message_complete ''We are open.'' 40 (Some 2)) True,
              Send_json (To_dashboard ''bot-1'') 9
                (New_message ''conv-1'' ''bot-1'' ''assistant'') True]\<rparr>"
    by (simp add: relay_message_def relay_on_automated_def g st relay_automated_def
        send_typing_live stream_message_request last bc)
  then have "websocket_endpoint_step asking_collaborators everybody_alive 7 ''bot-1''
         ''session-A'' (Some ''client-1'') ''client-2'' ''conv-2'' 40
         (Message (Some ''I want to talk to a human'')) relay_on_automated
       = relay_on_automated
          \<lparr>r_db := store_after_request,
           r_manager := manager_live,
           r_events :=
             [Send_json (To_session ''session-A'') 7 (Typing True) True,
              Generate ''conv-1'' ''I want to talk to a human'',
              Send_json (To_session ''session-A'') 7 (Message_chunk ''We are '' 40) True,
              Send_json (To_session ''session-A'') 7 (Message_chunk ''open.'' 40) True,
              Send_json (To_session ''session-A'') 7 (Typing False) True,
              Send_json (To_session ''session-A'') 7
                (Message_complete ''We are open.'' 40 (Some 2)) True,
              Send_json (To_dashboard ''bot-1'') 9
                (New_message ''conv-1'' ''bot-1'' ''assistant'') True]\<rparr>"
    by (simp add: websocket_endpoint_step_def truthy_def relay_on_automated_def)
  then show ?thesis
    by (simp add: asking_collaborators_def relay_on_automated_def store_automated_def
        store_after_request_def conversation_1_def)
qed

text \<open>
  The non-streaming path does what the claim says: when \<open>process_message\<close> gets an answer
  from the workflow and the classifier says yes, a pending request of the conversation
  exists afterwards and the conversation is \<open>requested\<close> (for a conversation without a
  pending request before).
\<close>

lemma create_handoff_request_new:
  assumes "find (\<lambda>r. h_conversation_uuid r = u \<and> h_status r = ''pending'') (handoff_requests s) = None"
    and "get_conversation u s = Some c"
  shows "find (\<lambda>r. h_conversation_uuid r = u \<and> h_status r = ''pending'')
           (handoff_requests (snd (create_handoff_request u bu reason now s)))
         = Some \<lparr>h_id = next_handoff_id s, h_conversation_uuid = u, h_chatbot_uuid = bu,
                 h_status = ''pending'', h_requested_at = now, h_accepted_at = None,
                 h_accepted_by_user_uuid = None, h_resolved_at = None, h_reason = reason\<rparr>"
    and "map_option c_handoff_status
           (get_conversation u (snd (create_handoff_request u bu reason now s)))
         = Some ''requested''"
proof -
  from assms(2) have u: "c_uuid c = u" by (rule get_conversation_uuid)
  show "find (\<lambda>r. h_conversation_uuid r = u \<and> h_status r = ''pending'')
           (handoff_requests (snd (create_handoff_request u bu reason now s)))
         = Some \<lparr>h_id = next_handoff_id s, h_conversation_uuid = u, h_chatbot_uuid = bu,
                 h_status = ''pending'', h_requested_at = now, h_accepted_at = None,
                 h_accepted_by_user_uuid = None, h_resolved_at = None, h_reason = reason\<rparr>"
    using assms by (simp add: create_handoff_request_def Let_def find_append_first
        save_conversation_def)
  have "get_conversation u (snd (create_handoff_request u bu reason now s))
        = get_conversation u (save_conversation (c\<lparr>c_handoff_status := ''requested''\<rparr>) now s)"
    using assms by (simp add: create_handoff_request_def Let_def get_conversation_def)
  then show "map_option c_handoff_status
           (get_conversation u (snd (create_handoff_request u bu reason now s)))
         = Some ''requested''"
    using assms(2) u by (simp add: get_conversation_save_conversation write_back_field)
qed

theorem process_message_hands_off_on_explicit_request:
  assumes "get_chatbot bu s \<noteq> None"
    and "has_credits_for_chatbot env bu"
    and "get_conversation u s = Some c"
    and "graph_ainvoke env bu (history u s @ [HumanMessage body]) = Inr (answer, offer)"
    and "user_explicitly_requests_handoff env body"
    and "find (\<lambda>r. h_conversation_uuid r = u \<and> h_status r = ''pending'') (handoff_requests s)
         = None"
  shows "map_option h_status
           (find (\<lambda>r. h_conversation_uuid r = u \<and> h_status r = ''pending'')
              (handoff_requests (fst (snd (process_message env bu u body now s)))))
         = Some ''pending''
       \<and> map_option c_handoff_status
           (get_conversation u (fst (snd (process_message env bu u body now s))))
         = Some ''requested''"
proof -
  define s1 where "s1 = snd (prepare_chat_run env bu u body now s)"
  have prep: "prepare_chat_run env bu u body now s
              = (Inr (c, history u s @ [HumanMessage body]), s1)"
    using assms(1-3) by (auto simp: prepare_chat_run_def Let_def s1_def)
  have hr1: "handoff_requests s1 = handoff_requests s"
    using prepare_chat_run_authority [of env bu u body now s u] by (simp add: s1_def)
  from prepare_chat_run_row [OF assms(3), of env bu body now]
  obtain c1 where c1: "get_conversation u s1 = Some c1" by (auto simp: s1_def)
  define ai_response where "ai_response =
     (if \<not> mentions_customer_service answer
      then ''I understand you'd like to speak with a customer service representative. Let me connect you with someone who can help you better.''
      else answer)"
  define s2 where "s2 = add_message u ''assistant'' ai_response now s1"
  define s3 where "s3 = snd (create_handoff_request u bu
      (Some ''User explicitly requested customer service'') now s2)"
  have res: "fst (snd (process_message env bu u body now s)) = touch_conversation u now s3"
    using assms(4,5) by (simp add: process_message_def prep Let_def s3_def s2_def ai_response_def)
  have none2: "find (\<lambda>r. h_conversation_uuid r = u \<and> h_status r = ''pending'')
                 (handoff_requests s2) = None"
    using assms(6) hr1 by (simp add: s2_def)
  have row2: "get_conversation u s2 = Some c1"
    using c1 by (simp add: s2_def)
  note new = create_handoff_request_new [OF none2 row2, of bu
      "Some ''User explicitly requested customer service''" now]
  have "map_option h_status
           (find (\<lambda>r. h_conversation_uuid r = u \<and> h_status r = ''pending'')
              (handoff_requests (touch_conversation u now s3))) = Some ''pending''"
    using new(1) by (simp add: s3_def)
  moreover have "map_option c_handoff_status (get_conversation u (touch_conversation u now s3))
      = Some ''requested''"
    using new(2) by (simp add: handoff_status_touch s3_def)
  ultimately show ?thesis by (simp add: res)
qed

theorem process_message_hands_off_on_explicit_request_witness:
  "get_chatbot ''bot-1'' store_automated \<noteq> None
   \<and> has_credits_for_chatbot asking_collaborators ''bot-1''
   \<and> user_explicitly_requests_handoff asking_collaborators ''I want to talk to a human''
   \<and> handoff_requests store_automated = []
   \<and> map_option c_handoff_status (get_conversation ''conv-1'' store_automated) = Some ''ai''
   \<and> map_option c_handoff_status
        (get_conversation ''conv-1''
           (fst (snd (process_message asking_collaborators ''bot-1'' ''conv-1''
                        ''I want to talk to a human'' 40 store_automated))))
       = Some ''requested''
   \<and> map_option h_status
        (find (\<lambda>r. h_conversation_uuid r = ''conv-1'' \<and> h_status r = ''pending'')
           (handoff_requests
              (fst (snd (process_message asking_collaborators ''bot-1'' ''conv-1''
                           ''I want to talk to a human'' 40 store_automated)))))
       = Some ''pending''"
proof -
  have a: "get_chatbot ''bot-1'' store_automated \<noteq> None"
      "has_credits_for_chatbot asking_collaborators ''bot-1''"
      "get_conversation ''conv-1'' store_automated = Some conversation_1"
      "graph_ainvoke asking_collaborators ''bot-1''
         (history ''conv-1'' store_automated @ [HumanMessage ''I want to talk to a human''])
       = Inr (''We are open.'', False)"
      "user_explicitly_requests_handoff asking_collaborators ''I want to talk to a human''"
      "find (\<lambda>r. h_conversation_uuid r = ''conv-1'' \<and> h_status r = ''pending'')
         (handoff_requests store_automated) = None"
      "handoff_requests store_automated = []"
      "c_handoff_status conversation_1 = ''ai''"
    by (simp_all add: get_chatbot_def get_conversation_def store_automated_def
        asking_collaborators_def quiet_collaborators_def conversation_1_def)
  from process_message_hands_off_on_explicit_request [OF a(1-6), of 40] a
  show ?thesis by simp
qed


end
